theory Spec2Isabelle
  imports Complex_Main "HOL-Library.AList" "HOL-Library.Log_Nat"
begin

section \<open>Conventions of the embedding\<close>

text \<open>
  The development embeds the layout engine of Papyrus (\<^verbatim>\<open>layout/builder.go\<close>,
  \<^verbatim>\<open>layout/units.go\<close>, \<^verbatim>\<open>layout/options.go\<close>) and its data binder
  (\<^verbatim>\<open>binding\<close>) as HOL functions.

  \<^item> In the layout engine Go's \<^verbatim>\<open>float64\<close> is modelled by \<^typ>\<open>real\<close>: rounding,
    infinities and NaN are not represented, and the statements about the engine are about
    the arithmetic the code writes down, computed exactly. The unit conversions of
    \<^verbatim>\<open>units.go\<close> are modelled a second time with the rounding of \<^verbatim>\<open>float64\<close>.
  \<^item> Go's \<^verbatim>\<open>string\<close> is a byte sequence and is modelled by \<^typ>\<open>string\<close>.
  \<^item> A Go \<^verbatim>\<open>map[string]T\<close> that is only read and written by key is a HOL map; a map
    the code ranges over is an association list, and the order of the range is a
    parameter.
  \<^item> A nil-able pointer is an \<^typ>\<open>'a option\<close>.
  \<^item> Functions of the Go standard library and the external Typesetter are parameters,
    collected in the record \<open>lib\<close>; theorems hold for every value of it.
\<close>

section \<open>Standard-library parameters\<close>

datatype any =
    ANil
  | AMap "(string \<times> any) list"
  | AArray "any list"
  | AString string
  | ANumber real
  | ABool bool

record lib =
  ParseFloat :: "string \<Rightarrow> real option"
  Atoi :: "string \<Rightarrow> int option"
  ParseIntHex :: "string \<Rightarrow> int"
  ToLower :: "string \<Rightarrow> string"
  ToUpper :: "string \<Rightarrow> string"
  TrimSpace :: "string \<Rightarrow> string"
  EqualFold :: "string \<Rightarrow> string \<Rightarrow> bool"
  RuneCountInString :: "string \<Rightarrow> nat"
  Sprint :: "any \<Rightarrow> string"
  RangeOrder :: "string list \<Rightarrow> string list"
  RangePick :: nat

text \<open>
  \<open>ParseFloat s\<close> is \<^verbatim>\<open>strconv.ParseFloat(s, 64)\<close> with \<open>None\<close> for a non-nil error;
  \<open>Atoi\<close> likewise. \<open>ParseIntHex s\<close> is the value component of
  \<^verbatim>\<open>strconv.ParseInt(s, 16, 64)\<close>, whatever the error. \<open>RangeOrder ks\<close> is the order
  in which a \<^verbatim>\<open>range\<close> loop visits the keys \<open>ks\<close> of a map, and \<open>RangePick\<close> selects
  the entry such a loop sees first.
\<close>

section \<open>String helpers (package strings)\<close>

definition HasSuffix :: "string \<Rightarrow> string \<Rightarrow> bool" where
  "HasSuffix s suffix \<longleftrightarrow>
     length suffix \<le> length s \<and> drop (length s - length suffix) s = suffix"

definition TrimSuffix :: "string \<Rightarrow> string \<Rightarrow> string" where
  "TrimSuffix s suffix =
     (if HasSuffix s suffix then take (length s - length suffix) s else s)"

definition HasPrefix :: "string \<Rightarrow> string \<Rightarrow> bool" where
  "HasPrefix s prefix \<longleftrightarrow> take (length prefix) s = prefix"

definition TrimPrefix :: "string \<Rightarrow> string \<Rightarrow> string" where
  "TrimPrefix s prefix = (if HasPrefix s prefix then drop (length prefix) s else s)"

text \<open>\<^verbatim>\<open>strings.Split(s, "\n")\<close>: the pieces between the newlines, at least one piece.\<close>

fun SplitOn :: "char \<Rightarrow> string \<Rightarrow> string list" where
  "SplitOn sep [] = [[]]"
| "SplitOn sep (c # cs) =
     (if c = sep then [] # SplitOn sep cs
      else (case SplitOn sep cs of
              [] \<Rightarrow> [[c]]
            | p # ps \<Rightarrow> (c # p) # ps))"

text \<open>\<^verbatim>\<open>strings.IndexByte\<close>, with \<open>None\<close> for \<open>-1\<close>.\<close>

fun IndexByte :: "string \<Rightarrow> char \<Rightarrow> nat option" where
  "IndexByte [] b = None"
| "IndexByte (c # cs) b =
     (if c = b then Some 0
      else (case IndexByte cs b of None \<Rightarrow> None | Some i \<Rightarrow> Some (Suc i)))"

section \<open>The parsed document (package dsl)\<close>

datatype Lexeme = Lexeme (lex_Type: string) (lex_Value: string) (lex_Raw: string)

datatype Value =
  Value (val_String: "string option") (val_Number: "string option")
        (val_Color: "string option") (val_Array: "Value list option")
        (val_Object: "Assignment list option") (val_Expr: "Lexeme list option")
and Assignment =
  Assignment (asg_Key: string) (asg_Value: "Value option")

datatype Statement =
  Statement (st_Assignment: "Assignment option") (st_Command: "Command option")
            (st_Text: "string option")
and Command =
  Command (cmd_Name: string) (cmd_Args: "Lexeme list") (cmd_Block: "Block option")
and Block =
  Block (Statements: "Statement list")

record PageSpec =
  ps_Size :: string
  ps_Params :: "Lexeme list"

record PageSection =
  page_Spec :: PageSpec
  page_Block :: "Block option"

record Section =
  sec_Meta :: "Block option option"
  sec_Resources :: "Block option option"
  sec_PageSet :: "(string \<times> Block option) option"
  sec_Page :: "PageSection option"

record Document =
  doc_Name :: string
  doc_Version :: string
  doc_Sections :: "Section list"

text \<open>
  A section pointer such as \<^verbatim>\<open>section.Resources\<close> is \<open>None\<close> when nil and otherwise
  holds the section's \<^verbatim>\<open>Block\<close> pointer, itself nil-able.
\<close>

section \<open>Lengths (builder.go)\<close>

record Margin =
  mg_Top :: real
  mg_Right :: real
  mg_Bottom :: real
  mg_Left :: real

definition blockSpacing :: real where "blockSpacing = 3.0"
definition defaultTableRowGap :: real where "defaultTableRowGap = 0.0"
definition cellPadding :: real where "cellPadding = 1.2"

fun firstSuffix :: "string \<Rightarrow> string list \<Rightarrow> string option" where
  "firstSuffix v [] = None"
| "firstSuffix v (s # ss) = (if HasSuffix v s then Some s else firstSuffix v ss)"

definition trimUnit :: "string \<Rightarrow> string" where
  "trimUnit v =
     (case firstSuffix v [''pt'', ''mm'', ''cm'', ''in'', ''%''] of
        Some s \<Rightarrow> TrimSuffix v s
      | None \<Rightarrow> v)"

definition parseLength :: "lib \<Rightarrow> string \<Rightarrow> real" where
  "parseLength L v =
     (if v = [] then 0
      else
        (let unit = (case firstSuffix v [''mm'', ''cm'', ''in'', ''pt''] of
                       Some s \<Rightarrow> s | None \<Rightarrow> []);
             num = trimUnit v
         in case ParseFloat L num of
              None \<Rightarrow> 0
            | Some val \<Rightarrow>
                (if unit = ''cm'' then val * 10
                 else if unit = ''in'' then val * 25.4
                 else if unit = ''pt'' then val * 0.352777
                 else val)))"

definition parseDimension :: "lib \<Rightarrow> string \<Rightarrow> real \<Rightarrow> real" where
  "parseDimension L v reference =
     (if v = [] then 0
      else if HasSuffix v ''%'' then
        (case ParseFloat L (TrimSuffix v ''%'') of
           Some f \<Rightarrow> reference * f / 100
         | None \<Rightarrow> 0)
      else parseLength L v)"

section \<open>Page margins\<close>

text \<open>
  The inner loop of \<^verbatim>\<open>resolveMargin\<close>: starting after the \<^verbatim>\<open>margin\<close> keyword it
  collects at most four values and stops at the first token whose numeric part
  \<^verbatim>\<open>strconv.ParseFloat\<close> rejects.
\<close>

fun collectMarginVals :: "lib \<Rightarrow> Lexeme list \<Rightarrow> real list \<Rightarrow> real list" where
  "collectMarginVals L [] vals = vals"
| "collectMarginVals L (t # ts) vals =
     (if length vals < 4 then
        (case ParseFloat L (trimUnit (lex_Value t)) of
           None \<Rightarrow> vals
         | Some _ \<Rightarrow> collectMarginVals L ts (vals @ [parseLength L (lex_Value t)]))
      else vals)"

text \<open>The \<^verbatim>\<open>switch len(vals)\<close>: no case for 0, and none is needed above 4.\<close>

fun applyMarginVals :: "real list \<Rightarrow> Margin \<Rightarrow> Margin" where
  "applyMarginVals [v] m = \<lparr>mg_Top = v, mg_Right = v, mg_Bottom = v, mg_Left = v\<rparr>"
| "applyMarginVals [v0, v1] m = \<lparr>mg_Top = v0, mg_Right = v1, mg_Bottom = v0, mg_Left = v1\<rparr>"
| "applyMarginVals [v0, v1, v2] m = \<lparr>mg_Top = v0, mg_Right = v1, mg_Bottom = v2, mg_Left = 0\<rparr>"
| "applyMarginVals [v0, v1, v2, v3] m =
     \<lparr>mg_Top = v0, mg_Right = v1, mg_Bottom = v2, mg_Left = v3\<rparr>"
| "applyMarginVals vals m = m"

text \<open>The outer loop visits every token, also those the inner loop has read.\<close>

fun marginLoop :: "lib \<Rightarrow> Lexeme list \<Rightarrow> Margin \<Rightarrow> Margin" where
  "marginLoop L [] m = m"
| "marginLoop L (t # ts) m =
     (if lex_Value t = ''margin''
      then marginLoop L ts (applyMarginVals (collectMarginVals L ts []) m)
      else marginLoop L ts m)"

definition resolveMargin :: "lib \<Rightarrow> Lexeme list \<Rightarrow> Margin" where
  "resolveMargin L params =
     marginLoop L params \<lparr>mg_Top = 20, mg_Right = 20, mg_Bottom = 20, mg_Left = 20\<rparr>"

section \<open>Errors\<close>

text \<open>
  One constructor for each \<^verbatim>\<open>fmt.Errorf\<close> of the engine, one for an error returned by
  the Typesetter, and one for a run-time panic of Go (an index out of range).
\<close>

datatype error =
    ErrDocNil
  | ErrNoTypesetter
  | ErrNoPage
  | ErrPageNoBlock
  | ErrFlowNoBlock
  | ErrAbsoluteNoBlock
  | ErrTextNoBlock
  | ErrTextNoContent
  | ErrImageNoSrc
  | ErrTableNoBlock
  | ErrTableNoCells
  | ErrRowNoBlock
  | ErrRowNoCell
  | ErrStyleUndefined string
  | ErrStyleCycle string
  | ErrPageSize string
  | ErrColorParse string
  | ErrFontUndefined string
  | ErrTypesetter string
  | Panic

section \<open>Units (units.go)\<close>

datatype Unit = UnitNone | UnitMM | UnitCM | UnitIN | UnitPT

definition UnitToString :: "Unit \<Rightarrow> string" where
  "UnitToString u =
     (case u of UnitMM \<Rightarrow> ''mm'' | UnitCM \<Rightarrow> ''cm'' | UnitIN \<Rightarrow> ''in''
              | UnitPT \<Rightarrow> ''pt'' | UnitNone \<Rightarrow> [])"

record Length =
  len_Value :: real
  len_Unit :: Unit

fun firstUnitSuffix :: "string \<Rightarrow> (string \<times> Unit) list \<Rightarrow> (string \<times> Unit) option" where
  "firstUnitSuffix v [] = None"
| "firstUnitSuffix v (su # sus) =
     (if HasSuffix v (fst su) then Some su else firstUnitSuffix v sus)"

definition ParseRawLengthStr :: "lib \<Rightarrow> string \<Rightarrow> Length" where
  "ParseRawLengthStr L v0 =
     (let v = TrimSpace L v0 in
      if v = [] then \<lparr>len_Value = 0, len_Unit = UnitNone\<rparr>
      else
        (let lower = ToLower L v;
             (unit, num) =
               (case firstUnitSuffix lower
                       [(''mm'', UnitMM), (''cm'', UnitCM), (''in'', UnitIN), (''pt'', UnitPT)] of
                  Some (s, u) \<Rightarrow> (u, TrimSpace L (TrimSuffix lower s))
                | None \<Rightarrow> (UnitNone, lower))
         in case ParseFloat L num of
              None \<Rightarrow> \<lparr>len_Value = 0, len_Unit = UnitNone\<rparr>
            | Some f \<Rightarrow> \<lparr>len_Value = f, len_Unit = unit\<rparr>))"

section \<open>Layout results and resources (options.go)\<close>

record FontResource =
  font_Name :: string
  font_Src :: string
  font_Style :: string
  font_Base :: string
  font_Family :: string
  font_IsBuiltin :: bool
  font_Fallback :: string

record ImageResource =
  img_Name :: string
  img_Src :: string
  img_Width :: real
  img_Height :: real
  img_DPI :: int

record Color =
  col_R :: int
  col_G :: int
  col_B :: int

record Style =
  style_Name :: string
  style_Extends :: string
  style_Props :: "string \<rightharpoonup> string"

record ResourceSet =
  Fonts :: "(string \<times> FontResource) list"
  Colors :: "string \<rightharpoonup> Color"
  Images :: "string \<rightharpoonup> ImageResource"
  Styles :: "string \<rightharpoonup> Style"

record TextLine =
  tl_Content :: string
  tl_Width :: real
  tl_Height :: real
  tl_GapBefore :: real

record RawLengthJSON =
  rl_Value :: real
  rl_Unit :: string

record RawLineHeightJSON =
  rlh_Kind :: string
  rlh_Factor :: real
  rlh_Value :: real
  rlh_Unit :: string

record RawUnits =
  ru_FontSize :: "RawLengthJSON option"
  ru_LineHeight :: "RawLineHeightJSON option"

record TextBoxDebug =
  dbg_RawUnits :: "RawUnits option"

record TextBox =
  tb_Content :: string
  tb_X :: real
  tb_Y :: real
  tb_Width :: real
  tb_LineHeight :: real
  tb_Font :: string
  tb_FontSize :: real
  tb_Color :: Color
  tb_Lines :: "TextLine list"
  tb_Height :: real
  tb_Align :: string
  tb_Wrap :: string
  tb_Debug :: "TextBoxDebug option"

record DebugOptions =
  RawUnitsOpt :: bool

text \<open>
  The Typesetter interface: \<^verbatim>\<open>LayoutLines(content, width, font, fontSize, lineHeight, wrap)\<close>
  returns the lines or an error (its message). It is taken to be a function of its
  arguments.
\<close>

type_synonym Typesetter =
  "string \<Rightarrow> real \<Rightarrow> FontResource \<Rightarrow> real \<Rightarrow> real \<Rightarrow> string \<Rightarrow> string + TextLine list"

section \<open>Command arguments and styles\<close>

text \<open>A Go map read at a missing key gives the empty string.\<close>

definition attr :: "(string \<rightharpoonup> string) \<Rightarrow> string \<Rightarrow> string" where
  "attr m k = (case m k of None \<Rightarrow> [] | Some v \<Rightarrow> v)"

fun parseArgPairs :: "Lexeme list \<Rightarrow> (string \<rightharpoonup> string) \<Rightarrow> (string \<rightharpoonup> string)" where
  "parseArgPairs (k # v # rest) m = parseArgPairs rest (m(lex_Value k \<mapsto> lex_Value v))"
| "parseArgPairs rest m = m"

definition parseArgs :: "Lexeme list \<Rightarrow> bool \<Rightarrow> string \<times> (string \<rightharpoonup> string)" where
  "parseArgs args allowStyle =
     (case args of
        [] \<Rightarrow> ([], Map.empty)
      | a # rest \<Rightarrow>
          (if allowStyle \<and> lex_Type a = ''Ident''
           then (lex_Value a, parseArgPairs rest Map.empty)
           else ([], parseArgPairs args Map.empty)))"

definition mergeStyleAttributes ::
  "string \<Rightarrow> (string \<rightharpoonup> string) \<Rightarrow> (string \<rightharpoonup> Style) \<Rightarrow> (string \<rightharpoonup> string)" where
  "mergeStyleAttributes style inline styles =
     (if style \<noteq> [] then
        (case styles style of
           Some s \<Rightarrow> style_Props s ++ inline
         | None \<Rightarrow> inline)
      else inline)"

definition extractText :: "Block option \<Rightarrow> string" where
  "extractText block =
     (case block of
        None \<Rightarrow> []
      | Some b \<Rightarrow>
          concat (map (\<lambda>stmt. case st_Text stmt of Some t \<Rightarrow> t | None \<Rightarrow> [])
                      (Statements b)))"

section \<open>Colors\<close>

definition mustHex :: "lib \<Rightarrow> string \<Rightarrow> int" where
  "mustHex L s = ParseIntHex L s"

text \<open>
  \<^verbatim>\<open>string(value[i])\<close> converts one byte to the UTF-8 encoding of the code point of
  that number: two bytes from 128 on.
\<close>

definition byteToString :: "char \<Rightarrow> string" where
  "byteToString c =
     (let n = (of_char c :: nat) in
      if n < 128 then [c]
      else [char_of (192 + n div 64), char_of (128 + n mod 64)])"

definition parseColor :: "lib \<Rightarrow> string \<Rightarrow> error + Color" where
  "parseColor L value0 =
     (let v = TrimPrefix value0 ''#'' in
      if length v = 3 then
        Inr \<lparr>col_R = mustHex L (byteToString (v ! 0) @ byteToString (v ! 0)),
             col_G = mustHex L (byteToString (v ! 1) @ byteToString (v ! 1)),
             col_B = mustHex L (byteToString (v ! 2) @ byteToString (v ! 2))\<rparr>
      else if length v = 6 \<or> length v = 8 then
        Inr \<lparr>col_R = mustHex L (take 2 v),
             col_G = mustHex L (take 2 (drop 2 v)),
             col_B = mustHex L (take 2 (drop 4 v))\<rparr>
      else Inl (ErrColorParse v))"

definition defaultTextColor :: Color where
  "defaultTextColor = \<lparr>col_R = 30, col_G = 30, col_B = 30\<rparr>"

definition resolveColor :: "lib \<Rightarrow> string \<Rightarrow> ResourceSet \<Rightarrow> Color" where
  "resolveColor L v res =
     (if v = [] then defaultTextColor
      else
        (case Colors res v of
           Some c \<Rightarrow> c
         | None \<Rightarrow>
             (if HasPrefix v ''#'' then
                (case parseColor L v of Inr c \<Rightarrow> c | Inl e \<Rightarrow> defaultTextColor)
              else defaultTextColor)))"

section \<open>Fonts\<close>

text \<open>
  The last resort of \<^verbatim>\<open>resolveFontResource\<close> returns the entry a \<^verbatim>\<open>range\<close> over the
  font map sees first: some entry, when there is one.
\<close>

definition resolveFontResource :: "lib \<Rightarrow> string \<Rightarrow> ResourceSet \<Rightarrow> error + FontResource" where
  "resolveFontResource L name res =
     (case map_of (Fonts res) name of
        Some font \<Rightarrow> Inr font
      | None \<Rightarrow>
          (case map_of (Fonts res) ''Body'' of
             Some font \<Rightarrow> Inr font
           | None \<Rightarrow>
               (if Fonts res = [] then Inl (ErrFontUndefined name)
                else Inr (snd (Fonts res ! (RangePick L mod length (Fonts res)))))))"

section \<open>Data binding (package binding)\<close>

definition descendMap :: "any \<Rightarrow> string \<Rightarrow> any option" where
  "descendMap current key =
     (case current of AMap c \<Rightarrow> map_of c key | _ \<Rightarrow> None)"

definition descendArray :: "any \<Rightarrow> int \<Rightarrow> any option" where
  "descendArray current idx =
     (case current of
        AArray c \<Rightarrow> (if idx < 0 \<or> idx \<ge> int (length c) then None else Some (c ! nat idx))
      | _ \<Rightarrow> None)"

text \<open>The loop of \<^verbatim>\<open>parseSegment\<close> over \<^verbatim>\<open>rest\<close>, which starts at the first bracket.\<close>

function parseIndexes :: "string \<Rightarrow> string list" where
  "parseIndexes rest =
     (case rest of
        [] \<Rightarrow> []
      | c # cs \<Rightarrow>
          (if c \<noteq> CHR ''['' then []
           else
             (case IndexByte rest (CHR '']'') of
                None \<Rightarrow> []
              | Some e \<Rightarrow> take (e - 1) cs # parseIndexes (drop (Suc e) rest))))"
  by pat_completeness auto
termination
  by (relation "measure length") auto

declare parseIndexes.simps [simp del]

definition parseSegment :: "string \<Rightarrow> string \<times> string list" where
  "parseSegment segment =
     (case IndexByte segment (CHR ''['') of
        None \<Rightarrow> (segment, [])
      | Some i \<Rightarrow> (take i segment, parseIndexes (drop i segment)))"

fun descendIndexes :: "lib \<Rightarrow> string list \<Rightarrow> any \<Rightarrow> any option" where
  "descendIndexes L [] current = Some current"
| "descendIndexes L (idxStr # rest) current =
     (case Atoi L idxStr of
        None \<Rightarrow> None
      | Some idx \<Rightarrow>
          (case descendArray current idx of
             None \<Rightarrow> None
           | Some c \<Rightarrow> descendIndexes L rest c))"

fun resolveSegments :: "lib \<Rightarrow> string list \<Rightarrow> any \<Rightarrow> any option" where
  "resolveSegments L [] current = Some current"
| "resolveSegments L (segment # rest) current =
     (case parseSegment segment of
        (name, indexes) \<Rightarrow>
          (case (if name \<noteq> [] then descendMap current name else Some current) of
             None \<Rightarrow> None
           | Some c \<Rightarrow>
               (case descendIndexes L indexes c of
                  None \<Rightarrow> None
                | Some c' \<Rightarrow> resolveSegments L rest c')))"

definition resolvePath :: "lib \<Rightarrow> any \<Rightarrow> string \<Rightarrow> any option" where
  "resolvePath L data path = resolveSegments L (SplitOn (CHR ''.'') path) data"

text \<open>
  The pattern \<^verbatim>\<open>\$\{([^}]+)\}\<close> at the head of a string: \<open>matchExpr s\<close> is the
  captured group and the text after the match. The group is the longest run without a
  closing brace, it is not empty, and a closing brace follows it.
\<close>

definition matchExpr :: "string \<Rightarrow> (string \<times> string) option" where
  "matchExpr s =
     (case s of
        a # b # t \<Rightarrow>
          (if a = CHR ''$'' \<and> b = CHR ''{'' then
             (let inner = takeWhile (\<lambda>c. c \<noteq> CHR ''}'') t;
                  rest = dropWhile (\<lambda>c. c \<noteq> CHR ''}'') t
              in if inner \<noteq> [] \<and> rest \<noteq> [] then Some (inner, tl rest) else None)
           else None)
      | _ \<Rightarrow> None)"

lemma matchExpr_shorter: "matchExpr s = Some (inner, rest) \<Longrightarrow> length rest < length s"
proof -
  assume a: "matchExpr s = Some (inner, rest)"
  then obtain t where s: "s = CHR ''$'' # CHR ''{'' # t"
    and r: "rest = tl (dropWhile (\<lambda>c. c \<noteq> CHR ''}'') t)"
    by (auto simp: matchExpr_def Let_def split: list.splits if_splits)
  have "length (dropWhile (\<lambda>c. c \<noteq> CHR ''}'') t) \<le> length t"
    by (rule length_dropWhile_le)
  then show ?thesis using s r by simp
qed

text \<open>
  \<^verbatim>\<open>ReplaceAllStringFunc\<close>: the leftmost matches, one after the other and not
  overlapping, are replaced by the function's result on the matched text; everything
  else is copied.
\<close>

function ReplaceAllStringFunc :: "(string \<Rightarrow> string) \<Rightarrow> string \<Rightarrow> string" where
  "ReplaceAllStringFunc repl s =
     (case s of
        [] \<Rightarrow> []
      | c # cs \<Rightarrow>
          (case matchExpr s of
             Some (inner, rest) \<Rightarrow>
               repl (CHR ''$'' # CHR ''{'' # inner @ [CHR ''}'']) @ ReplaceAllStringFunc repl rest
           | None \<Rightarrow> c # ReplaceAllStringFunc repl cs))"
  by pat_completeness auto
termination
  by (relation "measure (\<lambda>(repl, s). length s)") (auto dest: matchExpr_shorter)

declare ReplaceAllStringFunc.simps [simp del]

text \<open>The function literal of \<^verbatim>\<open>Interpolate\<close>, applied to each match.\<close>

definition interpolateMatch :: "lib \<Rightarrow> any \<Rightarrow> string \<Rightarrow> string" where
  "interpolateMatch L data match =
     (case matchExpr match of
        None \<Rightarrow> match
      | Some (grp, after) \<Rightarrow>
          (let path = TrimSpace L grp in
           if path = [] then match
           else
             (case resolvePath L data path of
                Some val \<Rightarrow> Sprint L val
              | None \<Rightarrow> match)))"

definition Interpolate :: "lib \<Rightarrow> string \<Rightarrow> any \<Rightarrow> string" where
  "Interpolate L text data =
     (if data = ANil then text
      else ReplaceAllStringFunc (interpolateMatch L data) text)"

section \<open>Text composition\<close>

definition newline :: char where
  "newline = CHR 0x0A"

definition emptyLine :: "real \<Rightarrow> real \<Rightarrow> TextLine" where
  "emptyLine width height =
     \<lparr>tl_Content = [], tl_Width = width, tl_Height = height, tl_GapBefore = 0\<rparr>"

text \<open>\<^verbatim>\<open>lines[0].GapBefore = 0\<close>, for a slice that may be empty.\<close>

definition zeroFirstGap :: "TextLine list \<Rightarrow> TextLine list" where
  "zeroFirstGap ls = (case ls of [] \<Rightarrow> [] | l # rest \<Rightarrow> l\<lparr>tl_GapBefore := 0\<rparr> # rest)"

definition layoutLines ::
  "string \<Rightarrow> real \<Rightarrow> FontResource \<Rightarrow> real \<Rightarrow> real \<Rightarrow> Typesetter option \<Rightarrow> string
     \<Rightarrow> error + TextLine list" where
  "layoutLines content width font fontSize lineHeight ts wrap =
     (case ts of
        None \<Rightarrow>
          (let textHeight = (if fontSize \<le> 0 then 12 else fontSize);
               leading = max (lineHeight - textHeight) 0;
               out = map (\<lambda>l. \<lparr>tl_Content = l, tl_Width = width, tl_Height = textHeight,
                                 tl_GapBefore = leading\<rparr>)
                         (SplitOn newline content)
           in Inr (if out = [] then [emptyLine width textHeight] else zeroFirstGap out))
      | Some layout \<Rightarrow>
          (case layout content width font fontSize lineHeight wrap of
             Inl msg \<Rightarrow> Inl (ErrTypesetter msg)
           | Inr lines0 \<Rightarrow>
               (let lines =
                      (if lines0 = []
                       then [emptyLine width (if fontSize \<le> 0 then lineHeight else fontSize)]
                       else lines0)
                in Inr (zeroFirstGap lines))))"

text \<open>
  The line-height block that \<^verbatim>\<open>composeTextBox\<close> and \<^verbatim>\<open>inferTextWidth\<close> both
  write out: a factor \<^verbatim>\<open>Nx\<close> of the font size, an absolute length, or 1.4 times the
  font size.
\<close>

definition resolveLineHeight :: "lib \<Rightarrow> (string \<rightharpoonup> string) \<Rightarrow> real \<Rightarrow> real" where
  "resolveLineHeight L attrs fontSize =
     (let v = TrimSpace L (attr attrs ''line-height'') in
      if v \<noteq> [] then
        (if HasSuffix v ''x'' then
           (case ParseFloat L (TrimSuffix v ''x'') of
              Some f \<Rightarrow> (if f > 0 then fontSize * f else fontSize * 1.4)
            | None \<Rightarrow> fontSize * 1.4)
         else (if parseLength L v > 0 then parseLength L v else fontSize * 1.4))
      else fontSize * 1.4)"

text \<open>
  The loop of \<^verbatim>\<open>composeTextBox\<close> over the lines: \<open>i\<close> is the index, \<open>totalHeight\<close> the
  running total.
\<close>

fun normalizeLines ::
  "real \<Rightarrow> real \<Rightarrow> nat \<Rightarrow> TextLine list \<Rightarrow> real \<Rightarrow> TextLine list \<times> real" where
  "normalizeLines fontSize defaultLeading i [] totalHeight = ([], totalHeight)"
| "normalizeLines fontSize defaultLeading i (l # ls) totalHeight =
     (let l1 = (if tl_Height l \<le> 0 then l\<lparr>tl_Height := fontSize\<rparr> else l);
          l2 = (if i = 0 then l1\<lparr>tl_GapBefore := 0\<rparr>
                else if tl_GapBefore l1 \<le> 0 then l1\<lparr>tl_GapBefore := defaultLeading\<rparr>
                else l1);
          r = normalizeLines fontSize defaultLeading (Suc i) ls
                (totalHeight + (tl_GapBefore l2 + tl_Height l2))
      in (l2 # fst r, snd r))"

definition normalizeAlign :: "lib \<Rightarrow> string \<Rightarrow> string" where
  "normalizeAlign L raw =
     (let v = ToLower L (TrimSpace L raw) in
      if v \<noteq> [] then
        (let v1 = (if v = ''start'' then ''left'' else v);
             v2 = (if v1 = ''end'' then ''right'' else v1)
         in if v2 = ''left'' \<or> v2 = ''center'' \<or> v2 = ''right'' then v2 else [])
      else [])"

definition debugRawUnits :: "lib \<Rightarrow> (string \<rightharpoonup> string) \<Rightarrow> TextBoxDebug" where
  "debugRawUnits L attrs =
     (let szSpec = ParseRawLengthStr L (attr attrs ''size'');
          sizeRaw =
            (if len_Unit szSpec = UnitNone \<or> len_Value szSpec \<le> 0
             then \<lparr>rl_Value = 12, rl_Unit = ''pt''\<rparr>
             else \<lparr>rl_Value = len_Value szSpec, rl_Unit = UnitToString (len_Unit szSpec)\<rparr>);
          zero = \<lparr>rlh_Kind = [], rlh_Factor = 0, rlh_Value = 0, rlh_Unit = []\<rparr>;
          v = TrimSpace L (attr attrs ''line-height'');
          lhRaw =
            (if v \<noteq> [] then
               (if HasSuffix v ''x'' then
                  (case ParseFloat L (TrimSuffix v ''x'') of
                     Some f \<Rightarrow> (if f > 0 then zero\<lparr>rlh_Kind := ''factor'', rlh_Factor := f\<rparr>
                                else zero)
                   | None \<Rightarrow> zero)
                else
                  (let lhLen = ParseRawLengthStr L v in
                   if len_Unit lhLen \<noteq> UnitNone \<and> len_Value lhLen > 0
                   then zero\<lparr>rlh_Kind := ''absolute'', rlh_Value := len_Value lhLen,
                              rlh_Unit := UnitToString (len_Unit lhLen)\<rparr>
                   else zero))
             else zero\<lparr>rlh_Kind := ''factor'', rlh_Factor := 1.4\<rparr>)
      in \<lparr>dbg_RawUnits = Some \<lparr>ru_FontSize = Some sizeRaw, ru_LineHeight = Some lhRaw\<rparr>\<rparr>)"

definition composeTextBox ::
  "lib \<Rightarrow> string \<Rightarrow> (string \<rightharpoonup> string) \<Rightarrow> string \<Rightarrow> real \<Rightarrow> real \<Rightarrow> real \<Rightarrow> ResourceSet
     \<Rightarrow> any \<Rightarrow> Typesetter option \<Rightarrow> DebugOptions \<Rightarrow> string \<Rightarrow> error + (TextBox \<times> real)" where
  "composeTextBox L style attrs0 content0 x y width res data ts debug wrap =
     (let attrs = mergeStyleAttributes style attrs0 (Styles res);
          fontName0 = attr attrs ''font'';
          fontName1 = (if fontName0 = [] then style else fontName0);
          fontName = (if fontName1 = [] then ''Body'' else fontName1);
          content = (if data \<noteq> ANil then Interpolate L content0 data else content0);
          fontSize0 = parseLength L (attr attrs ''size'');
          fontSize = (if fontSize0 \<le> 0 then 12 * 0.352777 else fontSize0);
          lineHeight = resolveLineHeight L attrs fontSize;
          color = resolveColor L (attr attrs ''color'') res
      in case resolveFontResource L fontName res of
           Inl e \<Rightarrow> Inl e
         | Inr fontRes \<Rightarrow>
             (case layoutLines content width fontRes fontSize lineHeight ts wrap of
                Inl e \<Rightarrow> Inl e
              | Inr lines0 \<Rightarrow>
                  (let defaultLeading = max (lineHeight - fontSize) 0;
                       r = normalizeLines fontSize defaultLeading 0 lines0 0;
                       lines = fst r;
                       totalHeight = (if lines = [] then 0 else snd r);
                       tb = \<lparr>tb_Content = content, tb_X = x, tb_Y = y, tb_Width = width,
                             tb_LineHeight = lineHeight, tb_Font = fontName,
                             tb_FontSize = fontSize, tb_Color = color, tb_Lines = lines,
                             tb_Height = totalHeight,
                             tb_Align = normalizeAlign L (attr attrs ''align''),
                             tb_Wrap = wrap,
                             tb_Debug = (if RawUnitsOpt debug then Some (debugRawUnits L attrs)
                                         else None)\<rparr>
                   in Inr (tb, totalHeight))))"

section \<open>Style resolution\<close>

text \<open>
  The closure \<^verbatim>\<open>dfs\<close> of \<^verbatim>\<open>resolveStyles\<close>. The maps \<^verbatim>\<open>resolved\<close> and
  \<^verbatim>\<open>visiting\<close> that it shares with the enclosing function are passed in and returned;
  \<^verbatim>\<open>visiting\<close>, a map to \<^verbatim>\<open>bool\<close> that only ever holds \<^verbatim>\<open>true\<close>, is a set. The
  raw styles are an association list, read through \<open>map_of\<close>.
\<close>

function dfs ::
  "(string \<times> Style) list \<Rightarrow> string \<Rightarrow> (string \<rightharpoonup> Style) \<times> string set
     \<Rightarrow> error + (Style \<times> (string \<rightharpoonup> Style) \<times> string set)" where
  "dfs styles name (resolved, visiting) =
     (case resolved name of
        Some style \<Rightarrow> Inr (style, resolved, visiting)
      | None \<Rightarrow>
          (case map_of styles name of
             None \<Rightarrow> Inl (ErrStyleUndefined name)
           | Some style \<Rightarrow>
               (if name \<in> visiting then Inl (ErrStyleCycle name)
                else if style_Extends style \<noteq> [] then
                  (case dfs styles (style_Extends style) (resolved, insert name visiting) of
                     Inl e \<Rightarrow> Inl e
                   | Inr (parent, resolved', visiting') \<Rightarrow>
                       (let style' = style\<lparr>style_Props := style_Props parent ++ style_Props style\<rparr>
                        in Inr (style', resolved'(name \<mapsto> style'), visiting' - {name})))
                else
                  (let style' = style\<lparr>style_Props := Map.empty ++ style_Props style\<rparr>
                   in Inr (style', resolved(name \<mapsto> style'), insert name visiting - {name})))))"
  by pat_completeness auto
termination
proof (relation "measure (\<lambda>(styles, name, resolved, visiting). card (fst ` set styles - visiting))")
  show "wf (measure (\<lambda>(styles, name, resolved, visiting). card (fst ` set styles - visiting)))"
    by simp
next
  fix styles :: "(string \<times> Style) list" and name resolved visiting style
  assume m: "map_of styles name = Some style" and v: "name \<notin> visiting"
  from m have "name \<in> fst ` set styles"
    by (metis map_of_eq_None_iff option.distinct(1))
  with v have "fst ` set styles - insert name visiting \<subset> fst ` set styles - visiting"
    by auto
  then have "card (fst ` set styles - insert name visiting) < card (fst ` set styles - visiting)"
    by (intro psubset_card_mono) auto
  then show "((styles, style_Extends style, resolved, insert name visiting),
              (styles, name, resolved, visiting))
             \<in> measure (\<lambda>(styles, name, resolved, visiting). card (fst ` set styles - visiting))"
    by simp
qed

declare dfs.simps [simp del]

text \<open>The loop over the names, in the order of the range.\<close>

fun resolveLoop ::
  "(string \<times> Style) list \<Rightarrow> string list \<Rightarrow> (string \<rightharpoonup> Style) \<times> string set
     \<Rightarrow> error + (string \<rightharpoonup> Style)" where
  "resolveLoop styles [] (resolved, visiting) = Inr resolved"
| "resolveLoop styles (name # rest) (resolved, visiting) =
     (case dfs styles name (resolved, visiting) of
        Inl e \<Rightarrow> Inl e
      | Inr (style, resolved', visiting') \<Rightarrow> resolveLoop styles rest (resolved', visiting'))"

definition resolveStyles :: "lib \<Rightarrow> (string \<times> Style) list \<Rightarrow> error + (string \<rightharpoonup> Style)" where
  "resolveStyles L styles =
     resolveLoop styles (RangeOrder L (map fst styles)) (Map.empty, {})"

text \<open>
  The relation of a declared style to the parent it names, and the two properties of the
  map \<^verbatim>\<open>resolved\<close> that the resolution maintains: every entry is its raw style with
  the parent's entry merged in, and no entry reaches itself through its parents.
\<close>

definition parentOf :: "(string \<times> Style) list \<Rightarrow> (string \<times> string) set" where
  "parentOf styles =
     {(a, b). \<exists>s. map_of styles a = Some s \<and> style_Extends s = b \<and> b \<noteq> []}"

definition merged :: "(string \<times> Style) list \<Rightarrow> (string \<rightharpoonup> Style) \<Rightarrow> bool" where
  "merged styles r \<longleftrightarrow>
     (\<forall>n s'. r n = Some s' \<longrightarrow>
        (\<exists>s. map_of styles n = Some s \<and>
             style_Name s' = style_Name s \<and> style_Extends s' = style_Extends s \<and>
             (if style_Extends s = [] then style_Props s' = style_Props s
              else (\<exists>p'. r (style_Extends s) = Some p' \<and>
                         style_Props s' = style_Props p' ++ style_Props s))))"

definition acyclicOn :: "(string \<times> Style) list \<Rightarrow> (string \<rightharpoonup> Style) \<Rightarrow> bool" where
  "acyclicOn styles r \<longleftrightarrow> (\<forall>n \<in> dom r. (n, n) \<notin> (parentOf styles)\<^sup>+)"


section \<open>Collecting resources\<close>

definition valueToString :: "Value option \<Rightarrow> string" where
  "valueToString val =
     (case val of
        None \<Rightarrow> []
      | Some v \<Rightarrow>
          (case val_String v of
             Some s \<Rightarrow> s
           | None \<Rightarrow>
               (case val_Number v of
                  Some n \<Rightarrow> n
                | None \<Rightarrow>
                    (case val_Color v of
                       Some c \<Rightarrow> c
                     | None \<Rightarrow>
                         (case val_Expr v of
                            Some parts \<Rightarrow> concat (map lex_Value parts)
                          | None \<Rightarrow> [])))))"

definition valueToStringSlice :: "Value option \<Rightarrow> string list" where
  "valueToStringSlice val =
     (case val of
        None \<Rightarrow> []
      | Some v \<Rightarrow>
          (case val_Array v of
             Some items \<Rightarrow> filter (\<lambda>s. s \<noteq> []) (map (\<lambda>item. valueToString (Some item)) items)
           | None \<Rightarrow> (if valueToString val \<noteq> [] then [valueToString val] else [])))"

definition emptyFont :: FontResource where
  "emptyFont =
     \<lparr>font_Name = [], font_Src = [], font_Style = [], font_Base = [], font_Family = [],
      font_IsBuiltin = False, font_Fallback = []\<rparr>"

text \<open>
  The loops over the assignments of a \<^verbatim>\<open>font\<close> and of an \<^verbatim>\<open>image\<close> block read
  \<^verbatim>\<open>stmt.Assignment.Value.String\<close> without a nil check: an assignment without a value
  is a nil dereference.
\<close>

definition fontAssign :: "Assignment \<Rightarrow> FontResource \<Rightarrow> error + FontResource" where
  "fontAssign a font =
     (if asg_Key a = ''src'' then
        (case asg_Value a of
           None \<Rightarrow> Inl Panic
         | Some v \<Rightarrow>
             (case val_String v of
                None \<Rightarrow> Inr font
              | Some s \<Rightarrow>
                  (if HasPrefix s ''builtin:'' then
                     Inr (font\<lparr>font_Src := s, font_IsBuiltin := True,
                               font_Base := (if TrimPrefix s ''builtin:'' = [] then ''Times-Roman''
                                             else TrimPrefix s ''builtin:'')\<rparr>)
                   else Inr (font\<lparr>font_Src := s\<rparr>))))
      else if asg_Key a = ''style'' then
        (case asg_Value a of
           None \<Rightarrow> Inl Panic
         | Some v \<Rightarrow>
             (case val_String v of None \<Rightarrow> Inr font | Some s \<Rightarrow> Inr (font\<lparr>font_Style := s\<rparr>)))
      else if asg_Key a = ''fallback'' then
        (case asg_Value a of
           None \<Rightarrow> Inl Panic
         | Some v \<Rightarrow>
             (case val_String v of None \<Rightarrow> Inr font | Some s \<Rightarrow> Inr (font\<lparr>font_Fallback := s\<rparr>)))
      else Inr font)"

fun fontAssignments :: "Statement list \<Rightarrow> FontResource \<Rightarrow> error + FontResource" where
  "fontAssignments [] font = Inr font"
| "fontAssignments (stmt # rest) font =
     (case st_Assignment stmt of
        None \<Rightarrow> fontAssignments rest font
      | Some a \<Rightarrow>
          (case fontAssign a font of
             Inl e \<Rightarrow> Inl e
           | Inr font' \<Rightarrow> fontAssignments rest font'))"

definition parseFontResource :: "Command \<Rightarrow> error + FontResource" where
  "parseFontResource cmd =
     (case cmd_Args cmd of
        [] \<Rightarrow> Inr emptyFont
      | a0 # rest \<Rightarrow>
          (let font = emptyFont\<lparr>font_Name := lex_Value a0, font_Family := lex_Value a0,
                                 font_Base := lex_Value a0,
                                 font_IsBuiltin := HasPrefix (lex_Value a0) ''builtin:''\<rparr>
           in case cmd_Block cmd of
                None \<Rightarrow> Inr font
              | Some b \<Rightarrow> fontAssignments (Statements b) font))"

definition emptyImage :: ImageResource where
  "emptyImage = \<lparr>img_Name = [], img_Src = [], img_Width = 0, img_Height = 0, img_DPI = 0\<rparr>"

definition imageAssign :: "lib \<Rightarrow> Assignment \<Rightarrow> ImageResource \<Rightarrow> error + ImageResource" where
  "imageAssign L a img =
     (if asg_Key a = ''src'' then
        (case asg_Value a of
           None \<Rightarrow> Inl Panic
         | Some v \<Rightarrow>
             (case val_String v of None \<Rightarrow> Inr img | Some s \<Rightarrow> Inr (img\<lparr>img_Src := s\<rparr>)))
      else if asg_Key a = ''width'' then
        (case asg_Value a of
           None \<Rightarrow> Inl Panic
         | Some v \<Rightarrow>
             (case val_Number v of
                None \<Rightarrow> Inr img
              | Some n \<Rightarrow> Inr (img\<lparr>img_Width := parseLength L n\<rparr>)))
      else if asg_Key a = ''height'' then
        (case asg_Value a of
           None \<Rightarrow> Inl Panic
         | Some v \<Rightarrow>
             (case val_Number v of
                None \<Rightarrow> Inr img
              | Some n \<Rightarrow> Inr (img\<lparr>img_Height := parseLength L n\<rparr>)))
      else if asg_Key a = ''dpi'' then
        (case asg_Value a of
           None \<Rightarrow> Inl Panic
         | Some v \<Rightarrow>
             (case val_Number v of
                None \<Rightarrow> Inr img
              | Some n \<Rightarrow>
                  (case Atoi L n of
                     Some d \<Rightarrow> Inr (img\<lparr>img_DPI := d\<rparr>)
                   | None \<Rightarrow> Inr img)))
      else Inr img)"

fun imageAssignments :: "lib \<Rightarrow> Statement list \<Rightarrow> ImageResource \<Rightarrow> error + ImageResource" where
  "imageAssignments L [] img = Inr img"
| "imageAssignments L (stmt # rest) img =
     (case st_Assignment stmt of
        None \<Rightarrow> imageAssignments L rest img
      | Some a \<Rightarrow>
          (case imageAssign L a img of
             Inl e \<Rightarrow> Inl e
           | Inr image' \<Rightarrow> imageAssignments L rest image'))"

definition parseImageResource :: "lib \<Rightarrow> Command \<Rightarrow> error + ImageResource" where
  "parseImageResource L cmd =
     (case cmd_Args cmd of
        [] \<Rightarrow> Inr emptyImage
      | a0 # rest \<Rightarrow>
          (let img = emptyImage\<lparr>img_Name := lex_Value a0\<rparr>
           in case cmd_Block cmd of
                None \<Rightarrow> Inr img
              | Some b \<Rightarrow> imageAssignments L (Statements b) img))"

fun styleAssignments :: "Statement list \<Rightarrow> (string \<rightharpoonup> string) \<Rightarrow> (string \<rightharpoonup> string)" where
  "styleAssignments [] props = props"
| "styleAssignments (stmt # rest) props =
     (case st_Assignment stmt of
        None \<Rightarrow> styleAssignments rest props
      | Some a \<Rightarrow>
          (if valueToString (asg_Value a) = [] then styleAssignments rest props
           else styleAssignments rest (props(asg_Key a \<mapsto> valueToString (asg_Value a)))))"

definition parseStyleResource :: "lib \<Rightarrow> Command \<Rightarrow> Style" where
  "parseStyleResource L cmd =
     (case cmd_Args cmd of
        [] \<Rightarrow> \<lparr>style_Name = [], style_Extends = [], style_Props = Map.empty\<rparr>
      | a0 # rest \<Rightarrow>
          (let ext = (if length (cmd_Args cmd) \<ge> 3 \<and>
                         EqualFold L (lex_Value (cmd_Args cmd ! 1)) ''extends''
                      then lex_Value (cmd_Args cmd ! 2) else []);
               style = \<lparr>style_Name = lex_Value a0, style_Extends = ext, style_Props = Map.empty\<rparr>
           in case cmd_Block cmd of
                None \<Rightarrow> style
              | Some b \<Rightarrow> style\<lparr>style_Props := styleAssignments (Statements b) Map.empty\<rparr>))"

definition parseColorResource :: "Command \<Rightarrow> string \<times> string" where
  "parseColorResource cmd =
     (case cmd_Args cmd of
        [] \<Rightarrow> ([], [])
      | a0 # rest \<Rightarrow>
          (lex_Value a0, if rest = [] then [] else lex_Value (last (cmd_Args cmd))))"

text \<open>
  The state of the two loops of \<^verbatim>\<open>collectResources\<close>: the resource set under
  construction and \<^verbatim>\<open>rawStyles\<close>. A map the code later ranges over is kept as an
  association list, written with \<open>AList.update\<close>.
\<close>

type_synonym resAcc = "ResourceSet \<times> (string \<times> Style) list"

definition collectCommand :: "lib \<Rightarrow> Command \<Rightarrow> resAcc \<Rightarrow> error + resAcc" where
  "collectCommand L cmd acc =
     (case acc of (res, rawStyles) \<Rightarrow>
        (if cmd_Name cmd = ''font'' then
           (case parseFontResource cmd of
              Inl e \<Rightarrow> Inl e
            | Inr font \<Rightarrow>
                (if font_Name font \<noteq> []
                 then Inr (res\<lparr>Fonts := AList.update (font_Name font) font (Fonts res)\<rparr>, rawStyles)
                 else Inr acc))
         else if cmd_Name cmd = ''color'' then
           (case parseColorResource cmd of (name, v) \<Rightarrow>
              (if name = [] \<or> v = [] then Inr acc
               else
                 (case parseColor L v of
                    Inr c \<Rightarrow> Inr (res\<lparr>Colors := (Colors res)(name \<mapsto> c)\<rparr>, rawStyles)
                  | Inl e \<Rightarrow> Inr acc)))
         else if cmd_Name cmd = ''image'' then
           (case parseImageResource L cmd of
              Inl e \<Rightarrow> Inl e
            | Inr img \<Rightarrow>
                (if img_Name img \<noteq> []
                 then Inr (res\<lparr>Images := (Images res)(img_Name img \<mapsto> img)\<rparr>, rawStyles)
                 else Inr acc))
         else if cmd_Name cmd = ''style'' then
           (let style = parseStyleResource L cmd in
            if style_Name style \<noteq> []
            then Inr (res, AList.update (style_Name style) style rawStyles)
            else Inr acc)
         else Inr acc))"

fun collectStatements :: "lib \<Rightarrow> Statement list \<Rightarrow> resAcc \<Rightarrow> error + resAcc" where
  "collectStatements L [] acc = Inr acc"
| "collectStatements L (stmt # rest) acc =
     (case st_Command stmt of
        None \<Rightarrow> collectStatements L rest acc
      | Some cmd \<Rightarrow>
          (case collectCommand L cmd acc of
             Inl e \<Rightarrow> Inl e
           | Inr acc' \<Rightarrow> collectStatements L rest acc'))"

fun collectSections :: "lib \<Rightarrow> Section list \<Rightarrow> resAcc \<Rightarrow> error + resAcc" where
  "collectSections L [] acc = Inr acc"
| "collectSections L (sec # rest) acc =
     (case sec_Resources sec of
        None \<Rightarrow> collectSections L rest acc
      | Some None \<Rightarrow> collectSections L rest acc
      | Some (Some b) \<Rightarrow>
          (case collectStatements L (Statements b) acc of
             Inl e \<Rightarrow> Inl e
           | Inr acc' \<Rightarrow> collectSections L rest acc'))"

definition defaultBodyFont :: FontResource where
  "defaultBodyFont =
     \<lparr>font_Name = ''Body'',
      font_Src = ''assets/fonts/Noto_Sans_SC/static/NotoSansSC-Regular.ttf'',
      font_Style = [], font_Base = [], font_Family = ''Body'', font_IsBuiltin = False,
      font_Fallback = ''embed:Inter/static/Inter-Regular.ttf''\<rparr>"

definition emptyResources :: ResourceSet where
  "emptyResources = \<lparr>Fonts = [], Colors = Map.empty, Images = Map.empty, Styles = Map.empty\<rparr>"

definition collectResources :: "lib \<Rightarrow> Document \<Rightarrow> error + ResourceSet" where
  "collectResources L doc =
     (case collectSections L (doc_Sections doc) (emptyResources, []) of
        Inl e \<Rightarrow> Inl e
      | Inr (res, rawStyles) \<Rightarrow>
          (let res1 = (if Fonts res = [] then res\<lparr>Fonts := [(''Body'', defaultBodyFont)]\<rparr> else res)
           in case resolveStyles L rawStyles of
                Inl e \<Rightarrow> Inl e
              | Inr resolvedStyles \<Rightarrow> Inr (res1\<lparr>Styles := resolvedStyles\<rparr>)))"

section \<open>Document metadata\<close>

record DocumentMeta =
  meta_Title :: string
  meta_Author :: string
  meta_Subject :: string
  meta_Creator :: string
  meta_Keywords :: "string list"

definition metaAssign :: "lib \<Rightarrow> Assignment \<Rightarrow> DocumentMeta \<Rightarrow> DocumentMeta" where
  "metaAssign L a meta =
     (let key = ToLower L (asg_Key a) in
      if key = ''title'' then meta\<lparr>meta_Title := valueToString (asg_Value a)\<rparr>
      else if key = ''author'' then meta\<lparr>meta_Author := valueToString (asg_Value a)\<rparr>
      else if key = ''subject'' then meta\<lparr>meta_Subject := valueToString (asg_Value a)\<rparr>
      else if key = ''creator'' then meta\<lparr>meta_Creator := valueToString (asg_Value a)\<rparr>
      else if key = ''keywords'' then meta\<lparr>meta_Keywords := valueToStringSlice (asg_Value a)\<rparr>
      else meta)"

fun metaStatements :: "lib \<Rightarrow> Statement list \<Rightarrow> DocumentMeta \<Rightarrow> DocumentMeta" where
  "metaStatements L [] meta = meta"
| "metaStatements L (stmt # rest) meta =
     (case st_Assignment stmt of
        None \<Rightarrow> metaStatements L rest meta
      | Some a \<Rightarrow> metaStatements L rest (metaAssign L a meta))"

fun metaSections :: "lib \<Rightarrow> Section list \<Rightarrow> DocumentMeta \<Rightarrow> DocumentMeta" where
  "metaSections L [] meta = meta"
| "metaSections L (sec # rest) meta =
     (case sec_Meta sec of
        None \<Rightarrow> metaSections L rest meta
      | Some None \<Rightarrow> metaSections L rest meta
      | Some (Some b) \<Rightarrow> metaSections L rest (metaStatements L (Statements b) meta))"

definition collectMeta :: "lib \<Rightarrow> Document \<Rightarrow> DocumentMeta" where
  "collectMeta L doc =
     metaSections L (doc_Sections doc)
       \<lparr>meta_Title = [], meta_Author = [], meta_Subject = [], meta_Creator = ''Papyrus'',
        meta_Keywords = []\<rparr>"

fun firstPage :: "Section list \<Rightarrow> PageSection option" where
  "firstPage [] = None"
| "firstPage (sec # rest) =
     (case sec_Page sec of Some p \<Rightarrow> Some p | None \<Rightarrow> firstPage rest)"

section \<open>Positioned geometry (options.go)\<close>

record ImageBox =
  ib_Path :: string
  ib_X :: real
  ib_Y :: real
  ib_Width :: real
  ib_Height :: real
  ib_Fit :: string
  ib_Opacity :: real

record TableCell =
  tc_Text :: TextBox

record TableRow =
  tr_Y :: real
  tr_Height :: real
  tr_IsHeader :: bool
  tr_Cells :: "TableCell list"

record TableBox =
  tbl_X :: real
  tbl_Y :: real
  tbl_Width :: real
  tbl_RowGap :: real
  tbl_ColumnWidths :: "real list"
  tbl_Rows :: "TableRow list"
  tbl_BorderColor :: Color

record Line =
  ln_X1 :: real
  ln_Y1 :: real
  ln_X2 :: real
  ln_Y2 :: real
  ln_Color :: Color
  ln_Width :: real

record Rect =
  rc_X :: real
  rc_Y :: real
  rc_Width :: real
  rc_Height :: real
  rc_StrokeColor :: Color
  rc_StrokeWidth :: real
  rc_FillColor :: "Color option"

record Circle =
  ci_CX :: real
  ci_CY :: real
  ci_R :: real
  ci_StrokeColor :: Color
  ci_StrokeWidth :: real
  ci_FillColor :: "Color option"

record HeaderFooter =
  hf_Height :: real
  hf_Texts :: "TextBox list"
  hf_Images :: "ImageBox list"
  hf_Lines :: "Line list"
  hf_Rects :: "Rect list"
  hf_Circles :: "Circle list"

record Page =
  pg_Width :: real
  pg_Height :: real
  pg_Margin :: Margin
  pg_Texts :: "TextBox list"
  pg_Images :: "ImageBox list"
  pg_Tables :: "TableBox list"
  pg_Lines :: "Line list"
  pg_Rects :: "Rect list"
  pg_Circles :: "Circle list"
  pg_Header :: HeaderFooter
  pg_Footer :: HeaderFooter

record Result =
  Pages :: "Page list"
  Resources :: ResourceSet
  Meta :: DocumentMeta

record BuildOptions =
  opt_Typesetter :: "Typesetter option"
  opt_Debug :: DebugOptions

definition black :: Color where
  "black = \<lparr>col_R = 0, col_G = 0, col_B = 0\<rparr>"

section \<open>The page collector\<close>

record pageAccumulator =
  acc_texts :: "TextBox list"
  acc_images :: "ImageBox list"
  acc_tables :: "TableBox list"
  acc_lines :: "Line list"
  acc_rects :: "Rect list"
  acc_circles :: "Circle list"

record pageCollector =
  pc_width :: real
  pc_height :: real
  pc_margin :: Margin
  pc_accs :: "pageAccumulator list"
  pc_current :: nat
  pc_header :: HeaderFooter
  pc_footer :: HeaderFooter

definition emptyAccumulator :: pageAccumulator where
  "emptyAccumulator =
     \<lparr>acc_texts = [], acc_images = [], acc_tables = [], acc_lines = [], acc_rects = [],
      acc_circles = []\<rparr>"

definition emptyHeaderFooter :: HeaderFooter where
  "emptyHeaderFooter =
     \<lparr>hf_Height = 0, hf_Texts = [], hf_Images = [], hf_Lines = [], hf_Rects = [],
      hf_Circles = []\<rparr>"

definition newPage :: "pageCollector \<Rightarrow> pageCollector" where
  "newPage pc =
     pc\<lparr>pc_accs := pc_accs pc @ [emptyAccumulator],
        pc_current := length (pc_accs pc @ [emptyAccumulator]) - 1\<rparr>"

definition newPageCollector :: "real \<Rightarrow> real \<Rightarrow> Margin \<Rightarrow> pageCollector" where
  "newPageCollector w h margin =
     newPage \<lparr>pc_width = w, pc_height = h, pc_margin = margin, pc_accs = [], pc_current = 0,
              pc_header = emptyHeaderFooter, pc_footer = emptyHeaderFooter\<rparr>"

text \<open>
  \<^verbatim>\<open>curr()\<close> returns a pointer to the current accumulator, which the caller then
  appends to: \<open>updCurr f\<close> applies \<open>f\<close> to that accumulator. An index outside the slice
  is a panic.
\<close>

definition updCurr ::
  "(pageAccumulator \<Rightarrow> pageAccumulator) \<Rightarrow> pageCollector \<Rightarrow> error + pageCollector" where
  "updCurr f pc =
     (let pc1 = (if pc_accs pc = [] then newPage pc else pc) in
      if pc_current pc1 < length (pc_accs pc1)
      then Inr (pc1\<lparr>pc_accs :=
                      (pc_accs pc1)[pc_current pc1 := f (pc_accs pc1 ! pc_current pc1)]\<rparr>)
      else Inl Panic)"

definition appendText :: "TextBox \<Rightarrow> pageAccumulator \<Rightarrow> pageAccumulator" where
  "appendText tb p = p\<lparr>acc_texts := acc_texts p @ [tb]\<rparr>"

definition appendImage :: "ImageBox \<Rightarrow> pageAccumulator \<Rightarrow> pageAccumulator" where
  "appendImage img p = p\<lparr>acc_images := acc_images p @ [img]\<rparr>"

definition appendTable :: "TableBox \<Rightarrow> pageAccumulator \<Rightarrow> pageAccumulator" where
  "appendTable t p = p\<lparr>acc_tables := acc_tables p @ [t]\<rparr>"

definition contentTop :: "pageCollector \<Rightarrow> real" where
  "contentTop pc =
     (if hf_Height (pc_header pc) > mg_Top (pc_margin pc)
      then hf_Height (pc_header pc)
      else mg_Top (pc_margin pc))"

definition contentBottom :: "pageCollector \<Rightarrow> real" where
  "contentBottom pc =
     (let b = (if hf_Height (pc_footer pc) > mg_Bottom (pc_margin pc)
               then hf_Height (pc_footer pc)
               else mg_Bottom (pc_margin pc))
      in pc_height pc - b)"

definition maxContentY :: "pageCollector \<Rightarrow> real" where
  "maxContentY pc = contentBottom pc"

definition allPages :: "pageCollector \<Rightarrow> Page list" where
  "allPages pc =
     map (\<lambda>a. \<lparr>pg_Width = pc_width pc, pg_Height = pc_height pc, pg_Margin = pc_margin pc,
                  pg_Texts = acc_texts a, pg_Images = acc_images a, pg_Tables = acc_tables a,
                  pg_Lines = acc_lines a, pg_Rects = acc_rects a, pg_Circles = acc_circles a,
                  pg_Header = pc_header pc, pg_Footer = pc_footer pc\<rparr>)
         (pc_accs pc)"

definition pages :: "pageCollector \<Rightarrow> Page list" where
  "pages pc = allPages pc"

section \<open>Flow contexts\<close>

text \<open>
  A \<^verbatim>\<open>flowContext\<close> points to its parent and to the collector. The state of the layout
  walk is the context at work, the chain of its ancestors (the parent first, the root
  last) and the one collector that all of them share; a context built by the engine
  always has a collector, so the nil checks on it are not modelled.
\<close>

record flowContext =
  fc_baseX :: real
  fc_baseY :: real
  fc_width :: real
  fc_cursorY :: real
  fc_data :: any
  fc_typesetter :: "Typesetter option"
  fc_debug :: DebugOptions
  fc_margin :: Margin
  fc_allowPageBreak :: bool
  fc_textAlign :: string
  fc_textWrap :: string

type_synonym layoutState = "flowContext \<times> flowContext list \<times> pageCollector"

text \<open>
  \<^verbatim>\<open>pageBreak\<close> first breaks the page in the parent, then restarts this context at
  the parent's cursor; the root opens the new page.
\<close>

fun pageBreak :: "flowContext \<Rightarrow> flowContext list \<Rightarrow> pageCollector \<Rightarrow> layoutState" where
  "pageBreak ctx [] pc =
     (let pc' = newPage pc
      in (ctx\<lparr>fc_baseX := mg_Left (fc_margin ctx), fc_baseY := contentTop pc',
              fc_cursorY := contentTop pc'\<rparr>,
          [], pc'))"
| "pageBreak ctx (parent # ancestors) pc =
     (case pageBreak parent ancestors pc of
        (parent', ancestors', pc') \<Rightarrow>
          (ctx\<lparr>fc_baseY := fc_cursorY parent', fc_cursorY := fc_cursorY parent'\<rparr>,
           parent' # ancestors', pc'))"

definition ensureSpace :: "real \<Rightarrow> layoutState \<Rightarrow> layoutState" where
  "ensureSpace height st =
     (case st of (ctx, parents, pc) \<Rightarrow>
        (if \<not> fc_allowPageBreak ctx then st
         else if fc_cursorY ctx + height \<le> maxContentY pc then st
         else pageBreak ctx parents pc))"

section \<open>Wrap and alignment policies\<close>

definition normalizeWrap :: "lib \<Rightarrow> string \<Rightarrow> string" where
  "normalizeWrap L v0 =
     (let v = ToLower L (TrimSpace L v0) in
      if v = [] \<or> v = ''auto'' \<or> v = ''anywhere'' \<or> v = ''overflow-wrap:anywhere'' \<or>
         v = ''overflow-anywhere'' then ''anywhere''
      else if v = ''break-word'' \<or> v = ''word-break:break-word'' then ''break-word''
      else if v = ''nowrap'' \<or> v = ''no-wrap'' then ''nowrap''
      else if v = ''normal'' then ''normal''
      else ''anywhere'')"

definition alignOffset :: "lib \<Rightarrow> real \<Rightarrow> real \<Rightarrow> string \<Rightarrow> real" where
  "alignOffset L container w align =
     (if container \<le> w then 0
      else
        (let a = ToLower L align in
         if a = ''center'' \<or> a = ''middle'' then (container - w) / 2
         else if a = ''right'' \<or> a = ''end'' then container - w
         else 0))"

section \<open>Basic shapes\<close>

definition shapeColor :: "lib \<Rightarrow> (string \<rightharpoonup> string) \<Rightarrow> ResourceSet \<Rightarrow> Color" where
  "shapeColor L attrs res =
     (if attr attrs ''color'' \<noteq> [] then resolveColor L (attr attrs ''color'') res else black)"

definition parseLineShape :: "lib \<Rightarrow> (string \<rightharpoonup> string) \<Rightarrow> ResourceSet \<Rightarrow> Line option" where
  "parseLineShape L attrs res =
     (let x1 = parseLength L (attr attrs ''x1''); y1 = parseLength L (attr attrs ''y1'');
          x2 = parseLength L (attr attrs ''x2''); y2 = parseLength L (attr attrs ''y2'')
      in if x1 \<noteq> 0 \<or> y1 \<noteq> 0 \<or> x2 \<noteq> 0 \<or> y2 \<noteq> 0 then
           Some \<lparr>ln_X1 = x1, ln_Y1 = y1, ln_X2 = x2, ln_Y2 = y2,
                 ln_Color = shapeColor L attrs res,
                 ln_Width = parseLength L (attr attrs ''width'')\<rparr>
         else
           (let x = parseLength L (attr attrs ''x''); y = parseLength L (attr attrs ''y'');
                len = parseLength L (attr attrs ''length'')
            in if (x \<noteq> 0 \<or> y \<noteq> 0) \<and> len > 0 then
                 (let d = ToLower L (TrimSpace L (attr attrs ''dir'')) in
                  if d = [] \<or> d = ''h'' \<or> d = ''hor'' \<or> d = ''horizontal'' then
                    Some \<lparr>ln_X1 = x, ln_Y1 = y, ln_X2 = x + len, ln_Y2 = y,
                          ln_Color = shapeColor L attrs res,
                          ln_Width = parseLength L (attr attrs ''width'')\<rparr>
                  else if d = ''v'' \<or> d = ''ver'' \<or> d = ''vertical'' then
                    Some \<lparr>ln_X1 = x, ln_Y1 = y, ln_X2 = x, ln_Y2 = y + len,
                          ln_Color = shapeColor L attrs res,
                          ln_Width = parseLength L (attr attrs ''width'')\<rparr>
                  else None)
               else None))"

definition parseRectShape :: "lib \<Rightarrow> (string \<rightharpoonup> string) \<Rightarrow> ResourceSet \<Rightarrow> Rect option" where
  "parseRectShape L attrs res =
     (let w = parseLength L (attr attrs ''width''); h = parseLength L (attr attrs ''height'')
      in if w \<le> 0 \<or> h \<le> 0 then None
         else
           Some \<lparr>rc_X = parseLength L (attr attrs ''x''), rc_Y = parseLength L (attr attrs ''y''),
                 rc_Width = w, rc_Height = h,
                 rc_StrokeColor =
                   (if attr attrs ''stroke'' \<noteq> [] then resolveColor L (attr attrs ''stroke'') res
                    else black),
                 rc_StrokeWidth =
                   (if attr attrs ''stroke-width'' \<noteq> []
                    then parseLength L (attr attrs ''stroke-width'') else 0),
                 rc_FillColor =
                   (if attr attrs ''fill'' \<noteq> [] then Some (resolveColor L (attr attrs ''fill'') res)
                    else None)\<rparr>)"

definition parseCircleShape :: "lib \<Rightarrow> (string \<rightharpoonup> string) \<Rightarrow> ResourceSet \<Rightarrow> Circle option" where
  "parseCircleShape L attrs res =
     (let r = parseLength L (attr attrs ''r'')
      in if r \<le> 0 then None
         else
           Some \<lparr>ci_CX = parseLength L (attr attrs ''cx''), ci_CY = parseLength L (attr attrs ''cy''),
                 ci_R = r,
                 ci_StrokeColor =
                   (if attr attrs ''stroke'' \<noteq> [] then resolveColor L (attr attrs ''stroke'') res
                    else black),
                 ci_StrokeWidth =
                   (if attr attrs ''stroke-width'' \<noteq> []
                    then parseLength L (attr attrs ''stroke-width'') else 0),
                 ci_FillColor =
                   (if attr attrs ''fill'' \<noteq> [] then Some (resolveColor L (attr attrs ''fill'') res)
                    else None)\<rparr>)"

text \<open>
  The \<^verbatim>\<open>default\<close> branch of \<^verbatim>\<open>processBlock\<close>: a shape goes to the current page's
  accumulator, any other command is ignored.
\<close>

definition handleShape :: "lib \<Rightarrow> ResourceSet \<Rightarrow> Command \<Rightarrow> layoutState \<Rightarrow> error + layoutState" where
  "handleShape L res cmd st =
     (case st of (ctx, parents, pc) \<Rightarrow>
        (let name = ToLower L (cmd_Name cmd);
             attrs = snd (parseArgs (cmd_Args cmd) False)
         in if name = ''line'' then
              (case parseLineShape L attrs res of
                 None \<Rightarrow> Inr st
               | Some shape \<Rightarrow>
                   (case updCurr (\<lambda>a. a\<lparr>acc_lines := acc_lines a @ [shape]\<rparr>) pc of
                      Inl e \<Rightarrow> Inl e
                    | Inr pc' \<Rightarrow> Inr (ctx, parents, pc')))
            else if name = ''rect'' then
              (case parseRectShape L attrs res of
                 None \<Rightarrow> Inr st
               | Some rc \<Rightarrow>
                   (case updCurr (\<lambda>a. a\<lparr>acc_rects := acc_rects a @ [rc]\<rparr>) pc of
                      Inl e \<Rightarrow> Inl e
                    | Inr pc' \<Rightarrow> Inr (ctx, parents, pc')))
            else if name = ''circle'' then
              (case parseCircleShape L attrs res of
                 None \<Rightarrow> Inr st
               | Some c \<Rightarrow>
                   (case updCurr (\<lambda>a. a\<lparr>acc_circles := acc_circles a @ [c]\<rparr>) pc of
                      Inl e \<Rightarrow> Inl e
                    | Inr pc' \<Rightarrow> Inr (ctx, parents, pc')))
            else Inr st))"

section \<open>Text\<close>

definition handleText :: "lib \<Rightarrow> ResourceSet \<Rightarrow> Command \<Rightarrow> layoutState \<Rightarrow> error + layoutState" where
  "handleText L res cmd st =
     (case st of (ctx, parents, pc) \<Rightarrow>
        (case cmd_Block cmd of
           None \<Rightarrow> Inl ErrTextNoBlock
         | Some b \<Rightarrow>
             (let styleName = fst (parseArgs (cmd_Args cmd) True);
                  attrs1 = mergeStyleAttributes styleName (snd (parseArgs (cmd_Args cmd) True))
                             (Styles res);
                  attrs =
                    (if attrs1 ''align'' = None \<or> TrimSpace L (attr attrs1 ''align'') = [] then
                       (if TrimSpace L (fc_textAlign ctx) \<noteq> []
                        then attrs1(''align'' \<mapsto> fc_textAlign ctx) else attrs1)
                     else attrs1);
                  content = extractText (cmd_Block cmd)
              in if content = [] then Inl ErrTextNoContent
                 else
                   (let effWrap =
                          (case attrs ''wrap'' of
                             Some v \<Rightarrow>
                               (if TrimSpace L v \<noteq> [] then normalizeWrap L v else fc_textWrap ctx)
                           | None \<Rightarrow> fc_textWrap ctx)
                    in case composeTextBox L styleName attrs content (fc_baseX ctx) (fc_cursorY ctx)
                              (fc_width ctx) res (fc_data ctx) (fc_typesetter ctx) (fc_debug ctx)
                              effWrap of
                         Inl e \<Rightarrow> Inl e
                       | Inr (tb, height) \<Rightarrow>
                           (case ensureSpace height (ctx, parents, pc) of
                              (ctx1, parents1, pc1) \<Rightarrow>
                                (case updCurr (appendText (tb\<lparr>tb_X := fc_baseX ctx1,
                                                              tb_Y := fc_cursorY ctx1\<rparr>)) pc1 of
                                   Inl e \<Rightarrow> Inl e
                                 | Inr pc2 \<Rightarrow>
                                     Inr (ctx1\<lparr>fc_cursorY :=
                                                 fc_cursorY ctx1 + (height + blockSpacing)\<rparr>,
                                          parents1, pc2)))))))"

section \<open>Images\<close>

text \<open>
  The part of the image code that \<^verbatim>\<open>handleImage\<close> and \<^verbatim>\<open>buildHeaderFooter\<close> both
  write out: the name of the image, its opacity, the size declared for the resource and
  the \<^verbatim>\<open>width\<close> and \<^verbatim>\<open>height\<close> attributes, measured against \<open>reference\<close>.
\<close>

definition imageBoxOf ::
  "lib \<Rightarrow> ResourceSet \<Rightarrow> Command \<Rightarrow> real \<Rightarrow> real \<Rightarrow> real \<Rightarrow> ImageBox \<times> (string \<rightharpoonup> string)" where
  "imageBoxOf L res cmd x y reference =
     (let styleName = fst (parseArgs (cmd_Args cmd) True);
          attrs = mergeStyleAttributes styleName (snd (parseArgs (cmd_Args cmd) True)) (Styles res);
          name1 = (if attr attrs ''image'' \<noteq> [] then attr attrs ''image'' else styleName);
          name2 = (if attr attrs ''src'' \<noteq> [] then attr attrs ''src'' else name1);
          imageName =
            (if name2 = [] \<and> cmd_Args cmd \<noteq> [] then lex_Value (hd (cmd_Args cmd)) else name2);
          opacity =
            (if attr attrs ''opacity'' \<noteq> [] then
               (case ParseFloat L (attr attrs ''opacity'') of Some v \<Rightarrow> v | None \<Rightarrow> 1)
             else 1);
          box0 = \<lparr>ib_Path = [], ib_X = x, ib_Y = y, ib_Width = 0, ib_Height = 0,
                  ib_Fit = attr attrs ''fit'', ib_Opacity = opacity\<rparr>;
          box1 =
            (case Images res imageName of
               Some resImg \<Rightarrow>
                 box0\<lparr>ib_Path := (if img_Src resImg = [] then imageName else img_Src resImg),
                      ib_Width := (if img_Width resImg > 0 then img_Width resImg else 0),
                      ib_Height := (if img_Height resImg > 0 then img_Height resImg else 0)\<rparr>
             | None \<Rightarrow> box0\<lparr>ib_Path := imageName\<rparr>);
          box2 =
            (if attr attrs ''width'' \<noteq> [] \<and> parseDimension L (attr attrs ''width'') reference > 0
             then box1\<lparr>ib_Width := parseDimension L (attr attrs ''width'') reference\<rparr> else box1);
          box3 =
            (if attr attrs ''height'' \<noteq> [] \<and> parseDimension L (attr attrs ''height'') reference > 0
             then box2\<lparr>ib_Height := parseDimension L (attr attrs ''height'') reference\<rparr> else box2)
      in (box3, attrs))"

definition handleImage :: "lib \<Rightarrow> ResourceSet \<Rightarrow> Command \<Rightarrow> layoutState \<Rightarrow> error + layoutState" where
  "handleImage L res cmd st =
     (case st of (ctx, parents, pc) \<Rightarrow>
        (let box3 = fst (imageBoxOf L res cmd (fc_baseX ctx) (fc_cursorY ctx) (fc_width ctx));
             box4 =
               (if ib_Width box3 = 0
                then box3\<lparr>ib_Width := (if fc_width ctx > 0 then fc_width ctx else 40)\<rparr>
                else box3);
             imgBox = (if ib_Height box4 = 0 then box4\<lparr>ib_Height := ib_Width box4 * 0.6\<rparr> else box4)
         in if ib_Path imgBox = [] then Inl ErrImageNoSrc
            else
              (case ensureSpace (ib_Height imgBox) (ctx, parents, pc) of
                 (ctx1, parents1, pc1) \<Rightarrow>
                   (case updCurr (appendImage (imgBox\<lparr>ib_Y := fc_cursorY ctx1\<rparr>)) pc1 of
                      Inl e \<Rightarrow> Inl e
                    | Inr pc2 \<Rightarrow>
                        Inr (ctx1\<lparr>fc_cursorY :=
                                    fc_cursorY ctx1 + ib_Height imgBox + blockSpacing\<rparr>,
                             parents1, pc2)))))"

section \<open>Tables\<close>

text \<open>
  The loop of \<^verbatim>\<open>buildTableRow\<close> over the statements of a row; its state is the cells so
  far, the greatest height and \<^verbatim>\<open>colIdx\<close>.
\<close>

fun rowCells ::
  "lib \<Rightarrow> ResourceSet \<Rightarrow> nat \<Rightarrow> real \<Rightarrow> real \<Rightarrow> real \<Rightarrow> any \<Rightarrow> Typesetter option \<Rightarrow> DebugOptions
     \<Rightarrow> Statement list \<Rightarrow> TableCell list \<times> real \<times> nat
     \<Rightarrow> error + (TableCell list \<times> real \<times> nat)" where
  "rowCells L res columnHint tableWidth x0 y0 dat ts dbg [] acc = Inr acc"
| "rowCells L res columnHint tableWidth x0 y0 dat ts dbg (stmt # rest) (cells, maxHeight, colIdx) =
     (case st_Command stmt of
        None \<Rightarrow> rowCells L res columnHint tableWidth x0 y0 dat ts dbg rest (cells, maxHeight, colIdx)
      | Some c \<Rightarrow>
          (if cmd_Name c \<noteq> ''cell'' \<or> extractText (cmd_Block c) = [] then
             rowCells L res columnHint tableWidth x0 y0 dat ts dbg rest (cells, maxHeight, colIdx)
           else
             (let styleName = fst (parseArgs (cmd_Args c) True);
                  attrs = mergeStyleAttributes styleName (snd (parseArgs (cmd_Args c) True))
                            (Styles res);
                  columns = (if columnHint = 0 then 1 else columnHint);
                  colWidth = tableWidth / real columns;
                  x = x0 + real colIdx * colWidth;
                  cellWidth = (if colWidth - 2 * cellPadding \<le> 0 then colWidth
                               else colWidth - 2 * cellPadding);
                  wrap = (if normalizeWrap L (attr attrs ''wrap'') = [] then ''anywhere''
                          else normalizeWrap L (attr attrs ''wrap''))
              in case composeTextBox L styleName attrs (extractText (cmd_Block c))
                        (x + cellPadding) (y0 + cellPadding) cellWidth res dat ts dbg wrap of
                   Inl e \<Rightarrow> Inl e
                 | Inr (tb, height) \<Rightarrow>
                     rowCells L res columnHint tableWidth x0 y0 dat ts dbg rest
                       (cells @ [\<lparr>tc_Text = tb\<rparr>],
                        if height > maxHeight then height else maxHeight,
                        Suc colIdx))))"

definition buildTableRow ::
  "lib \<Rightarrow> Command \<Rightarrow> ResourceSet \<Rightarrow> nat \<Rightarrow> real \<Rightarrow> real \<Rightarrow> real \<Rightarrow> bool \<Rightarrow> any
     \<Rightarrow> Typesetter option \<Rightarrow> DebugOptions \<Rightarrow> error + (TableRow \<times> real \<times> nat)" where
  "buildTableRow L cmd res columnHint tableWidth x0 y0 isHeader dat ts dbg =
     (case cmd_Block cmd of
        None \<Rightarrow> Inl ErrRowNoBlock
      | Some b \<Rightarrow>
          (case rowCells L res columnHint tableWidth x0 y0 dat ts dbg (Statements b) ([], 0, 0) of
             Inl e \<Rightarrow> Inl e
           | Inr (cells, maxHeight, colIdx) \<Rightarrow>
               (if colIdx = 0 then Inl ErrRowNoCell
                else
                  Inr (\<lparr>tr_Y = 0, tr_Height = maxHeight + 2 * cellPadding,
                        tr_IsHeader = isHeader, tr_Cells = cells\<rparr>,
                       maxHeight + 2 * cellPadding, colIdx))))"

text \<open>
  The loop of the closure \<^verbatim>\<open>build\<close> over the statements of the table; its state is
  the rows so far, \<^verbatim>\<open>currentY\<close> and \<^verbatim>\<open>colCount\<close>. Only a \<^verbatim>\<open>header\<close> assigns
  \<^verbatim>\<open>colCount\<close>; the count that a \<^verbatim>\<open>row\<close> returns is dropped.
\<close>

fun tableRows ::
  "lib \<Rightarrow> ResourceSet \<Rightarrow> flowContext \<Rightarrow> real \<Rightarrow> real \<Rightarrow> Statement list
     \<Rightarrow> TableRow list \<times> real \<times> nat \<Rightarrow> error + (TableRow list \<times> real \<times> nat)" where
  "tableRows L res ctx w rowGap [] acc = Inr acc"
| "tableRows L res ctx w rowGap (stmt # rest) (rows, currentY, colCount) =
     (case st_Command stmt of
        None \<Rightarrow> tableRows L res ctx w rowGap rest (rows, currentY, colCount)
      | Some c \<Rightarrow>
          (if cmd_Name c = ''header'' then
             (case buildTableRow L c res colCount w (fc_baseX ctx) currentY True (fc_data ctx)
                     (fc_typesetter ctx) (fc_debug ctx) of
                Inl e \<Rightarrow> Inl e
              | Inr (row, rowHeight, rowColumns) \<Rightarrow>
                  tableRows L res ctx w rowGap rest
                    (rows @ [row\<lparr>tr_Y := currentY + (rowHeight + rowGap) - rowHeight - rowGap\<rparr>],
                     currentY + (rowHeight + rowGap),
                     if colCount = 0 then rowColumns else colCount))
           else if cmd_Name c = ''row'' then
             (case buildTableRow L c res colCount w (fc_baseX ctx) currentY False (fc_data ctx)
                     (fc_typesetter ctx) (fc_debug ctx) of
                Inl e \<Rightarrow> Inl e
              | Inr (row, rowHeight, rowColumns) \<Rightarrow>
                  tableRows L res ctx w rowGap rest
                    (rows @ [row\<lparr>tr_Y := currentY + (rowHeight + rowGap) - rowHeight - rowGap\<rparr>],
                     currentY + (rowHeight + rowGap),
                     colCount))
           else tableRows L res ctx w rowGap rest (rows, currentY, colCount)))"

text \<open>The closure \<^verbatim>\<open>build\<close> of \<^verbatim>\<open>handleTable\<close>, with the variables it captures.\<close>

definition tableBuild ::
  "lib \<Rightarrow> ResourceSet \<Rightarrow> flowContext \<Rightarrow> Statement list \<Rightarrow> real \<Rightarrow> real \<Rightarrow> nat \<Rightarrow> real
     \<Rightarrow> error + (TableBox \<times> real)" where
  "tableBuild L res ctx stmts w rowGap columns y0 =
     (case tableRows L res ctx w rowGap stmts ([], y0, columns) of
        Inl e \<Rightarrow> Inl e
      | Inr (rows, currentY, colCount) \<Rightarrow>
          (if colCount = 0 then Inl ErrTableNoCells
           else
             Inr (\<lparr>tbl_X = fc_baseX ctx, tbl_Y = y0, tbl_Width = w, tbl_RowGap = rowGap,
                   tbl_ColumnWidths = replicate colCount (w / real colCount),
                   tbl_Rows = rows,
                   tbl_BorderColor = \<lparr>col_R = 200, col_G = 200, col_B = 200\<rparr>\<rparr>,
                  (if rows \<noteq> [] then currentY - rowGap else currentY) - y0)))"

definition tableWidthOf :: "lib \<Rightarrow> (string \<rightharpoonup> string) \<Rightarrow> flowContext \<Rightarrow> real" where
  "tableWidthOf L attrs ctx =
     (if attr attrs ''width'' \<noteq> [] \<and> parseDimension L (attr attrs ''width'') (fc_width ctx) > 0
      then parseDimension L (attr attrs ''width'') (fc_width ctx)
      else fc_width ctx)"

definition tableRowGapOf :: "lib \<Rightarrow> (string \<rightharpoonup> string) \<Rightarrow> real" where
  "tableRowGapOf L attrs =
     (if attr attrs ''row-gap'' \<noteq> [] then
        (if parseLength L (attr attrs ''row-gap'') \<ge> 0 then parseLength L (attr attrs ''row-gap'')
         else defaultTableRowGap)
      else if attr attrs ''rowGap'' \<noteq> [] then
        (if parseLength L (attr attrs ''rowGap'') \<ge> 0 then parseLength L (attr attrs ''rowGap'')
         else defaultTableRowGap)
      else defaultTableRowGap)"

definition tableColumnsOf :: "lib \<Rightarrow> (string \<rightharpoonup> string) \<Rightarrow> nat" where
  "tableColumnsOf L attrs =
     (if attr attrs ''columns'' \<noteq> [] then
        (case Atoi L (attr attrs ''columns'') of
           Some c \<Rightarrow> (if c > 0 then nat c else 0)
         | None \<Rightarrow> 0)
      else 0)"

definition handleTable :: "lib \<Rightarrow> ResourceSet \<Rightarrow> Command \<Rightarrow> layoutState \<Rightarrow> error + layoutState" where
  "handleTable L res cmd st =
     (case st of (ctx, parents, pc) \<Rightarrow>
        (case cmd_Block cmd of
           None \<Rightarrow> Inl ErrTableNoBlock
         | Some b \<Rightarrow>
             (let attrs = mergeStyleAttributes (fst (parseArgs (cmd_Args cmd) False))
                            (snd (parseArgs (cmd_Args cmd) False)) (Styles res);
                  w = tableWidthOf L attrs ctx;
                  rowGap = tableRowGapOf L attrs;
                  columns = tableColumnsOf L attrs
              in case tableBuild L res ctx (Statements b) w rowGap columns (fc_cursorY ctx) of
                   Inl e \<Rightarrow> Inl e
                 | Inr (table, height) \<Rightarrow>
                     (if fc_allowPageBreak ctx \<and> fc_cursorY ctx + height > maxContentY pc then
                        (case pageBreak ctx parents pc of
                           (ctx1, parents1, pc1) \<Rightarrow>
                             (case tableBuild L res ctx1 (Statements b) w rowGap columns
                                     (fc_cursorY ctx1) of
                                Inl e \<Rightarrow> Inl e
                              | Inr (table1, height1) \<Rightarrow>
                                  (case updCurr (appendTable table1) pc1 of
                                     Inl e \<Rightarrow> Inl e
                                   | Inr pc2 \<Rightarrow>
                                       Inr (ctx1\<lparr>fc_cursorY :=
                                                   fc_cursorY ctx1 + (height1 + blockSpacing)\<rparr>,
                                            parents1, pc2))))
                      else
                        (case updCurr (appendTable table) pc of
                           Inl e \<Rightarrow> Inl e
                         | Inr pc2 \<Rightarrow>
                             Inr (ctx\<lparr>fc_cursorY := fc_cursorY ctx + (height + blockSpacing)\<rparr>,
                                  parents, pc2))))))"

section \<open>Inferring the width of a flow\<close>

definition MaxFloat64 :: real where
  "MaxFloat64 = (2 - 1 / 2 ^ 52) * 2 ^ 1023"

definition parseFontSize :: "lib \<Rightarrow> string \<Rightarrow> real" where
  "parseFontSize L v =
     (if v = [] then 12
      else (case ParseFloat L (trimUnit v) of None \<Rightarrow> 12 | Some f \<Rightarrow> f))"

fun maxRunes :: "lib \<Rightarrow> string list \<Rightarrow> nat \<Rightarrow> nat" where
  "maxRunes L [] maxChars = maxChars"
| "maxRunes L (l # ls) maxChars =
     maxRunes L ls (if RuneCountInString L l > maxChars then RuneCountInString L l else maxChars)"

definition estimateTextWidth :: "lib \<Rightarrow> string \<Rightarrow> real \<Rightarrow> real" where
  "estimateTextWidth L content fontSize0 =
     (let fontSize = (if fontSize0 \<le> 0 then 12 else fontSize0);
          m = maxRunes L (SplitOn newline content) 0;
          maxChars = (if m = 0 then RuneCountInString L content else m)
      in fontSize * 0.55 * real (maxChars + 1))"

fun maxLineWidth :: "TextLine list \<Rightarrow> real \<Rightarrow> real" where
  "maxLineWidth [] maxW = maxW"
| "maxLineWidth (l # ls) maxW = maxLineWidth ls (if tl_Width l > maxW then tl_Width l else maxW)"

definition inferTextWidth ::
  "lib \<Rightarrow> Command \<Rightarrow> ResourceSet \<Rightarrow> real \<Rightarrow> Typesetter option \<Rightarrow> real" where
  "inferTextWidth L cmd res maxWidth ts =
     (case cmd_Block cmd of
        None \<Rightarrow> 0
      | Some b \<Rightarrow>
          (let styleName = fst (parseArgs (cmd_Args cmd) True);
               attrs = mergeStyleAttributes styleName (snd (parseArgs (cmd_Args cmd) True))
                         (Styles res);
               content = extractText (cmd_Block cmd);
               estimate = estimateTextWidth L content (parseFontSize L (attr attrs ''size''))
           in if attr attrs ''width'' \<noteq> [] then parseDimension L (attr attrs ''width'') maxWidth
              else if content = [] then 0
              else if ts = None then estimate
              else
                (let fontName1 = (if attr attrs ''font'' = [] then styleName else attr attrs ''font'');
                     fontName = (if fontName1 = [] then ''Body'' else fontName1)
                 in case resolveFontResource L fontName res of
                      Inl e \<Rightarrow> estimate
                    | Inr fontRes \<Rightarrow>
                        (let fontSizeMm =
                               (if parseLength L (attr attrs ''size'') \<le> 0 then 12 * 0.352777
                                else parseLength L (attr attrs ''size''));
                             lineHeightMm = resolveLineHeight L attrs fontSizeMm
                         in case layoutLines content MaxFloat64 fontRes fontSizeMm lineHeightMm ts
                                   ''nowrap'' of
                              Inl e \<Rightarrow> estimate
                            | Inr ls \<Rightarrow>
                                (if maxLineWidth ls 0 \<le> 0 then estimate
                                 else maxLineWidth ls 0)))))"

fun inferFlowWidth ::
    "lib \<Rightarrow> Block option \<Rightarrow> ResourceSet \<Rightarrow> real \<Rightarrow> Typesetter option \<Rightarrow> real"
  and inferStatements ::
    "lib \<Rightarrow> Statement list \<Rightarrow> ResourceSet \<Rightarrow> real \<Rightarrow> Typesetter option \<Rightarrow> real \<Rightarrow> real"
where
  "inferFlowWidth L None res maxWidth ts = 0"
| "inferFlowWidth L (Some (Block stmts)) res maxWidth ts =
     inferStatements L stmts res maxWidth ts 0"
| "inferStatements L [] res maxWidth ts w = w"
| "inferStatements L (Statement a None t # rest) res maxWidth ts w =
     inferStatements L rest res maxWidth ts w"
| "inferStatements L (Statement a (Some (Command name args block)) t # rest) res maxWidth ts w =
     (if name = ''text'' then
        inferStatements L rest res maxWidth ts
          (if inferTextWidth L (Command name args block) res maxWidth ts > w
           then inferTextWidth L (Command name args block) res maxWidth ts else w)
      else if name = ''flow'' then
        inferStatements L rest res maxWidth ts
          (if inferFlowWidth L block res maxWidth ts > w
           then inferFlowWidth L block res maxWidth ts else w)
      else if name = ''image'' then
        inferStatements L rest res maxWidth ts
          (let attrs = snd (parseArgs args True) in
           if attr attrs ''width'' \<noteq> [] \<and> parseDimension L (attr attrs ''width'') maxWidth > w
           then parseDimension L (attr attrs ''width'') maxWidth else w)
      else if name = ''table'' then
        inferStatements L rest res maxWidth ts
          (let attrs = snd (parseArgs args False) in
           if attr attrs ''width'' \<noteq> [] \<and> parseDimension L (attr attrs ''width'') maxWidth > w
           then parseDimension L (attr attrs ''width'') maxWidth else w)
      else inferStatements L rest res maxWidth ts w)"

section \<open>Containers\<close>

definition flowWidth :: "lib \<Rightarrow> Command \<Rightarrow> ResourceSet \<Rightarrow> (string \<rightharpoonup> string) \<Rightarrow> flowContext \<Rightarrow> real" where
  "flowWidth L cmd res attrs parent =
     (if attr attrs ''width'' \<noteq> [] then
        (let w = parseDimension L (attr attrs ''width'') (fc_width parent) in
         if w > 0 \<and> w \<le> fc_width parent then w else fc_width parent)
      else
        (let a = ToLower L (attr attrs ''align'') in
         if a = ''center'' \<or> a = ''right'' \<or> a = ''end'' then
           (let inferred = inferFlowWidth L (cmd_Block cmd) res (fc_width parent)
                             (fc_typesetter parent)
            in if inferred > 0 then min inferred (fc_width parent) else fc_width parent)
         else fc_width parent))"

definition flowAlignOf :: "lib \<Rightarrow> (string \<rightharpoonup> string) \<Rightarrow> string" where
  "flowAlignOf L attrs =
     (let a0 = ToLower L (attr attrs ''align'');
          a1 = (if a0 = ''start'' then ''left'' else a0);
          a2 = (if a1 = ''end'' then ''right'' else a1)
      in if a2 \<noteq> ''left'' \<and> a2 \<noteq> ''center'' \<and> a2 \<noteq> ''right'' then [] else a2)"

text \<open>The child context that \<^verbatim>\<open>handleFlow\<close> builds.\<close>

definition flowChild :: "lib \<Rightarrow> ResourceSet \<Rightarrow> Command \<Rightarrow> flowContext \<Rightarrow> flowContext" where
  "flowChild L res cmd parent =
     (let attrs = mergeStyleAttributes (fst (parseArgs (cmd_Args cmd) False))
                    (snd (parseArgs (cmd_Args cmd) False)) (Styles res);
          w = flowWidth L cmd res attrs parent;
          offset = alignOffset L (fc_width parent) w (attr attrs ''align'');
          flowWrap =
            (case attrs ''wrap'' of
               Some v \<Rightarrow> (if TrimSpace L v \<noteq> [] then normalizeWrap L v else fc_textWrap parent)
             | None \<Rightarrow> fc_textWrap parent)
      in \<lparr>fc_baseX = fc_baseX parent + offset, fc_baseY = fc_cursorY parent, fc_width = w,
          fc_cursorY = fc_cursorY parent, fc_data = fc_data parent,
          fc_typesetter = fc_typesetter parent, fc_debug = fc_debug parent,
          fc_margin = fc_margin parent, fc_allowPageBreak = fc_allowPageBreak parent,
          fc_textAlign = flowAlignOf L attrs, fc_textWrap = flowWrap\<rparr>)"

text \<open>The end of \<^verbatim>\<open>handleFlow\<close>: the parent's cursor moves below the child's.\<close>

definition flowFinish :: "flowContext \<Rightarrow> flowContext \<Rightarrow> flowContext" where
  "flowFinish child parent =
     (if fc_cursorY child > fc_cursorY parent
      then parent\<lparr>fc_cursorY := fc_cursorY child + blockSpacing\<rparr>
      else parent)"

text \<open>The child context that \<^verbatim>\<open>handleAbsolute\<close> builds; it never breaks a page.\<close>

definition absoluteChild :: "lib \<Rightarrow> ResourceSet \<Rightarrow> Command \<Rightarrow> flowContext \<Rightarrow> flowContext" where
  "absoluteChild L res cmd parent =
     (let attrs = mergeStyleAttributes (fst (parseArgs (cmd_Args cmd) False))
                    (snd (parseArgs (cmd_Args cmd) False)) (Styles res);
          w = (if attr attrs ''width'' \<noteq> [] \<and>
                  parseDimension L (attr attrs ''width'') (fc_width parent) > 0
               then parseDimension L (attr attrs ''width'') (fc_width parent)
               else fc_width parent);
          offsetX = parseDimension L (attr attrs ''x'') (fc_width parent);
          offsetY = parseDimension L (attr attrs ''y'') (fc_width parent)
      in \<lparr>fc_baseX = fc_baseX parent + offsetX, fc_baseY = fc_baseY parent + offsetY,
          fc_width = w, fc_cursorY = fc_baseY parent + offsetY, fc_data = fc_data parent,
          fc_typesetter = fc_typesetter parent, fc_debug = fc_debug parent,
          fc_margin = fc_margin parent, fc_allowPageBreak = False,
          fc_textAlign = [], fc_textWrap = []\<rparr>)"

section \<open>Walking a block\<close>

text \<open>
  \<^verbatim>\<open>processBlock\<close> with the two handlers that call it back. A container runs its
  block in the child context, with the parent put in front of the ancestors; when the
  block is done, the parent is the head of the chain again. The chain keeps its length
  (lemma \<open>processBlock_chain\<close>), so the \<open>Panic\<close> of the empty chain is never reached.
\<close>

fun processBlock :: "lib \<Rightarrow> ResourceSet \<Rightarrow> Statement list \<Rightarrow> layoutState \<Rightarrow> error + layoutState"
  and processStatement :: "lib \<Rightarrow> ResourceSet \<Rightarrow> Statement \<Rightarrow> layoutState \<Rightarrow> error + layoutState"
  and handleFlow :: "lib \<Rightarrow> ResourceSet \<Rightarrow> Command \<Rightarrow> layoutState \<Rightarrow> error + layoutState"
  and handleAbsolute :: "lib \<Rightarrow> ResourceSet \<Rightarrow> Command \<Rightarrow> layoutState \<Rightarrow> error + layoutState"
where
  "processBlock L res [] st = Inr st"
| "processBlock L res (stmt # rest) st =
     (case processStatement L res stmt st of
        Inl e \<Rightarrow> Inl e
      | Inr st' \<Rightarrow> processBlock L res rest st')"
| "processStatement L res (Statement a None t) st = Inr st"
| "processStatement L res (Statement a (Some cmd) t) st =
     (if cmd_Name cmd = ''flow'' then handleFlow L res cmd st
      else if cmd_Name cmd = ''absolute'' then handleAbsolute L res cmd st
      else if cmd_Name cmd = ''text'' then handleText L res cmd st
      else if cmd_Name cmd = ''image'' then handleImage L res cmd st
      else if cmd_Name cmd = ''table'' then handleTable L res cmd st
      else handleShape L res cmd st)"
| "handleFlow L res (Command name args None) st = Inl ErrFlowNoBlock"
| "handleFlow L res (Command name args (Some (Block stmts))) (parent, ancestors, pc) =
     (case processBlock L res stmts
             (flowChild L res (Command name args (Some (Block stmts))) parent,
              parent # ancestors, pc) of
        Inl e \<Rightarrow> Inl e
      | Inr (child', parents', pc') \<Rightarrow>
          (case parents' of
             [] \<Rightarrow> Inl Panic
           | parent' # ancestors' \<Rightarrow> Inr (flowFinish child' parent', ancestors', pc')))"
| "handleAbsolute L res (Command name args None) st = Inl ErrAbsoluteNoBlock"
| "handleAbsolute L res (Command name args (Some (Block stmts))) (parent, ancestors, pc) =
     (case processBlock L res stmts
             (absoluteChild L res (Command name args (Some (Block stmts))) parent,
              parent # ancestors, pc) of
        Inl e \<Rightarrow> Inl e
      | Inr (child', parents', pc') \<Rightarrow>
          (case parents' of
             [] \<Rightarrow> Inl Panic
           | parent' # ancestors' \<Rightarrow> Inr (parent', ancestors', pc')))"

section \<open>Header and footer\<close>

text \<open>
  The state of the loop of \<^verbatim>\<open>buildHeaderFooter\<close>: the elements collected so far and
  the cursor.
\<close>

record hfAcc =
  hfa_texts :: "TextBox list"
  hfa_images :: "ImageBox list"
  hfa_lines :: "Line list"
  hfa_rects :: "Rect list"
  hfa_circles :: "Circle list"
  hfa_cursorY :: real

definition bandAlign :: "lib \<Rightarrow> string \<Rightarrow> string" where
  "bandAlign L raw =
     (let a0 = ToLower L raw;
          a1 = (if a0 = ''start'' then ''left'' else if a0 = ''end'' then ''right'' else a0)
      in if a1 \<noteq> ''left'' \<and> a1 \<noteq> ''right'' \<and> a1 \<noteq> ''center'' then ''center'' else a1)"

definition hfText ::
  "lib \<Rightarrow> Command \<Rightarrow> Margin \<Rightarrow> real \<Rightarrow> ResourceSet \<Rightarrow> any \<Rightarrow> Typesetter option \<Rightarrow> DebugOptions
     \<Rightarrow> string \<Rightarrow> hfAcc \<Rightarrow> error + hfAcc" where
  "hfText L cmd mg contentWidth res dat ts dbg kind acc =
     (let styleName = fst (parseArgs (cmd_Args cmd) True);
          tattrs = snd (parseArgs (cmd_Args cmd) True);
          allAttrs = mergeStyleAttributes styleName tattrs (Styles res);
          content = extractText (cmd_Block cmd);
          wrap = (if normalizeWrap L (attr allAttrs ''wrap'') = [] then ''anywhere''
                  else normalizeWrap L (attr allAttrs ''wrap''))
      in case composeTextBox L styleName allAttrs content (mg_Left mg) 0 contentWidth res dat ts
                dbg wrap of
           Inl e \<Rightarrow> Inl e
         | Inr (tb, h) \<Rightarrow>
             (let tb1 = (if kind = ''header''
                         then tb\<lparr>tb_X := mg_Left mg, tb_Width := contentWidth,
                                 tb_Align := bandAlign L (attr tattrs ''align'')\<rparr>
                         else tb);
                  tb2 = tb1\<lparr>tb_Y := hfa_cursorY acc + tb_Y tb1\<rparr>
              in Inr (acc\<lparr>hfa_texts := hfa_texts acc @ [tb2],
                           hfa_cursorY := hfa_cursorY acc + (h + blockSpacing)\<rparr>)))"

definition hfImage ::
  "lib \<Rightarrow> Command \<Rightarrow> Margin \<Rightarrow> real \<Rightarrow> ResourceSet \<Rightarrow> string \<Rightarrow> hfAcc \<Rightarrow> hfAcc" where
  "hfImage L cmd mg contentWidth res kind acc =
     (let box3 = fst (imageBoxOf L res cmd (mg_Left mg) (hfa_cursorY acc) contentWidth);
          iattrs = snd (imageBoxOf L res cmd (mg_Left mg) (hfa_cursorY acc) contentWidth);
          box4 = (if ib_Width box3 = 0 then box3\<lparr>ib_Width := contentWidth\<rparr> else box3);
          box5 = (if ib_Height box4 = 0 then box4\<lparr>ib_Height := ib_Width box4 * 0.6\<rparr> else box4);
          a0 = ToLower L (attr iattrs ''align'');
          a1 = (if a0 = ''start'' then ''left'' else if a0 = ''end'' then ''right'' else a0);
          img =
            (if kind = ''header'' then
               (if a1 = ''left'' then box5\<lparr>ib_X := mg_Left mg\<rparr>
                else if a1 = ''right''
                  then box5\<lparr>ib_X := mg_Left mg + contentWidth - ib_Width box5\<rparr>
                else box5\<lparr>ib_X := mg_Left mg + (contentWidth - ib_Width box5) / 2\<rparr>)
             else box5)
      in acc\<lparr>hfa_images := hfa_images acc @ [img],
              hfa_cursorY := hfa_cursorY acc + (ib_Height img + blockSpacing)\<rparr>)"

definition hfShape :: "lib \<Rightarrow> Command \<Rightarrow> ResourceSet \<Rightarrow> hfAcc \<Rightarrow> hfAcc" where
  "hfShape L cmd res acc =
     (let a = snd (parseArgs (cmd_Args cmd) False);
          name = ToLower L (cmd_Name cmd)
      in if name = ''line'' then
           (case parseLineShape L a res of
              Some shape \<Rightarrow> acc\<lparr>hfa_lines := hfa_lines acc @ [shape]\<rparr> | None \<Rightarrow> acc)
         else if name = ''rect'' then
           (case parseRectShape L a res of
              Some shape \<Rightarrow> acc\<lparr>hfa_rects := hfa_rects acc @ [shape]\<rparr> | None \<Rightarrow> acc)
         else if name = ''circle'' then
           (case parseCircleShape L a res of
              Some shape \<Rightarrow> acc\<lparr>hfa_circles := hfa_circles acc @ [shape]\<rparr> | None \<Rightarrow> acc)
         else acc)"

fun hfStatements ::
  "lib \<Rightarrow> Margin \<Rightarrow> real \<Rightarrow> ResourceSet \<Rightarrow> any \<Rightarrow> Typesetter option \<Rightarrow> DebugOptions \<Rightarrow> string
     \<Rightarrow> Statement list \<Rightarrow> hfAcc \<Rightarrow> error + hfAcc" where
  "hfStatements L mg contentWidth res dat ts dbg kind [] acc = Inr acc"
| "hfStatements L mg contentWidth res dat ts dbg kind (stmt # rest) acc =
     (case st_Command stmt of
        None \<Rightarrow> hfStatements L mg contentWidth res dat ts dbg kind rest acc
      | Some c \<Rightarrow>
          (if cmd_Name c = ''text'' then
             (case hfText L c mg contentWidth res dat ts dbg kind acc of
                Inl e \<Rightarrow> Inl e
              | Inr acc' \<Rightarrow> hfStatements L mg contentWidth res dat ts dbg kind rest acc')
           else if cmd_Name c = ''image'' then
             hfStatements L mg contentWidth res dat ts dbg kind rest
               (hfImage L c mg contentWidth res kind acc)
           else if cmd_Name c = ''line'' \<or> cmd_Name c = ''rect'' \<or> cmd_Name c = ''circle'' then
             hfStatements L mg contentWidth res dat ts dbg kind rest (hfShape L c res acc)
           else hfStatements L mg contentWidth res dat ts dbg kind rest acc))"

definition buildHeaderFooter ::
  "lib \<Rightarrow> Command \<Rightarrow> real \<Rightarrow> real \<Rightarrow> Margin \<Rightarrow> ResourceSet \<Rightarrow> any \<Rightarrow> Typesetter option
     \<Rightarrow> DebugOptions \<Rightarrow> string \<Rightarrow> error + HeaderFooter" where
  "buildHeaderFooter L cmd pageW pageH mg res dat ts dbg kind =
     (case cmd_Block cmd of
        None \<Rightarrow> Inr emptyHeaderFooter
      | Some b \<Rightarrow>
          (let attrs = snd (parseArgs (cmd_Args cmd) False);
               contentWidth = pageW - mg_Left mg - mg_Right mg
           in case hfStatements L mg contentWidth res dat ts dbg kind (Statements b)
                     \<lparr>hfa_texts = [], hfa_images = [], hfa_lines = [], hfa_rects = [],
                      hfa_circles = [], hfa_cursorY = 0\<rparr> of
                Inl e \<Rightarrow> Inl e
              | Inr acc \<Rightarrow>
                  (let contentHeight =
                         (if hfa_cursorY acc > 0 then hfa_cursorY acc - blockSpacing
                          else hfa_cursorY acc);
                       areaHeight =
                         (if attr attrs ''height'' \<noteq> [] \<and>
                             parseDimension L (attr attrs ''height'') contentWidth > 0
                          then parseDimension L (attr attrs ''height'') contentWidth
                          else contentHeight);
                       y0 =
                         (if kind = ''header''
                          then (if areaHeight - contentHeight < 0 then 0
                                else areaHeight - contentHeight)
                          else if kind = ''footer'' then pageH - areaHeight
                          else 0)
                   in Inr \<lparr>hf_Height = areaHeight,
                           hf_Texts = map (\<lambda>t. t\<lparr>tb_Y := tb_Y t + y0\<rparr>) (hfa_texts acc),
                           hf_Images = map (\<lambda>i. i\<lparr>ib_Y := ib_Y i + y0\<rparr>) (hfa_images acc),
                           hf_Lines = hfa_lines acc, hf_Rects = hfa_rects acc,
                           hf_Circles = hfa_circles acc\<rparr>)))"

section \<open>Building the pages\<close>

definition pagePresets :: "string \<Rightarrow> (real \<times> real) option" where
  "pagePresets name =
     (if name = ''A4'' then Some (210, 297)
      else if name = ''A5'' then Some (148, 210)
      else None)"

fun orient :: "Lexeme list \<Rightarrow> real \<times> real \<Rightarrow> real \<times> real" where
  "orient [] wh = wh"
| "orient (token # rest) (w, h) =
     (if lex_Value token = ''landscape'' then orient rest (h, w) else orient rest (w, h))"

definition resolvePageSize :: "lib \<Rightarrow> PageSpec \<Rightarrow> error + (real \<times> real)" where
  "resolvePageSize L spec =
     (case pagePresets (ToUpper L (ps_Size spec)) of
        None \<Rightarrow> Inl (ErrPageSize (ps_Size spec))
      | Some base \<Rightarrow> Inr (orient (ps_Params spec) base))"

text \<open>The scan for the \<^verbatim>\<open>header\<close> and \<^verbatim>\<open>footer\<close> definitions: the last one counts.\<close>

fun findDef :: "string \<Rightarrow> Statement list \<Rightarrow> Command option \<Rightarrow> Command option" where
  "findDef name [] found = found"
| "findDef name (stmt # rest) found =
     (case st_Command stmt of
        None \<Rightarrow> findDef name rest found
      | Some c \<Rightarrow> findDef name rest (if cmd_Name c = name then Some c else found))"

definition rootContext :: "pageCollector \<Rightarrow> real \<Rightarrow> Margin \<Rightarrow> any \<Rightarrow> BuildOptions \<Rightarrow> flowContext" where
  "rootContext collector w mg dat opts =
     \<lparr>fc_baseX = mg_Left mg, fc_baseY = contentTop collector,
      fc_width = w - mg_Left mg - mg_Right mg, fc_cursorY = contentTop collector,
      fc_data = dat, fc_typesetter = opt_Typesetter opts, fc_debug = opt_Debug opts,
      fc_margin = mg, fc_allowPageBreak = True, fc_textAlign = [],
      fc_textWrap = ''anywhere''\<rparr>"

definition buildPages ::
  "lib \<Rightarrow> PageSection \<Rightarrow> ResourceSet \<Rightarrow> any \<Rightarrow> BuildOptions \<Rightarrow> error + Page list" where
  "buildPages L sec res dat opts =
     (case resolvePageSize L (page_Spec sec) of
        Inl e \<Rightarrow> Inl e
      | Inr (w, h) \<Rightarrow>
          (let mg = resolveMargin L (ps_Params (page_Spec sec));
               collector = newPageCollector w h mg
           in case page_Block sec of
                None \<Rightarrow> Inl ErrPageNoBlock
              | Some b \<Rightarrow>
                  (case (case findDef ''header'' (Statements b) None of
                           None \<Rightarrow> Inr collector
                         | Some headerDef \<Rightarrow>
                             (case buildHeaderFooter L headerDef w h mg res dat
                                     (opt_Typesetter opts) (opt_Debug opts) ''header'' of
                                Inl e \<Rightarrow> Inl e
                              | Inr hf \<Rightarrow> Inr (collector\<lparr>pc_header := hf\<rparr>))) of
                     Inl e \<Rightarrow> Inl e
                   | Inr collector1 \<Rightarrow>
                       (case (case findDef ''footer'' (Statements b) None of
                                None \<Rightarrow> Inr collector1
                              | Some footerDef \<Rightarrow>
                                  (case buildHeaderFooter L footerDef w h mg res dat
                                          (opt_Typesetter opts) (opt_Debug opts) ''footer'' of
                                     Inl e \<Rightarrow> Inl e
                                   | Inr hf \<Rightarrow> Inr (collector1\<lparr>pc_footer := hf\<rparr>))) of
                          Inl e \<Rightarrow> Inl e
                        | Inr collector2 \<Rightarrow>
                            (case processBlock L res (Statements b)
                                    (rootContext collector2 w mg dat opts, [], collector2) of
                               Inl e \<Rightarrow> Inl e
                             | Inr (root', parents', collector') \<Rightarrow> Inr (pages collector'))))))"

definition Build :: "lib \<Rightarrow> Document option \<Rightarrow> any \<Rightarrow> BuildOptions \<Rightarrow> error + Result" where
  "Build L doc dat opts =
     (case doc of
        None \<Rightarrow> Inl ErrDocNil
      | Some d \<Rightarrow>
          (if opt_Typesetter opts = None then Inl ErrNoTypesetter
           else
             (case collectResources L d of
                Inl e \<Rightarrow> Inl e
              | Inr res \<Rightarrow>
                  (case firstPage (doc_Sections d) of
                     None \<Rightarrow> Inl ErrNoPage
                   | Some pageSection \<Rightarrow>
                       (case buildPages L pageSection res dat opts of
                          Inl e \<Rightarrow> Inl e
                        | Inr ps \<Rightarrow>
                            Inr \<lparr>Pages = ps, Resources = res, Meta = collectMeta L d\<rparr>)))))"

section \<open>The arithmetic of units.go in float64\<close>

text \<open>
  The conversions of \<^verbatim>\<open>units.go\<close> are the one place where the rounding of
  \<^verbatim>\<open>float64\<close> is modelled. A \<^verbatim>\<open>float64\<close> is a finite value, a rational number, or one
  of the two infinities or NaN; the sign of zero is not represented. A finite value is
  \<open>m * 2\<^sup>e\<close> with \<open>\<bar>m\<bar> < 2\<^sup>5\<^sup>3\<close> and \<open>- 1074 \<le> e\<close>.
\<close>

datatype float64 = Finite rat | PosInf | NegInf | NaN

text \<open>
  \<open>expo x\<close> is the exponent of the leading bit of \<open>x\<close>, for \<open>x\<close> not 0: the power of 2
  with this exponent is at most \<open>\<bar>x\<bar>\<close>, and the next power is above it (lemma
  \<open>expo_bounds\<close>). It is computed from the lengths in bits of the numerator and of the
  denominator.
\<close>

definition expo :: "rat \<Rightarrow> int" where
  "expo x =
     (let p = fst (quotient_of \<bar>x\<bar>); q = snd (quotient_of \<bar>x\<bar>);
          k = bitlen p - bitlen q
      in if 2 powi k \<le> \<bar>x\<bar> then k else k - 1)"

text \<open>The nearest integer, the even one of two that are equally near.\<close>

definition roundEven :: "rat \<Rightarrow> int" where
  "roundEven y =
     (let f = \<lfloor>y\<rfloor>; d = y - of_int f
      in if d < 1 / 2 then f
         else if 1 / 2 < d then f + 1
         else if even f then f else f + 1)"

text \<open>
  Rounding to the nearest value with a significand of 53 bits, ties to even; below
  \<open>2\<^sup>-\<^sup>1\<^sup>0\<^sup>2\<^sup>2\<close> the spacing is that of the subnormal numbers, \<open>2\<^sup>-\<^sup>1\<^sup>0\<^sup>7\<^sup>4\<close>.
\<close>

definition round64 :: "rat \<Rightarrow> rat" where
  "round64 x =
     (if x = 0 then 0
      else
        (let e = max (expo x - 52) (- 1074)
         in of_int (roundEven (x / 2 powi e)) * 2 powi e))"

text \<open>
  The conversion of an exact value to \<^verbatim>\<open>float64\<close>: a rounded value of magnitude
  \<open>2\<^sup>1\<^sup>0\<^sup>2\<^sup>4\<close> or more is an infinity.
\<close>

definition toFloat64 :: "rat \<Rightarrow> float64" where
  "toFloat64 x =
     (let r = round64 x in
      if 2 ^ 1024 \<le> r then PosInf
      else if r \<le> - (2 ^ 1024) then NegInf
      else Finite r)"

text \<open>The product of two \<^verbatim>\<open>float64\<close> values: the exact product, rounded once.\<close>

fun mul64 :: "float64 \<Rightarrow> float64 \<Rightarrow> float64" where
  "mul64 (Finite a) (Finite b) = toFloat64 (a * b)"
| "mul64 (Finite a) PosInf = (if a = 0 then NaN else if 0 < a then PosInf else NegInf)"
| "mul64 (Finite a) NegInf = (if a = 0 then NaN else if 0 < a then NegInf else PosInf)"
| "mul64 PosInf (Finite b) = (if b = 0 then NaN else if 0 < b then PosInf else NegInf)"
| "mul64 NegInf (Finite b) = (if b = 0 then NaN else if 0 < b then NegInf else PosInf)"
| "mul64 PosInf PosInf = PosInf"
| "mul64 PosInf NegInf = NegInf"
| "mul64 NegInf PosInf = NegInf"
| "mul64 NegInf NegInf = PosInf"
| "mul64 NaN y = NaN"
| "mul64 x NaN = NaN"

text \<open>
  The constants are untyped constants of Go, which are exact: \<^verbatim>\<open>MmToPt\<close> is the
  rational number \<open>1 / 0.352777\<close>. In a \<^verbatim>\<open>float64\<close> expression a constant is converted
  to \<^verbatim>\<open>float64\<close>.
\<close>

definition PtToMm :: rat where
  "PtToMm = 352777 / 1000000"

definition MmToPt :: rat where
  "MmToPt = 1 / PtToMm"

text \<open>
  \<^verbatim>\<open>Length\<close> with its value as a \<^verbatim>\<open>float64\<close>, and \<^verbatim>\<open>Length.To\<close>. A pair of units that
  no case converts falls through the \<^verbatim>\<open>switch\<close> to the value as it is.
\<close>

record Length64 =
  l64_Value :: float64
  l64_Unit :: Unit

definition To :: "Length64 \<Rightarrow> Unit \<Rightarrow> float64" where
  "To l target =
     (case l64_Unit l of
        UnitMM \<Rightarrow>
          (if target = UnitMM \<or> target = UnitNone then l64_Value l
           else if target = UnitPT then mul64 (l64_Value l) (toFloat64 MmToPt)
           else l64_Value l)
      | UnitCM \<Rightarrow>
          (let mm = mul64 (l64_Value l) (toFloat64 10) in
           if target = UnitMM \<or> target = UnitNone then mm
           else if target = UnitPT then mul64 mm (toFloat64 MmToPt)
           else l64_Value l)
      | UnitIN \<Rightarrow>
          (let mm = mul64 (l64_Value l) (toFloat64 (254 / 10)) in
           if target = UnitMM \<or> target = UnitNone then mm
           else if target = UnitPT then mul64 mm (toFloat64 MmToPt)
           else l64_Value l)
      | UnitPT \<Rightarrow>
          (if target = UnitPT then l64_Value l
           else if target = UnitMM \<or> target = UnitNone then mul64 (l64_Value l) (toFloat64 PtToMm)
           else l64_Value l)
      | UnitNone \<Rightarrow> l64_Value l)"

definition ToMM :: "Length64 \<Rightarrow> float64" where
  "ToMM l = To l UnitMM"

definition ToPT :: "Length64 \<Rightarrow> float64" where
  "ToPT l = To l UnitPT"

section \<open>Properties of the walk\<close>

text \<open>
  Two relations between the layout state before and after a handler. \<open>steps\<close>: the chain
  of ancestors keeps its length and no page is lost. \<open>quiet\<close>, for a context that does not
  allow page breaks: the ancestors, the number of pages and the current page are the same,
  and the context still does not allow page breaks.
\<close>

definition steps :: "layoutState \<Rightarrow> layoutState \<Rightarrow> bool" where
  "steps st st' \<longleftrightarrow>
     length (fst (snd st')) = length (fst (snd st)) \<and>
     length (pc_accs (snd (snd st))) \<le> length (pc_accs (snd (snd st')))"

definition quiet :: "layoutState \<Rightarrow> layoutState \<Rightarrow> bool" where
  "quiet st st' \<longleftrightarrow>
     fst (snd st') = fst (snd st) \<and>
     length (pc_accs (snd (snd st'))) = length (pc_accs (snd (snd st))) \<and>
     pc_current (snd (snd st')) = pc_current (snd (snd st)) \<and>
     \<not> fc_allowPageBreak (fst st')"

text \<open>
  What \<^verbatim>\<open>buildTableRow\<close> and the loop of \<^verbatim>\<open>handleTable\<close> count: the cells of a row are its
  \<^verbatim>\<open>cell\<close> commands with text, the rows of a table are its \<^verbatim>\<open>header\<close> and \<^verbatim>\<open>row\<close>
  commands, and \<open>firstHeader\<close> is the first \<^verbatim>\<open>header\<close> command of a block.
\<close>

definition isCell :: "Statement \<Rightarrow> bool" where
  "isCell stmt \<longleftrightarrow>
     (case st_Command stmt of
        Some c \<Rightarrow> cmd_Name c = ''cell'' \<and> extractText (cmd_Block c) \<noteq> []
      | None \<Rightarrow> False)"

definition cellCount :: "Command \<Rightarrow> nat" where
  "cellCount cmd =
     (case cmd_Block cmd of Some b \<Rightarrow> length (filter isCell (Statements b)) | None \<Rightarrow> 0)"

definition isRow :: "Statement \<Rightarrow> bool" where
  "isRow stmt \<longleftrightarrow>
     (case st_Command stmt of
        Some c \<Rightarrow> cmd_Name c = ''header'' \<or> cmd_Name c = ''row''
      | None \<Rightarrow> False)"

fun firstHeader :: "Statement list \<Rightarrow> Command option" where
  "firstHeader [] = None"
| "firstHeader (stmt # rest) =
     (case st_Command stmt of
        Some c \<Rightarrow> (if cmd_Name c = ''header'' then Some c else firstHeader rest)
      | None \<Rightarrow> firstHeader rest)"

text \<open>
  The attributes that \<^verbatim>\<open>handleTable\<close> reads: the arguments of the command, over the
  properties of its style.
\<close>

definition tableAttrs :: "ResourceSet \<Rightarrow> Command \<Rightarrow> (string \<rightharpoonup> string)" where
  "tableAttrs res cmd =
     mergeStyleAttributes (fst (parseArgs (cmd_Args cmd) False))
       (snd (parseArgs (cmd_Args cmd) False)) (Styles res)"


section \<open>A sample standard library\<close>

text \<open>
  The examples are evaluated with \<open>sampleLib\<close>, an instance of the library
  parameter for ASCII text: decimal literals without sign or exponent, and the rules of
  \<^verbatim>\<open>strconv.Atoi\<close> and of \<^verbatim>\<open>strconv.ParseInt\<close> in base 16 for inputs that fit
  64 bits. The theorems do not depend on it.
\<close>

definition digitVal :: "char \<Rightarrow> nat option" where
  "digitVal c =
     (let n = (of_char c :: nat) in
      if 48 \<le> n \<and> n \<le> 57 then Some (n - 48) else None)"

definition hexDigitVal :: "char \<Rightarrow> nat option" where
  "hexDigitVal c =
     (let n = (of_char c :: nat) in
      if 48 \<le> n \<and> n \<le> 57 then Some (n - 48)
      else if 97 \<le> n \<and> n \<le> 102 then Some (n - 87)
      else if 65 \<le> n \<and> n \<le> 70 then Some (n - 55)
      else None)"

fun digitsVal :: "(char \<Rightarrow> nat option) \<Rightarrow> nat \<Rightarrow> string \<Rightarrow> nat \<Rightarrow> nat option" where
  "digitsVal dv base [] n = Some n"
| "digitsVal dv base (c # cs) n =
     (case dv c of None \<Rightarrow> None | Some d \<Rightarrow> digitsVal dv base cs (base * n + d))"

definition sampleParseFloat :: "string \<Rightarrow> real option" where
  "sampleParseFloat s =
     (let ip = takeWhile (\<lambda>c. c \<noteq> CHR ''.'') s;
          fp = dropWhile (\<lambda>c. c \<noteq> CHR ''.'') s
      in if ip = [] then None
         else
           (case digitsVal digitVal 10 ip 0 of
              None \<Rightarrow> None
            | Some n \<Rightarrow>
                (case fp of
                   [] \<Rightarrow> Some (real n)
                 | dot # ds \<Rightarrow>
                     (if ds = [] then None
                      else
                        (case digitsVal digitVal 10 ds 0 of
                           None \<Rightarrow> None
                         | Some f \<Rightarrow> Some (real n + real f / 10 ^ length ds))))))"

definition sampleSigned :: "(char \<Rightarrow> nat option) \<Rightarrow> nat \<Rightarrow> string \<Rightarrow> int option" where
  "sampleSigned dv base s =
     (case s of
        [] \<Rightarrow> None
      | c # cs \<Rightarrow>
          (if c = CHR ''-'' then
             (if cs = [] then None
              else map_option (\<lambda>n. - int n) (digitsVal dv base cs 0))
           else if c = CHR ''+'' then
             (if cs = [] then None else map_option int (digitsVal dv base cs 0))
           else map_option int (digitsVal dv base s 0)))"

definition sampleAtoi :: "string \<Rightarrow> int option" where
  "sampleAtoi s = sampleSigned digitVal 10 s"

definition sampleParseIntHex :: "string \<Rightarrow> int" where
  "sampleParseIntHex s = (case sampleSigned hexDigitVal 16 s of Some v \<Rightarrow> v | None \<Rightarrow> 0)"

definition lowerChar :: "char \<Rightarrow> char" where
  "lowerChar c =
     (let n = (of_char c :: nat) in if 65 \<le> n \<and> n \<le> 90 then char_of (n + 32) else c)"

definition upperChar :: "char \<Rightarrow> char" where
  "upperChar c =
     (let n = (of_char c :: nat) in if 97 \<le> n \<and> n \<le> 122 then char_of (n - 32) else c)"

definition isSpaceChar :: "char \<Rightarrow> bool" where
  "isSpaceChar c \<longleftrightarrow> (let n = (of_char c :: nat) in n = 32 \<or> (9 \<le> n \<and> n \<le> 13))"

definition sampleTrimSpace :: "string \<Rightarrow> string" where
  "sampleTrimSpace s = rev (dropWhile isSpaceChar (rev (dropWhile isSpaceChar s)))"

definition sampleSprint :: "any \<Rightarrow> string" where
  "sampleSprint v =
     (case v of
        AString s \<Rightarrow> s
      | ABool b \<Rightarrow> (if b then ''true'' else ''false'')
      | ANil \<Rightarrow> ''<nil>''
      | _ \<Rightarrow> ''<value>'')"

definition sampleLib :: lib where
  "sampleLib =
     \<lparr>ParseFloat = sampleParseFloat,
      Atoi = sampleAtoi,
      ParseIntHex = sampleParseIntHex,
      ToLower = map lowerChar,
      ToUpper = map upperChar,
      TrimSpace = sampleTrimSpace,
      EqualFold = (\<lambda>a b. map lowerChar a = map lowerChar b),
      RuneCountInString = length,
      Sprint = sampleSprint,
      RangeOrder = (\<lambda>ks. ks),
      RangePick = 0\<rparr>"

text \<open>A Typesetter for the examples: one line, of the height of the font.\<close>

definition oneLineTypesetter :: Typesetter where
  "oneLineTypesetter content width font fontSize lineHeight wrap =
     Inr [\<lparr>tl_Content = content, tl_Width = 0, tl_Height = fontSize, tl_GapBefore = 0\<rparr>]"

definition ident :: "string \<Rightarrow> Lexeme" where
  "ident s = Lexeme ''Ident'' s s"

definition number :: "string \<Rightarrow> Lexeme" where
  "number s = Lexeme ''Number'' s s"

definition sampleRes :: ResourceSet where
  "sampleRes =
     \<lparr>Fonts = [(''Body'', \<lparr>font_Name = ''Body'', font_Src = ''body.ttf'', font_Style = [],
                            font_Base = ''Body'', font_Family = ''Body'',
                            font_IsBuiltin = False, font_Fallback = []\<rparr>)],
      Colors = Map.empty, Images = Map.empty, Styles = Map.empty\<rparr>"


definition styleA :: Style where
  "styleA = \<lparr>style_Name = ''A'', style_Extends = [], style_Props = [''size'' \<mapsto> ''10pt'']\<rparr>"

definition styleB :: Style where
  "styleB = \<lparr>style_Name = ''B'', style_Extends = ''A'', style_Props = [''color'' \<mapsto> ''#000'']\<rparr>"

definition styleLoop :: Style where
  "styleLoop = \<lparr>style_Name = ''C'', style_Extends = ''C'', style_Props = Map.empty\<rparr>"

definition colorRedDoc :: Document where
  "colorRedDoc =
     \<lparr>doc_Name = ''T'', doc_Version = ''v1'',
      doc_Sections =
        [\<lparr>sec_Meta = None,
          sec_Resources =
            Some (Some (Block [Statement None
                                 (Some (Command ''color'' [ident ''brand'', ident ''red''] None))
                                 None])),
          sec_PageSet = None, sec_Page = None\<rparr>]\<rparr>"

lemmas string_defs =
  HasSuffix_def TrimSuffix_def HasPrefix_def TrimPrefix_def trimUnit_def

lemmas sample_defs =
  sampleLib_def sampleParseFloat_def sampleAtoi_def sampleSigned_def sampleParseIntHex_def
  digitVal_def hexDigitVal_def lowerChar_def upperChar_def isSpaceChar_def
  sampleTrimSpace_def sampleSprint_def ident_def number_def oneLineTypesetter_def

section \<open>Sample pages, tables and containers\<close>

text \<open>
  An A4 page with margins of 20 mm, its collector and root context, and the commands the
  examples below lay out.
\<close>

definition emptyPageDoc :: Document where
  "emptyPageDoc =
     \<lparr>doc_Name = ''T'', doc_Version = ''v1'',
      doc_Sections =
        [\<lparr>sec_Meta = None, sec_Resources = None, sec_PageSet = None,
          sec_Page = Some \<lparr>page_Spec = \<lparr>ps_Size = ''A4'', ps_Params = [ident ''portrait'']\<rparr>,
                          page_Block = Some (Block [])\<rparr>\<rparr>]\<rparr>"

definition sampleMargin :: Margin where
  "sampleMargin = \<lparr>mg_Top = 20, mg_Right = 20, mg_Bottom = 20, mg_Left = 20\<rparr>"

definition sampleOpts :: BuildOptions where
  "sampleOpts = \<lparr>opt_Typesetter = Some oneLineTypesetter, opt_Debug = \<lparr>RawUnitsOpt = False\<rparr>\<rparr>"

definition sampleCollector :: pageCollector where
  "sampleCollector = newPageCollector 210 297 sampleMargin"

definition sampleRoot :: flowContext where
  "sampleRoot = rootContext sampleCollector 210 sampleMargin ANil sampleOpts"

definition stmtOf :: "Command \<Rightarrow> Statement" where
  "stmtOf c = Statement None (Some c) None"

definition literal :: "string \<Rightarrow> Block option" where
  "literal s = Some (Block [Statement None None (Some s)])"

definition tableNoHeader :: Command where
  "tableNoHeader =
     Command ''table'' []
       (Some (Block [stmtOf (Command ''row'' []
                       (Some (Block [stmtOf (Command ''cell'' [] (literal ''x''))])))]))"

definition headerOfThree :: Command where
  "headerOfThree =
     Command ''header'' []
       (Some (Block [stmtOf (Command ''cell'' [] (literal ''a'')),
                     stmtOf (Command ''cell'' [] (literal ''b'')),
                     stmtOf (Command ''cell'' [] (literal ''c''))]))"

definition tableWithHeader :: Command where
  "tableWithHeader = Command ''table'' [] (Some (Block [stmtOf headerOfThree]))"

definition absoluteText :: Command where
  "absoluteText =
     Command ''absolute'' [ident ''y'', number ''400mm'']
       (Some (Block [stmtOf (Command ''text'' [] (literal ''x''))]))"

definition sampleCell :: "string \<Rightarrow> real \<Rightarrow> real \<Rightarrow> real \<Rightarrow> TextBox" where
  "sampleCell s x y w =
     \<lparr>tb_Content = s, tb_X = x, tb_Y = y, tb_Width = w, tb_LineHeight = 12 * 0.352777 * 1.4,
      tb_Font = ''Body'', tb_FontSize = 12 * 0.352777, tb_Color = defaultTextColor,
      tb_Lines = [\<lparr>tl_Content = s, tl_Width = 0, tl_Height = 12 * 0.352777, tl_GapBefore = 0\<rparr>],
      tb_Height = 12 * 0.352777, tb_Align = [], tb_Wrap = ''anywhere'', tb_Debug = None\<rparr>"

definition tableTwoColumns :: Command where
  "tableTwoColumns =
     Command ''table'' [ident ''columns'', number ''2''] (Some (Block [stmtOf headerOfThree]))"


section \<open>Margin shorthand\<close>

lemma collectMarginVals_prefix:
  "length vals \<le> 4 \<Longrightarrow>
   collectMarginVals L ts vals =
     vals @ map (\<lambda>t. parseLength L (lex_Value t))
              (take (4 - length vals)
                 (takeWhile (\<lambda>t. ParseFloat L (trimUnit (lex_Value t)) \<noteq> None) ts))"
proof (induction ts arbitrary: vals)
  case Nil
  then show ?case by simp
next
  case (Cons t ts)
  show ?case
  proof (cases "length vals < 4")
    case True
    show ?thesis
    proof (cases "ParseFloat L (trimUnit (lex_Value t))")
      case None
      with True show ?thesis by simp
    next
      case (Some x)
      have "length (vals @ [parseLength L (lex_Value t)]) \<le> 4" using True by simp
      from Cons.IH[OF this] Some True show ?thesis
        by (simp add: take_Cons' Suc_diff_Suc)
    qed
  next
    case False
    with Cons.prems show ?thesis by simp
  qed
qed

lemma marginLoop_no_keyword:
  "\<forall>t \<in> set ts. lex_Value t \<noteq> ''margin'' \<Longrightarrow> marginLoop L ts m = m"
  by (induction ts arbitrary: m) auto

lemma marginLoop_append:
  "\<forall>t \<in> set pre. lex_Value t \<noteq> ''margin'' \<Longrightarrow>
   marginLoop L (pre @ ts) m = marginLoop L ts m"
  by (induction pre arbitrary: m) auto

text \<open>
  Claim C7. The tokens \<open>toks\<close> follow one \<^verbatim>\<open>margin\<close> keyword, and \<open>vs\<close> are the
  lengths of the numeric tokens at their head. One value sets all four sides; two set
  top and bottom to the first, right and left to the second; three set top, right and
  bottom, and left to 0; with four or more the first four are top, right, bottom and left
  and the others are ignored.
\<close>

theorem resolveMargin_shorthand:
  assumes pre: "\<forall>t \<in> set pre. lex_Value t \<noteq> ''margin''"
    and toks: "\<forall>t \<in> set toks. lex_Value t \<noteq> ''margin''"
    and kw: "lex_Value kw = ''margin''"
    and vs: "vs = map (\<lambda>t. parseLength L (lex_Value t))
                    (takeWhile (\<lambda>t. ParseFloat L (trimUnit (lex_Value t)) \<noteq> None) toks)"
  shows "(length vs = 1 \<longrightarrow> resolveMargin L (pre @ kw # toks) =
            \<lparr>mg_Top = vs ! 0, mg_Right = vs ! 0, mg_Bottom = vs ! 0, mg_Left = vs ! 0\<rparr>) \<and>
         (length vs = 2 \<longrightarrow> resolveMargin L (pre @ kw # toks) =
            \<lparr>mg_Top = vs ! 0, mg_Right = vs ! 1, mg_Bottom = vs ! 0, mg_Left = vs ! 1\<rparr>) \<and>
         (length vs = 3 \<longrightarrow> resolveMargin L (pre @ kw # toks) =
            \<lparr>mg_Top = vs ! 0, mg_Right = vs ! 1, mg_Bottom = vs ! 2, mg_Left = 0\<rparr>) \<and>
         (4 \<le> length vs \<longrightarrow> resolveMargin L (pre @ kw # toks) =
            \<lparr>mg_Top = vs ! 0, mg_Right = vs ! 1, mg_Bottom = vs ! 2, mg_Left = vs ! 3\<rparr>)"
proof -
  let ?d = "\<lparr>mg_Top = 20, mg_Right = 20, mg_Bottom = 20, mg_Left = 20\<rparr>"
  have c: "collectMarginVals L toks [] = take 4 vs"
    by (simp add: collectMarginVals_prefix vs take_map)
  have r: "resolveMargin L (pre @ kw # toks) = applyMarginVals (take 4 vs) ?d"
    unfolding resolveMargin_def
    by (simp add: marginLoop_append[OF pre] kw marginLoop_no_keyword[OF toks] c)
  have l1: "length vs = 1 \<Longrightarrow> take 4 vs = [vs ! 0]"
    by (cases vs) auto
  have l2: "length vs = 2 \<Longrightarrow> take 4 vs = [vs ! 0, vs ! 1]"
    by (cases vs; cases "tl vs") auto
  have l3: "length vs = 3 \<Longrightarrow> take 4 vs = [vs ! 0, vs ! 1, vs ! 2]"
    by (cases vs; cases "tl vs"; cases "tl (tl vs)") auto
  have l4: "4 \<le> length vs \<Longrightarrow> take 4 vs = [vs ! 0, vs ! 1, vs ! 2, vs ! 3]"
    by (cases vs; cases "tl vs"; cases "tl (tl vs)"; cases "tl (tl (tl vs))") auto
  have a1: "length vs = 1 \<Longrightarrow> applyMarginVals (take 4 vs) ?d =
      \<lparr>mg_Top = vs ! 0, mg_Right = vs ! 0, mg_Bottom = vs ! 0, mg_Left = vs ! 0\<rparr>"
    by (simp only: l1 applyMarginVals.simps)
  have a2: "length vs = 2 \<Longrightarrow> applyMarginVals (take 4 vs) ?d =
      \<lparr>mg_Top = vs ! 0, mg_Right = vs ! 1, mg_Bottom = vs ! 0, mg_Left = vs ! 1\<rparr>"
    by (simp only: l2 applyMarginVals.simps)
  have a3: "length vs = 3 \<Longrightarrow> applyMarginVals (take 4 vs) ?d =
      \<lparr>mg_Top = vs ! 0, mg_Right = vs ! 1, mg_Bottom = vs ! 2, mg_Left = 0\<rparr>"
    by (simp only: l3 applyMarginVals.simps)
  have a4: "4 \<le> length vs \<Longrightarrow> applyMarginVals (take 4 vs) ?d =
      \<lparr>mg_Top = vs ! 0, mg_Right = vs ! 1, mg_Bottom = vs ! 2, mg_Left = vs ! 3\<rparr>"
    by (simp only: l4 applyMarginVals.simps)
  show ?thesis
    unfolding r using a1 a2 a3 a4 by blast
qed


theorem resolveMargin_shorthand_witness:
  "resolveMargin sampleLib [ident ''portrait'', ident ''margin'', number ''12mm'', number ''8mm'', number ''6mm'']
     = \<lparr>mg_Top = 12, mg_Right = 8, mg_Bottom = 6, mg_Left = 0\<rparr> \<and>
   resolveMargin sampleLib
       [ident ''margin'', number ''1mm'', number ''2mm'', number ''3mm'', number ''4mm'',
        number ''999mm'', number ''888mm'']
     = \<lparr>mg_Top = 1, mg_Right = 2, mg_Bottom = 3, mg_Left = 4\<rparr>"
proof -
  have v3: "map (\<lambda>t. parseLength sampleLib (lex_Value t))
       (takeWhile (\<lambda>t. ParseFloat sampleLib (trimUnit (lex_Value t)) \<noteq> None)
          [number ''12mm'', number ''8mm'', number ''6mm'']) = [12, 8, 6]"
    by (simp add: parseLength_def string_defs sample_defs Let_def)
  have v6: "map (\<lambda>t. parseLength sampleLib (lex_Value t))
       (takeWhile (\<lambda>t. ParseFloat sampleLib (trimUnit (lex_Value t)) \<noteq> None)
          [number ''1mm'', number ''2mm'', number ''3mm'', number ''4mm'',
           number ''999mm'', number ''888mm'']) = [1, 2, 3, 4, 999, 888]"
    by (simp add: parseLength_def string_defs sample_defs Let_def)
  have a: "resolveMargin sampleLib
       ([ident ''portrait''] @ ident ''margin'' # [number ''12mm'', number ''8mm'', number ''6mm''])
     = \<lparr>mg_Top = 12, mg_Right = 8, mg_Bottom = 6, mg_Left = 0\<rparr>"
    using resolveMargin_shorthand[of "[ident ''portrait'']"
        "[number ''12mm'', number ''8mm'', number ''6mm'']" "ident ''margin''" _ sampleLib,
        OF _ _ _ v3[symmetric]]
    by (simp add: ident_def number_def)
  have b: "resolveMargin sampleLib
       ([] @ ident ''margin'' # [number ''1mm'', number ''2mm'', number ''3mm'', number ''4mm'',
           number ''999mm'', number ''888mm''])
     = \<lparr>mg_Top = 1, mg_Right = 2, mg_Bottom = 3, mg_Left = 4\<rparr>"
    using resolveMargin_shorthand[of "[]"
        "[number ''1mm'', number ''2mm'', number ''3mm'', number ''4mm'',
           number ''999mm'', number ''888mm'']" "ident ''margin''" _ sampleLib,
        OF _ _ _ v6[symmetric]]
    by (simp add: ident_def number_def)
  from a b show ?thesis by simp
qed

section \<open>The height of a text box\<close>

lemma normalizeLines_sum:
  "snd (normalizeLines fs dl i ls t) =
     t + (\<Sum>l\<leftarrow>fst (normalizeLines fs dl i ls t). tl_Height l + tl_GapBefore l)"
  by (induction ls arbitrary: i t) (simp_all add: Let_def)

lemma normalizeLines_length: "length (fst (normalizeLines fs dl i ls t)) = length ls"
  by (induction ls arbitrary: i t) (simp_all add: Let_def)

lemma normalizeLines_first:
  "ls \<noteq> [] \<Longrightarrow> tl_GapBefore (fst (normalizeLines fs dl 0 ls t) ! 0) = 0"
  by (cases ls) (simp_all add: Let_def)

lemma layoutLines_nonempty:
  "layoutLines content width font fontSize lineHeight ts wrap = Inr ls \<Longrightarrow> ls \<noteq> []"
  by (auto simp: layoutLines_def Let_def zeroFirstGap_def
           split: option.splits sum.splits if_splits list.splits)

text \<open>
  Claim C2. The height of a composed text box, which is also the height that
  \<^verbatim>\<open>composeTextBox\<close> returns, is the sum over its lines of the line's height and
  its gap; the box has a first line, and the gap before it is 0.
\<close>

theorem composeTextBox_height:
  assumes "composeTextBox L style attrs content x y width res data ts debug wrap = Inr (tb, h)"
  shows "tb_Height tb = (\<Sum>l\<leftarrow>tb_Lines tb. tl_Height l + tl_GapBefore l) \<and>
         h = tb_Height tb \<and> tb_Lines tb \<noteq> [] \<and> tl_GapBefore (tb_Lines tb ! 0) = 0"
proof -
  from assms obtain fontRes lines0 fs lh where
    ll: "layoutLines (if data \<noteq> ANil then Interpolate L content data else content)
           width fontRes fs lh ts wrap = Inr lines0"
    and tbl: "tb_Lines tb = fst (normalizeLines fs (max (lh - fs) 0) 0 lines0 0)"
    and tbh: "tb_Height tb = (if tb_Lines tb = [] then 0
                else snd (normalizeLines fs (max (lh - fs) 0) 0 lines0 0))"
    and hh: "h = tb_Height tb"
    unfolding composeTextBox_def Let_def
    by (auto split: sum.splits)
  from ll have ne: "lines0 \<noteq> []" by (rule layoutLines_nonempty)
  have ne': "tb_Lines tb \<noteq> []"
    using ne normalizeLines_length[of fs "max (lh - fs) 0" 0 lines0 0] tbl
    by (metis length_0_conv)
  show ?thesis
    using ne ne' tbl tbh hh normalizeLines_sum[of fs "max (lh - fs) 0" 0 lines0 0]
      normalizeLines_first[OF ne, of fs "max (lh - fs) 0" 0]
    by simp
qed


lemma SplitOn_ab: "SplitOn newline (''a'' @ [newline] @ ''b'') = [''a'', ''b'']"
  by (simp add: newline_def)

theorem composeTextBox_height_witness:
  "\<exists>tb h. composeTextBox sampleLib ''Body'' [''size'' \<mapsto> ''10mm''] (''a'' @ [newline] @ ''b'')
             0 0 100 sampleRes ANil None \<lparr>RawUnitsOpt = False\<rparr> ''anywhere'' = Inr (tb, h) \<and>
          map tl_Height (tb_Lines tb) = [10, 10] \<and>
          map tl_GapBefore (tb_Lines tb) = [0, 4] \<and>
          tb_Height tb = 24 \<and> h = 24 \<and>
          tb_Height tb = (\<Sum>l\<leftarrow>tb_Lines tb. tl_Height l + tl_GapBefore l) \<and>
          tl_GapBefore (tb_Lines tb ! 0) = 0"
proof -
  have pl: "parseLength sampleLib ''10mm'' = 10"
    by (simp add: parseLength_def string_defs sample_defs Let_def)
  have lh: "resolveLineHeight sampleLib [''size'' \<mapsto> ''10mm''] 10 = 14"
    by (simp add: resolveLineHeight_def attr_def sample_defs Let_def)
  have "\<exists>tb h. composeTextBox sampleLib ''Body'' [''size'' \<mapsto> ''10mm'']
             (''a'' @ [newline] @ ''b'')
             0 0 100 sampleRes ANil None \<lparr>RawUnitsOpt = False\<rparr> ''anywhere'' = Inr (tb, h) \<and>
          map tl_Height (tb_Lines tb) = [10, 10] \<and>
          map tl_GapBefore (tb_Lines tb) = [0, 4] \<and> h = 24"
    unfolding composeTextBox_def
    by (simp add: Let_def pl lh mergeStyleAttributes_def attr_def resolveFontResource_def
          layoutLines_def SplitOn_ab zeroFirstGap_def sampleRes_def del: append.simps)
  then obtain tb h where
    c: "composeTextBox sampleLib ''Body'' [''size'' \<mapsto> ''10mm''] (''a'' @ [newline] @ ''b'')
             0 0 100 sampleRes ANil None \<lparr>RawUnitsOpt = False\<rparr> ''anywhere'' = Inr (tb, h)"
    and l: "map tl_Height (tb_Lines tb) = [10, 10]" "map tl_GapBefore (tb_Lines tb) = [0, 4]"
    and h: "h = 24"
    by (elim exE conjE)
  from composeTextBox_height[OF c] c l h show ?thesis
    by (intro exI[of _ tb] exI[of _ h]) simp
qed

section \<open>Interpolation\<close>










lemma parseIndexes_no_bracket: "parseIndexes [] = []"
  by (simp add: parseIndexes.simps)











section \<open>Style inheritance\<close>

lemma merged_closed:
  assumes "merged styles r" "n \<in> dom r" "(n, b) \<in> parentOf styles"
  shows "b \<in> dom r"
proof -
  from assms(2) obtain s' where s': "r n = Some s'" by auto
  from assms(3) obtain s where s: "map_of styles n = Some s" "style_Extends s = b" "b \<noteq> []"
    by (auto simp: parentOf_def)
  from assms(1) s' s show ?thesis
    unfolding merged_def by (fastforce split: if_splits)
qed

lemma merged_closed_rtrancl:
  assumes "merged styles r" "(n, b) \<in> (parentOf styles)\<^sup>*" "n \<in> dom r"
  shows "b \<in> dom r"
  using assms(2,3)
proof (induction rule: rtrancl_induct)
  case base
  then show ?case .
next
  case (step y z)
  then show ?case using merged_closed[OF assms(1)] by blast
qed

lemma dfs_inv:
  "dfs styles name st = Inr (s, r', v') \<Longrightarrow> merged styles (fst st) \<Longrightarrow> acyclicOn styles (fst st) \<Longrightarrow>
   merged styles r' \<and> acyclicOn styles r' \<and> fst st \<subseteq>\<^sub>m r' \<and> v' = snd st \<and> r' name = Some s \<and>
   (\<forall>n \<in> snd st. r' n = fst st n)"
proof (induction styles name st arbitrary: s r' v' rule: dfs.induct)
  case (1 styles name resolved visiting)
  note prems = "1.prems"[simplified]
  show ?case
  proof (cases "resolved name")
    case (Some style)
    with prems show ?thesis
      by (simp add: dfs.simps)
  next
    case None
    note rn = None
    show ?thesis
    proof (cases "map_of styles name")
      case None
      with rn prems show ?thesis by (simp add: dfs.simps)
    next
      case (Some style)
      note ms = Some
      show ?thesis
      proof (cases "name \<in> visiting")
        case True
        with rn ms prems show ?thesis by (simp add: dfs.simps)
      next
        case False
        note nv = False
        show ?thesis
        proof (cases "style_Extends style = []")
          case True
          with rn ms nv prems(1) have
            s: "s = style\<lparr>style_Props := Map.empty ++ style_Props style\<rparr>"
            and r': "r' = resolved(name \<mapsto> s)" and v': "v' = insert name visiting - {name}"
            by (auto simp: dfs.simps Let_def)
          have m: "merged styles r'"
            unfolding merged_def
          proof (intro allI impI)
            fix n t assume a: "r' n = Some t"
            show "\<exists>s. map_of styles n = Some s \<and>
             style_Name t = style_Name s \<and> style_Extends t = style_Extends s \<and>
             (if style_Extends s = [] then style_Props t = style_Props s
              else (\<exists>p'. r' (style_Extends s) = Some p' \<and>
                         style_Props t = style_Props p' ++ style_Props s))"
            proof (cases "n = name")
              case True
              have ts: "t = style\<lparr>style_Props := Map.empty ++ style_Props style\<rparr>"
                using True a r' s by simp
              show ?thesis
                unfolding ts using True ms \<open>style_Extends style = []\<close> by simp
            next
              case False
              with a r' have "resolved n = Some t" by simp
              with prems(2) obtain u where u: "map_of styles n = Some u"
                "style_Name t = style_Name u" "style_Extends t = style_Extends u"
                "(if style_Extends u = [] then style_Props t = style_Props u
                  else (\<exists>p'. resolved (style_Extends u) = Some p' \<and>
                         style_Props t = style_Props p' ++ style_Props u))"
                unfolding merged_def by fastforce
              have "style_Extends u \<noteq> [] \<Longrightarrow> style_Extends u \<noteq> name"
                using u(4) rn by (auto split: if_splits)
              with u r' show ?thesis by (auto split: if_splits)
            qed
          qed
          have ac: "acyclicOn styles r'"
            unfolding acyclicOn_def
          proof
            fix n assume "n \<in> dom r'"
            show "(n, n) \<notin> (parentOf styles)\<^sup>+"
            proof (cases "n = name")
              case True
              have "\<And>z. (name, z) \<notin> parentOf styles"
                using ms \<open>style_Extends style = []\<close> by (auto simp: parentOf_def)
              then show ?thesis using True by (auto dest: tranclD)
            next
              case False
              with \<open>n \<in> dom r'\<close> r' have "n \<in> dom resolved" by auto
              with prems(3) show ?thesis by (simp add: acyclicOn_def)
            qed
          qed
          have le: "resolved \<subseteq>\<^sub>m r'"
            using r' rn by (auto simp: map_le_def dom_def)
          have fr: "\<forall>n \<in> visiting. r' n = resolved n"
            using r' nv by auto
          have vv: "v' = visiting" using v' nv by auto
          have rs: "r' name = Some s" using r' by simp
          show ?thesis
            unfolding fst_conv snd_conv using m ac le vv rs fr by blast
        next
          case False
          note ext = False
          from rn ms nv ext prems(1) obtain parent r2 v2 where
            rec: "dfs styles (style_Extends style) (resolved, insert name visiting) = Inr (parent, r2, v2)"
            and s: "s = style\<lparr>style_Props := style_Props parent ++ style_Props style\<rparr>"
            and r': "r' = r2(name \<mapsto> s)" and v': "v' = v2 - {name}"
            by (auto simp: dfs.simps[of styles name] Let_def split: sum.splits)
          from "1.IH"[OF rn ms nv ext rec] prems(2,3) have
            ih: "merged styles r2" "acyclicOn styles r2" "resolved \<subseteq>\<^sub>m r2" "v2 = insert name visiting"
              "r2 (style_Extends style) = Some parent" "\<forall>n \<in> insert name visiting. r2 n = resolved n"
            by simp_all
          from ih(6) rn have r2n: "r2 name = None" by simp
          with ih(5) have pn: "style_Extends style \<noteq> name" by auto
          have m: "merged styles r'"
            unfolding merged_def
          proof (intro allI impI)
            fix n t assume a: "r' n = Some t"
            show "\<exists>s. map_of styles n = Some s \<and>
             style_Name t = style_Name s \<and> style_Extends t = style_Extends s \<and>
             (if style_Extends s = [] then style_Props t = style_Props s
              else (\<exists>p'. r' (style_Extends s) = Some p' \<and>
                         style_Props t = style_Props p' ++ style_Props s))"
            proof (cases "n = name")
              case True
              have ts: "t = style\<lparr>style_Props := style_Props parent ++ style_Props style\<rparr>"
                using True a r' s by simp
              show ?thesis
                unfolding ts using True ms ext ih(5) pn r' by simp
            next
              case False
              with a r' have "r2 n = Some t" by simp
              with ih(1) obtain u where u: "map_of styles n = Some u"
                "style_Name t = style_Name u" "style_Extends t = style_Extends u"
                "(if style_Extends u = [] then style_Props t = style_Props u
                  else (\<exists>p'. r2 (style_Extends u) = Some p' \<and>
                         style_Props t = style_Props p' ++ style_Props u))"
                unfolding merged_def by fastforce
              have "style_Extends u \<noteq> [] \<Longrightarrow> style_Extends u \<noteq> name"
                using u(4) r2n by (auto split: if_splits)
              with u r' show ?thesis by (auto split: if_splits)
            qed
          qed
          have ac: "acyclicOn styles r'"
            unfolding acyclicOn_def
          proof
            fix n assume "n \<in> dom r'"
            show "(n, n) \<notin> (parentOf styles)\<^sup>+"
            proof (cases "n = name")
              case True
              show ?thesis
              proof
                assume "(n, n) \<in> (parentOf styles)\<^sup>+"
                with True obtain z where z: "(name, z) \<in> parentOf styles"
                  "(z, name) \<in> (parentOf styles)\<^sup>*"
                  by (auto dest: tranclD)
                from z(1) ms have "z = style_Extends style" by (auto simp: parentOf_def)
                with ih(5) have "z \<in> dom r2" by auto
                from merged_closed_rtrancl[OF ih(1) z(2) this] r2n show False by auto
              qed
            next
              case False
              with \<open>n \<in> dom r'\<close> r' have "n \<in> dom r2" by auto
              with ih(2) show ?thesis by (simp add: acyclicOn_def)
            qed
          qed
          have le: "resolved \<subseteq>\<^sub>m r'"
            using ih(3) r' r2n rn by (auto simp: map_le_def dom_def)
          have fr: "\<forall>n \<in> visiting. r' n = resolved n"
            using ih(6) r' nv by auto
          have vv: "v' = visiting" using v' ih(4) nv by auto
          have rs: "r' name = Some s" using r' by simp
          show ?thesis
            unfolding fst_conv snd_conv using m ac le vv rs fr by blast
        qed
      qed
    qed
  qed
qed

lemma resolveLoop_inv:
  "resolveLoop styles ks st = Inr r' \<Longrightarrow> merged styles (fst st) \<Longrightarrow>
   acyclicOn styles (fst st) \<Longrightarrow>
   merged styles r' \<and> acyclicOn styles r' \<and> fst st \<subseteq>\<^sub>m r' \<and> set ks \<subseteq> dom r'"
proof (induction ks arbitrary: st)
  case Nil
  then show ?case by (cases st) simp
next
  case (Cons name rest)
  obtain resolved visiting where st: "st = (resolved, visiting)" by (cases st)
  from Cons.prems(1) st obtain s r1 v1 where
    d: "dfs styles name st = Inr (s, r1, v1)"
    and l: "resolveLoop styles rest (r1, v1) = Inr r'"
    by (auto split: sum.splits)
  from dfs_inv[OF d Cons.prems(2,3)] have
    i1: "merged styles r1" "acyclicOn styles r1" "fst st \<subseteq>\<^sub>m r1" "r1 name = Some s"
    by simp_all
  from Cons.IH[OF l] i1 have
    i2: "merged styles r'" "acyclicOn styles r'" "r1 \<subseteq>\<^sub>m r'" "set rest \<subseteq> dom r'"
    by simp_all
  from i1(4) i2(3) have "name \<in> dom r'"
    by (metis domI map_le_def)
  moreover from i1(3) i2(3) have "fst st \<subseteq>\<^sub>m r'"
    by (rule map_le_trans)
  ultimately show ?case using i2 by simp
qed

lemma resolveStyles_inv:
  assumes "resolveStyles L styles = Inr resolved"
  shows "merged styles resolved \<and> acyclicOn styles resolved \<and>
         set (RangeOrder L (map fst styles)) \<subseteq> dom resolved"
proof -
  have "merged styles Map.empty" "acyclicOn styles Map.empty"
    by (simp_all add: merged_def acyclicOn_def)
  with resolveLoop_inv[of styles "RangeOrder L (map fst styles)" "(Map.empty, {})" resolved] assms
  show ?thesis by (simp add: resolveStyles_def)
qed

text \<open>
  Claim C5. The range is taken to visit every declared name. When the resolution
  succeeds, every declared style is resolved, with its name and its parent's name kept;
  a style without a parent keeps its properties; a style with a parent has, under each
  key, its own value if it declares one and otherwise the value of the parent's resolved
  entry. When some style reaches itself by following \<^verbatim>\<open>extends\<close> one or more times,
  the resolution fails.
\<close>

theorem resolveStyles_merge_and_cycles:
  assumes order: "set (RangeOrder L (map fst styles)) = fst ` set styles"
  shows "(resolveStyles L styles = Inr resolved \<and> map_of styles name = Some style \<longrightarrow>
            (\<exists>rs. resolved name = Some rs \<and>
                  style_Name rs = style_Name style \<and> style_Extends rs = style_Extends style \<and>
                  (style_Extends style = [] \<longrightarrow> style_Props rs = style_Props style) \<and>
                  (style_Extends style \<noteq> [] \<longrightarrow>
                     (\<exists>rp. resolved (style_Extends style) = Some rp \<and>
                           (\<forall>k. style_Props rs k =
                                  (case style_Props style k of
                                     Some v \<Rightarrow> Some v
                                   | None \<Rightarrow> style_Props rp k)))))) \<and>
         ((\<exists>n. (n, n) \<in> (parentOf styles)\<^sup>+) \<longrightarrow> (\<exists>e. resolveStyles L styles = Inl e))"
proof (intro conjI impI)
  assume a: "resolveStyles L styles = Inr resolved \<and> map_of styles name = Some style"
  from resolveStyles_inv[of L styles resolved] a order have
    m: "merged styles resolved" and d: "fst ` set styles \<subseteq> dom resolved"
    by simp_all
  from a have "name \<in> fst ` set styles"
    by (metis map_of_eq_None_iff option.distinct(1))
  with d obtain rs where rs: "resolved name = Some rs" by auto
  with m a have
    p: "style_Name rs = style_Name style" "style_Extends rs = style_Extends style"
       "(if style_Extends style = [] then style_Props rs = style_Props style
         else (\<exists>p'. resolved (style_Extends style) = Some p' \<and>
                    style_Props rs = style_Props p' ++ style_Props style))"
    unfolding merged_def by fastforce+
  have "style_Extends style \<noteq> [] \<Longrightarrow>
          (\<exists>rp. resolved (style_Extends style) = Some rp \<and>
                (\<forall>k. style_Props rs k =
                       (case style_Props style k of Some v \<Rightarrow> Some v | None \<Rightarrow> style_Props rp k)))"
    using p(3) by (auto simp: map_add_def split: option.splits)
  with rs p show "\<exists>rs. resolved name = Some rs \<and>
                  style_Name rs = style_Name style \<and> style_Extends rs = style_Extends style \<and>
                  (style_Extends style = [] \<longrightarrow> style_Props rs = style_Props style) \<and>
                  (style_Extends style \<noteq> [] \<longrightarrow>
                     (\<exists>rp. resolved (style_Extends style) = Some rp \<and>
                           (\<forall>k. style_Props rs k =
                                  (case style_Props style k of
                                     Some v \<Rightarrow> Some v
                                   | None \<Rightarrow> style_Props rp k))))"
    by (auto split: if_splits)
next
  assume "\<exists>n. (n, n) \<in> (parentOf styles)\<^sup>+"
  then obtain n where n: "(n, n) \<in> (parentOf styles)\<^sup>+" ..
  then obtain z where "(n, z) \<in> parentOf styles" by (auto dest: tranclD)
  then have nd: "n \<in> fst ` set styles"
    by (auto simp: parentOf_def) (metis map_of_eq_None_iff option.distinct(1))
  show "\<exists>e. resolveStyles L styles = Inl e"
  proof (cases "resolveStyles L styles")
    case (Inl e)
    then show ?thesis by blast
  next
    case (Inr r)
    from resolveStyles_inv[OF Inr] order nd have "acyclicOn styles r" "n \<in> dom r"
      by auto
    with n show ?thesis by (auto simp: acyclicOn_def)
  qed
qed

theorem resolveStyles_merge_and_cycles_witness:
  "(\<exists>resolved rs. resolveStyles sampleLib [(''B'', styleB), (''A'', styleA)] = Inr resolved \<and>
       resolved ''B'' = Some rs \<and>
       style_Props rs ''size'' = Some ''10pt'' \<and> style_Props rs ''color'' = Some ''#000'') \<and>
   (\<exists>e. resolveStyles sampleLib [(''C'', styleLoop)] = Inl e)"
proof -
  have o1: "set (RangeOrder sampleLib (map fst [(''B'', styleB), (''A'', styleA)]))
              = fst ` set [(''B'', styleB), (''A'', styleA)]"
    by (simp add: sampleLib_def)
  have o2: "set (RangeOrder sampleLib (map fst [(''C'', styleLoop)])) = fst ` set [(''C'', styleLoop)]"
    by (simp add: sampleLib_def)
  have ok: "\<exists>resolved. resolveStyles sampleLib [(''B'', styleB), (''A'', styleA)] = Inr resolved \<and>
              (\<exists>ra. resolved ''A'' = Some ra \<and> style_Props ra = [''size'' \<mapsto> ''10pt''])"
    by (simp add: resolveStyles_def sampleLib_def dfs.simps styleA_def styleB_def Let_def)
  then obtain resolved ra where r: "resolveStyles sampleLib [(''B'', styleB), (''A'', styleA)] = Inr resolved"
    and ra: "resolved ''A'' = Some ra" "style_Props ra = [''size'' \<mapsto> ''10pt'']"
    by (elim exE conjE)
  have mb: "map_of [(''B'', styleB), (''A'', styleA)] ''B'' = Some styleB" by simp
  from resolveStyles_merge_and_cycles[OF o1, of resolved "''B''" styleB] r mb ra
  obtain rs where rs: "resolved ''B'' = Some rs"
    "\<forall>k. style_Props rs k = (case style_Props styleB k of Some v \<Rightarrow> Some v | None \<Rightarrow> style_Props ra k)"
    by (auto simp: styleB_def)
  from rs(2) ra(2) have "style_Props rs ''size'' = Some ''10pt''" "style_Props rs ''color'' = Some ''#000''"
    by (simp_all add: styleB_def)
  with r rs(1) have first: "\<exists>resolved rs. resolveStyles sampleLib [(''B'', styleB), (''A'', styleA)] = Inr resolved \<and>
       resolved ''B'' = Some rs \<and>
       style_Props rs ''size'' = Some ''10pt'' \<and> style_Props rs ''color'' = Some ''#000''"
    by blast
  have "(''C'', ''C'') \<in> parentOf [(''C'', styleLoop)]"
    by (simp add: parentOf_def styleLoop_def)
  then have "\<exists>n. (n, n) \<in> (parentOf [(''C'', styleLoop)])\<^sup>+" by blast
  with resolveStyles_merge_and_cycles[OF o2] have "\<exists>e. resolveStyles sampleLib [(''C'', styleLoop)] = Inl e"
    by blast
  with first show ?thesis by blast
qed


section \<open>Color declarations\<close>

lemma collectCommand_skips_unparsed_color:
  assumes "cmd_Name cmd = ''color''" "parseColorResource cmd = (name, v)" "parseColor L v = Inl e"
  shows "collectCommand L cmd acc = Inr acc"
  using assms by (cases acc) (simp add: collectCommand_def)

lemma parseColor_error_iff:
  "(\<exists>e. parseColor L v = Inl e) \<longleftrightarrow> length (TrimPrefix v ''#'') \<notin> {3, 6, 8}"
  by (auto simp: parseColor_def Let_def)

text \<open>
  Claim C8 at the declaration \<^verbatim>\<open>color brand red\<close>. The value is no hexadecimal
  color, and the declaration is not skipped: \<^verbatim>\<open>parseColor\<close> checks the length only,
  \<^verbatim>\<open>mustHex\<close> drops the error of the conversion, and the color is stored.
\<close>

theorem collectResources_keeps_non_hex_color:
  "\<exists>res. collectResources sampleLib colorRedDoc = Inr res \<and>
         Colors res ''brand'' = Some \<lparr>col_R = 0, col_G = 238, col_B = 221\<rparr>"
proof -
  have h: "sampleParseIntHex ''rr'' = 0" "sampleParseIntHex ''ee'' = 238" "sampleParseIntHex ''dd'' = 221"
    by (simp_all add: sample_defs Let_def)
  have pc: "parseColor sampleLib ''red'' = Inr \<lparr>col_R = 0, col_G = 238, col_B = 221\<rparr>"
    by (simp add: parseColor_def string_defs mustHex_def byteToString_def sampleLib_def h Let_def)
  have rs: "resolveStyles sampleLib [] = Inr Map.empty"
    by (simp add: resolveStyles_def sampleLib_def)
  show ?thesis
    by (simp add: collectResources_def colorRedDoc_def collectCommand_def parseColorResource_def
          ident_def pc rs emptyResources_def Let_def)
qed


section \<open>The page collector and the chain of ancestors\<close>

lemma newPage_simps:
  "pc_accs (newPage pc) = pc_accs pc @ [emptyAccumulator]"
  "pc_current (newPage pc) = length (pc_accs pc)"
  "pc_header (newPage pc) = pc_header pc"
  "pc_footer (newPage pc) = pc_footer pc"
  "pc_margin (newPage pc) = pc_margin pc"
  "pc_width (newPage pc) = pc_width pc"
  "pc_height (newPage pc) = pc_height pc"
  by (simp_all add: newPage_def)

lemma contentTop_newPage: "contentTop (newPage pc) = contentTop pc"
  by (simp add: contentTop_def newPage_simps)

lemma pageBreak_facts:
  "pageBreak ctx ps pc = (c', ps', pc') \<Longrightarrow>
     pc' = newPage pc \<and> length ps' = length ps \<and> fc_cursorY c' = contentTop pc \<and>
     fc_baseY c' = contentTop pc \<and>
     fc_allowPageBreak c' = fc_allowPageBreak ctx \<and> fc_width c' = fc_width ctx \<and>
     fc_data c' = fc_data ctx \<and> fc_typesetter c' = fc_typesetter ctx \<and> fc_debug c' = fc_debug ctx"
proof (induction ctx ps pc arbitrary: c' ps' pc' rule: pageBreak.induct)
  case (1 ctx pc)
  then show ?case by (auto simp: Let_def contentTop_newPage)
next
  case (2 ctx parent ancestors pc)
  obtain p1 a1 pc1 where r: "pageBreak parent ancestors pc = (p1, a1, pc1)"
    by (cases "pageBreak parent ancestors pc") auto
  from "2.IH"[OF r] "2.prems" r show ?case by auto
qed

lemma updCurr_nonempty:
  assumes "updCurr f pc = Inr pc'" "pc_accs pc \<noteq> []"
  shows "pc_accs pc' = (pc_accs pc)[pc_current pc := f (pc_accs pc ! pc_current pc)]"
    and "pc_current pc' = pc_current pc" and "pc_current pc < length (pc_accs pc)"
    and "pc_header pc' = pc_header pc" and "pc_footer pc' = pc_footer pc"
    and "pc_margin pc' = pc_margin pc" and "pc_width pc' = pc_width pc"
    and "pc_height pc' = pc_height pc"
  using assms by (auto simp: updCurr_def Let_def split: if_splits)

lemma updCurr_length:
  assumes "updCurr f pc = Inr pc'"
  shows "length (pc_accs pc) \<le> length (pc_accs pc')"
  using assms by (auto simp: updCurr_def Let_def newPage_simps split: if_splits)

lemma ensureSpace_cases:
  assumes "ensureSpace h (ctx, ps, pc) = (c', ps', pc')"
  shows "(c' = ctx \<and> ps' = ps \<and> pc' = pc) \<or>
         (fc_allowPageBreak ctx \<and> pageBreak ctx ps pc = (c', ps', pc'))"
  using assms by (auto simp: ensureSpace_def split: if_splits)

lemma ensureSpace_steps:
  assumes "ensureSpace h (ctx, ps, pc) = (c', ps', pc')"
  shows "length ps' = length ps \<and> length (pc_accs pc) \<le> length (pc_accs pc') \<and>
         fc_allowPageBreak c' = fc_allowPageBreak ctx"
  using ensureSpace_cases[OF assms] by (auto dest!: pageBreak_facts simp: newPage_simps)

lemma ensureSpace_noBreak:
  "\<not> fc_allowPageBreak ctx \<Longrightarrow> ensureSpace h (ctx, ps, pc) = (ctx, ps, pc)"
  by (simp add: ensureSpace_def)

lemma handleText_steps:
  assumes "handleText L res cmd (ctx, ps, pc) = Inr (c', ps', pc')"
  shows "length ps' = length ps \<and> length (pc_accs pc) \<le> length (pc_accs pc')"
proof -
  from assms obtain tb h c1 ps1 pc1 tb' where
    e: "ensureSpace h (ctx, ps, pc) = (c1, ps1, pc1)"
    and u: "updCurr (appendText tb') pc1 = Inr pc'" and p: "ps' = ps1"
    unfolding handleText_def
    by (auto simp: Let_def split: option.splits if_splits sum.splits prod.splits)
  from ensureSpace_steps[OF e] updCurr_length[OF u] p show ?thesis by auto
qed

lemma handleImage_steps:
  assumes "handleImage L res cmd (ctx, ps, pc) = Inr (c', ps', pc')"
  shows "length ps' = length ps \<and> length (pc_accs pc) \<le> length (pc_accs pc')"
proof -
  from assms obtain h c1 ps1 pc1 ib where
    e: "ensureSpace h (ctx, ps, pc) = (c1, ps1, pc1)"
    and u: "updCurr (appendImage ib) pc1 = Inr pc'" and p: "ps' = ps1"
    unfolding handleImage_def
    by (auto simp: Let_def split: option.splits if_splits sum.splits prod.splits)
  from ensureSpace_steps[OF e] updCurr_length[OF u] p show ?thesis by auto
qed

lemma handleShape_steps:
  assumes "handleShape L res cmd (ctx, ps, pc) = Inr (c', ps', pc')"
  shows "c' = ctx \<and> ps' = ps \<and> length (pc_accs pc) \<le> length (pc_accs pc')"
  using assms unfolding handleShape_def
  by (auto simp: Let_def dest: updCurr_length split: option.splits if_splits sum.splits)

lemma handleTable_steps:
  assumes "handleTable L res cmd (ctx, ps, pc) = Inr (c', ps', pc')"
  shows "length ps' = length ps \<and> length (pc_accs pc) \<le> length (pc_accs pc')"
  using assms unfolding handleTable_def
  by (auto simp: Let_def newPage_simps dest!: updCurr_length pageBreak_facts
           split: option.splits if_splits sum.splits prod.splits)

lemma steps_refl: "steps st st"
  by (simp add: steps_def)

lemma steps_trans: "steps a b \<Longrightarrow> steps b c \<Longrightarrow> steps a c"
  by (auto simp: steps_def)

lemma processBlock_chain:
  "processBlock L res stmts st = Inr st' \<Longrightarrow> steps st st'"
  "processStatement L res stmt st = Inr st' \<Longrightarrow> steps st st'"
  "handleFlow L res cmd st = Inr st' \<Longrightarrow> steps st st'"
  "handleAbsolute L res cmd st = Inr st' \<Longrightarrow> steps st st'"
proof (induction L res stmts st and L res stmt st and L res cmd st and L res cmd st
       arbitrary: st' and st' and st' and st'
       rule: processBlock_processStatement_handleFlow_handleAbsolute.induct)
  case (1 L res st)
  then show ?case by (simp add: steps_refl)
next
  case (2 L res stmt rest st)
  from "2.prems" obtain st1 where
    a: "processStatement L res stmt st = Inr st1" and b: "processBlock L res rest st1 = Inr st'"
    by (auto split: sum.splits)
  from "2.IH"(1)[OF a] "2.IH"(2)[OF a b] show ?case by (rule steps_trans)
next
  case (3 L res a t st)
  then show ?case by (simp add: steps_refl)
next
  case (4 L res a cmd t st)
  obtain ctx ps pc where st: "st = (ctx, ps, pc)" by (cases st)
  obtain c' ps' pc' where st': "st' = (c', ps', pc')" by (cases st')
  show ?case
  proof (cases "cmd_Name cmd = ''flow''")
    case True
    with "4.prems" "4.IH"(1) show ?thesis by simp
  next
    case nf: False
    show ?thesis
    proof (cases "cmd_Name cmd = ''absolute''")
      case True
      with nf "4.prems" "4.IH"(2) show ?thesis by simp
    next
      case na: False
      from nf na "4.prems" st st' show ?thesis
        by (auto simp: steps_def split: if_splits
                 dest: handleText_steps handleImage_steps handleTable_steps handleShape_steps)
    qed
  qed
next
  case (5 L res name args st)
  then show ?case by simp
next
  case (6 L res name args stmts parent ancestors pc)
  from "6.prems" obtain child' p' a' pc' where
    r: "processBlock L res stmts
          (flowChild L res (Command name args (Some (Block stmts))) parent, parent # ancestors, pc)
        = Inr (child', p' # a', pc')"
    and s: "st' = (flowFinish child' p', a', pc')"
    by (auto split: sum.splits list.splits)
  from "6.IH"[OF r] s show ?case by (simp add: steps_def)
next
  case (7 L res name args st)
  then show ?case by simp
next
  case (8 L res name args stmts parent ancestors pc)
  from "8.prems" obtain child' p' a' pc' where
    r: "processBlock L res stmts
          (absoluteChild L res (Command name args (Some (Block stmts))) parent, parent # ancestors, pc)
        = Inr (child', p' # a', pc')"
    and s: "st' = (p', a', pc')"
    by (auto split: sum.splits list.splits)
  from "8.IH"[OF r] s show ?case by (simp add: steps_def)
qed

section \<open>Evaluating the samples\<close>

lemma sampleCollector_simps:
  "pc_accs sampleCollector = [emptyAccumulator]" "pc_current sampleCollector = 0"
  "contentTop sampleCollector = 20" "maxContentY sampleCollector = 277"
  by (simp_all add: sampleCollector_def newPageCollector_def newPage_def contentTop_def
        maxContentY_def contentBottom_def sampleMargin_def emptyHeaderFooter_def Let_def)

lemma sampleRoot_simps:
  "fc_baseX sampleRoot = 20" "fc_cursorY sampleRoot = 20" "fc_width sampleRoot = 170"
  "fc_data sampleRoot = ANil" "fc_typesetter sampleRoot = Some oneLineTypesetter"
  "fc_debug sampleRoot = \<lparr>RawUnitsOpt = False\<rparr>" "fc_allowPageBreak sampleRoot"
  "fc_textAlign sampleRoot = []" "fc_textWrap sampleRoot = ''anywhere''"
  "fc_margin sampleRoot = sampleMargin" "fc_baseY sampleRoot = 20"
  by (simp_all add: sampleRoot_def rootContext_def sampleCollector_simps sampleMargin_def
        sampleOpts_def)

lemma sample_cell:
  "composeTextBox sampleLib [] Map.empty s x y w sampleRes ANil (Some oneLineTypesetter)
          \<lparr>RawUnitsOpt = False\<rparr> ''anywhere'' = Inr (sampleCell s x y w, 12 * 0.352777)"
  by (simp add: composeTextBox_def mergeStyleAttributes_def attr_def parseLength_def
        resolveLineHeight_def resolveFontResource_def sampleRes_def layoutLines_def
        oneLineTypesetter_def zeroFirstGap_def sampleLib_def sampleTrimSpace_def
        normalizeAlign_def resolveColor_def sampleCell_def Let_def)

lemma sample_wrap: "normalizeWrap sampleLib [] = ''anywhere''"
  by (simp add: normalizeWrap_def sampleLib_def sampleTrimSpace_def Let_def)

lemma sample_parseArgs: "parseArgs [] b = ([], Map.empty)"
  by (simp add: parseArgs_def)

lemma sample_literal: "s \<noteq> [] \<Longrightarrow> extractText (literal s) = s"
  by (simp add: extractText_def literal_def)

lemma sample_row:
  "buildTableRow sampleLib (Command nm [] (Some (Block [stmtOf (Command ''cell'' [] (literal ''x''))])))
      sampleRes 0 170 20 y isHdr ANil (Some oneLineTypesetter) \<lparr>RawUnitsOpt = False\<rparr>
    = Inr (\<lparr>tr_Y = 0, tr_Height = 12 * 0.352777 + 2 * 1.2, tr_IsHeader = isHdr,
            tr_Cells = [\<lparr>tc_Text = sampleCell ''x'' (20 + 1.2) (y + 1.2) (170 - 2 * 1.2)\<rparr>]\<rparr>,
           12 * 0.352777 + 2 * 1.2, 1)"
  by (simp add: buildTableRow_def stmtOf_def sample_parseArgs sample_literal sample_wrap
        mergeStyleAttributes_def attr_def sample_cell cellPadding_def Let_def)

lemma sample_header_row:
  "\<exists>row. buildTableRow sampleLib headerOfThree sampleRes 0 170 20 y True ANil
           (Some oneLineTypesetter) \<lparr>RawUnitsOpt = False\<rparr>
         = Inr (row, 12 * 0.352777 + 2 * 1.2, 3)"
  by (simp add: buildTableRow_def headerOfThree_def stmtOf_def sample_parseArgs sample_literal
        sample_wrap mergeStyleAttributes_def attr_def sample_cell cellPadding_def Let_def)

lemma sample_table:
  "\<exists>t. tableBuild sampleLib sampleRes (sampleRoot\<lparr>fc_cursorY := cy\<rparr>) [stmtOf headerOfThree]
          170 0 0 y = Inr (t, 12 * 0.352777 + 2 * 1.2)"
proof -
  obtain row where row: "buildTableRow sampleLib headerOfThree sampleRes 0 170 20 y True ANil
           (Some oneLineTypesetter) \<lparr>RawUnitsOpt = False\<rparr>
         = Inr (row, 12 * 0.352777 + 2 * 1.2, 3)"
    using sample_header_row by blast
  have n: "cmd_Name headerOfThree = ''header''" by (simp add: headerOfThree_def)
  show ?thesis
    by (simp add: tableBuild_def stmtOf_def n sampleRoot_simps row)
qed

lemma sample_header_row_two:
  "\<exists>row. buildTableRow sampleLib headerOfThree sampleRes 2 170 20 y True ANil
           (Some oneLineTypesetter) \<lparr>RawUnitsOpt = False\<rparr>
         = Inr (row, 12 * 0.352777 + 2 * 1.2, 3)"
  by (simp add: buildTableRow_def headerOfThree_def stmtOf_def sample_parseArgs sample_literal
        sample_wrap mergeStyleAttributes_def attr_def sample_cell cellPadding_def Let_def)

lemma sample_table_two:
  "\<exists>t. tableBuild sampleLib sampleRes sampleRoot [stmtOf headerOfThree] 170 0 2 y
          = Inr (t, 12 * 0.352777 + 2 * 1.2)"
proof -
  obtain row where row: "buildTableRow sampleLib headerOfThree sampleRes 2 170 20 y True ANil
           (Some oneLineTypesetter) \<lparr>RawUnitsOpt = False\<rparr>
         = Inr (row, 12 * 0.352777 + 2 * 1.2, 3)"
    using sample_header_row_two by blast
  have n: "cmd_Name headerOfThree = ''header''" by (simp add: headerOfThree_def)
  show ?thesis
    by (simp add: tableBuild_def stmtOf_def n sampleRoot_simps row)
qed

lemma sample_tableAttrs:
  "tableAttrs sampleRes tableWithHeader = Map.empty"
  "tableAttrs sampleRes tableTwoColumns = [''columns'' \<mapsto> ''2'']"
  by (simp_all add: tableAttrs_def tableWithHeader_def tableTwoColumns_def parseArgs_def
        mergeStyleAttributes_def ident_def number_def)

section \<open>Pages of a build\<close>

lemma newPageCollector_accs: "pc_accs (newPageCollector w h m) = [emptyAccumulator]"
  by (simp add: newPageCollector_def newPage_simps)

lemma length_pages: "length (pages pc) = length (pc_accs pc)"
  by (simp add: pages_def allPages_def)

lemma processBlock_pages:
  assumes "processBlock L res stmts (rt, [], c) = Inr (r, p, q)" "pc_accs c \<noteq> []"
  shows "Suc 0 \<le> length (pages q)"
proof -
  from processBlock_chain(1)[OF assms(1)] have "length (pc_accs c) \<le> length (pc_accs q)"
    by (simp add: steps_def)
  moreover from assms(2) have "Suc 0 \<le> length (pc_accs c)"
    by (cases "pc_accs c") auto
  ultimately show ?thesis by (simp add: length_pages)
qed

lemma buildPages_at_least_one:
  assumes "buildPages L sec res dat opts = Inr ps"
  shows "1 \<le> length ps"
  using assms unfolding buildPages_def
  by (auto simp: Let_def newPageCollector_accs split: sum.splits option.splits prod.splits
           intro!: processBlock_pages)

lemma processBlock_no_commands:
  "\<forall>s \<in> set stmts. st_Command s = None \<Longrightarrow> processBlock L res stmts st = Inr st"
proof (induction stmts)
  case Nil
  then show ?case by simp
next
  case (Cons s stmts)
  then have "st_Command s = None" by simp
  then have "processStatement L res s st = Inr st" by (cases s) simp
  with Cons show ?case by simp
qed

lemma findDef_no_commands:
  "\<forall>s \<in> set stmts. st_Command s = None \<Longrightarrow> findDef name stmts found = found"
  by (induction stmts arbitrary: found) auto

text \<open>
  Claim C10. A successful \<^verbatim>\<open>Build\<close> returns at least one page: the collector is
  constructed with one empty accumulator, and the walk never removes one. A page section
  whose block holds no command gives exactly one page, without content, header or footer.
\<close>

theorem Build_at_least_one_page:
  "(Build L doc dat opts = Inr result \<longrightarrow> 1 \<le> length (Pages result)) \<and>
   pc_accs (newPageCollector w h mg) = [emptyAccumulator] \<and>
   (buildPages L sec res dat opts = Inr ps \<and> page_Block sec = Some (Block stmts) \<and>
    (\<forall>s \<in> set stmts. st_Command s = None) \<longrightarrow>
      (\<exists>pw ph. ps = [\<lparr>pg_Width = pw, pg_Height = ph,
                       pg_Margin = resolveMargin L (ps_Params (page_Spec sec)),
                       pg_Texts = [], pg_Images = [], pg_Tables = [], pg_Lines = [],
                       pg_Rects = [], pg_Circles = [],
                       pg_Header = emptyHeaderFooter, pg_Footer = emptyHeaderFooter\<rparr>]))"
proof (intro conjI impI)
  assume "Build L doc dat opts = Inr result"
  then obtain pageSection r where "buildPages L pageSection r dat opts = Inr (Pages result)"
    unfolding Build_def by (auto split: option.splits if_splits sum.splits)
  then show "1 \<le> length (Pages result)" by (rule buildPages_at_least_one)
next
  show "pc_accs (newPageCollector w h mg) = [emptyAccumulator]"
    by (rule newPageCollector_accs)
next
  assume a: "buildPages L sec res dat opts = Inr ps \<and> page_Block sec = Some (Block stmts) \<and>
    (\<forall>s \<in> set stmts. st_Command s = None)"
  then have n: "\<forall>s \<in> set stmts. st_Command s = None" by simp
  from a show "\<exists>pw ph. ps = [\<lparr>pg_Width = pw, pg_Height = ph,
                       pg_Margin = resolveMargin L (ps_Params (page_Spec sec)),
                       pg_Texts = [], pg_Images = [], pg_Tables = [], pg_Lines = [],
                       pg_Rects = [], pg_Circles = [],
                       pg_Header = emptyHeaderFooter, pg_Footer = emptyHeaderFooter\<rparr>]"
    unfolding buildPages_def
    by (auto simp: Let_def findDef_no_commands[OF n] processBlock_no_commands[OF n]
          pages_def allPages_def newPageCollector_def newPage_def emptyAccumulator_def
          split: sum.splits)
qed

theorem Build_at_least_one_page_witness:
  "\<exists>result. Build sampleLib (Some emptyPageDoc) ANil
       \<lparr>opt_Typesetter = Some oneLineTypesetter, opt_Debug = \<lparr>RawUnitsOpt = False\<rparr>\<rparr> = Inr result \<and>
     length (Pages result) = 1 \<and> pg_Texts (Pages result ! 0) = [] \<and>
     pg_Width (Pages result ! 0) = 210 \<and> pg_Height (Pages result ! 0) = 297"
proof -
  let ?opts = "\<lparr>opt_Typesetter = Some oneLineTypesetter, opt_Debug = \<lparr>RawUnitsOpt = False\<rparr>\<rparr>"
  let ?sec = "\<lparr>page_Spec = \<lparr>ps_Size = ''A4'', ps_Params = [ident ''portrait'']\<rparr>,
               page_Block = Some (Block [])\<rparr>"
  have rs: "resolveStyles sampleLib [] = Inr Map.empty"
    by (simp add: resolveStyles_def sampleLib_def)
  have cr: "collectResources sampleLib emptyPageDoc =
      Inr (emptyResources\<lparr>Fonts := [(''Body'', defaultBodyFont)], Styles := Map.empty\<rparr>)"
    by (simp add: collectResources_def emptyPageDoc_def rs emptyResources_def)
  have up: "ToUpper sampleLib ''A4'' = ''A4''"
    by (simp add: sample_defs Let_def)
  have sz: "resolvePageSize sampleLib \<lparr>ps_Size = ''A4'', ps_Params = [ident ''portrait'']\<rparr>
              = Inr (210, 297)"
    by (simp add: resolvePageSize_def pagePresets_def up ident_def)
  have bp: "\<exists>ps. buildPages sampleLib ?sec
              (emptyResources\<lparr>Fonts := [(''Body'', defaultBodyFont)], Styles := Map.empty\<rparr>)
              ANil ?opts = Inr ps \<and> pg_Width (ps ! 0) = 210 \<and> pg_Height (ps ! 0) = 297"
    by (simp add: buildPages_def sz Let_def pages_def allPages_def newPageCollector_def newPage_def)
  then obtain ps where ps: "buildPages sampleLib ?sec
              (emptyResources\<lparr>Fonts := [(''Body'', defaultBodyFont)], Styles := Map.empty\<rparr>)
              ANil ?opts = Inr ps" "pg_Width (ps ! 0) = 210" "pg_Height (ps ! 0) = 297"
    by (elim exE conjE)
  have b: "Build sampleLib (Some emptyPageDoc) ANil ?opts =
             Inr \<lparr>Pages = ps,
                  Resources = emptyResources\<lparr>Fonts := [(''Body'', defaultBodyFont)], Styles := Map.empty\<rparr>,
                  Meta = collectMeta sampleLib emptyPageDoc\<rparr>"
    by (simp add: Build_def cr ps(1)) (simp add: emptyPageDoc_def ps(1))
  note t = Build_at_least_one_page[where L = sampleLib and doc = "Some emptyPageDoc"
      and dat = ANil and opts = ?opts and sec = ?sec and ps = ps and stmts = "[]"
      and res = "emptyResources\<lparr>Fonts := [(''Body'', defaultBodyFont)], Styles := Map.empty\<rparr>"
      and result = "\<lparr>Pages = ps,
                  Resources = emptyResources\<lparr>Fonts := [(''Body'', defaultBodyFont)], Styles := Map.empty\<rparr>,
                  Meta = collectMeta sampleLib emptyPageDoc\<rparr>"
      and w = 210 and h = 297 and mg = "resolveMargin sampleLib []"]
  from t b have l: "1 \<le> length ps" by simp
  from t ps(1) have "\<exists>pw ph. ps = [\<lparr>pg_Width = pw, pg_Height = ph,
                       pg_Margin = resolveMargin sampleLib (ps_Params (page_Spec ?sec)),
                       pg_Texts = [], pg_Images = [], pg_Tables = [], pg_Lines = [],
                       pg_Rects = [], pg_Circles = [],
                       pg_Header = emptyHeaderFooter, pg_Footer = emptyHeaderFooter\<rparr>]"
    by simp
  then have "length ps = 1" "pg_Texts (ps ! 0) = []" by auto
  with b ps show ?thesis by simp
qed

section \<open>Absolute containers\<close>

lemma updCurr_quiet:
  assumes "updCurr f pc = Inr pc'" "pc_accs pc \<noteq> []"
  shows "length (pc_accs pc') = length (pc_accs pc) \<and> pc_current pc' = pc_current pc"
  using updCurr_nonempty(1,2)[OF assms] by simp

lemma handleText_quiet:
  assumes "handleText L res cmd (ctx, ps, pc) = Inr st'" "\<not> fc_allowPageBreak ctx"
    "pc_accs pc \<noteq> []"
  shows "quiet (ctx, ps, pc) st'"
proof -
  from assms(1,2) obtain tb h pc' where
    u: "updCurr (appendText tb) pc = Inr pc'"
    and s: "st' = (ctx\<lparr>fc_cursorY := fc_cursorY ctx + (h + blockSpacing)\<rparr>, ps, pc')"
    unfolding handleText_def
    by (auto simp: Let_def ensureSpace_noBreak split: option.splits if_splits sum.splits prod.splits)
  from updCurr_quiet[OF u assms(3)] s assms(2) show ?thesis by (simp add: quiet_def)
qed

lemma handleImage_quiet:
  assumes "handleImage L res cmd (ctx, ps, pc) = Inr st'" "\<not> fc_allowPageBreak ctx"
    "pc_accs pc \<noteq> []"
  shows "quiet (ctx, ps, pc) st'"
proof -
  from assms(1,2) obtain ib y pc' where
    u: "updCurr (appendImage ib) pc = Inr pc'"
    and s: "st' = (ctx\<lparr>fc_cursorY := y\<rparr>, ps, pc')"
    unfolding handleImage_def
    by (auto simp: Let_def ensureSpace_noBreak split: option.splits if_splits sum.splits prod.splits)
  from updCurr_quiet[OF u assms(3)] s assms(2) show ?thesis by (simp add: quiet_def)
qed

lemma handleTable_quiet:
  assumes "handleTable L res cmd (ctx, ps, pc) = Inr st'" "\<not> fc_allowPageBreak ctx"
    "pc_accs pc \<noteq> []"
  shows "quiet (ctx, ps, pc) st'"
proof -
  from assms(1,2) obtain t y pc' where
    u: "updCurr (appendTable t) pc = Inr pc'"
    and s: "st' = (ctx\<lparr>fc_cursorY := y\<rparr>, ps, pc')"
    unfolding handleTable_def
    by (auto simp: Let_def split: option.splits if_splits sum.splits prod.splits)
  from updCurr_quiet[OF u assms(3)] s assms(2) show ?thesis by (simp add: quiet_def)
qed

lemma handleShape_quiet:
  assumes "handleShape L res cmd (ctx, ps, pc) = Inr st'" "\<not> fc_allowPageBreak ctx"
    "pc_accs pc \<noteq> []"
  shows "quiet (ctx, ps, pc) st'"
  using assms unfolding handleShape_def
  by (auto simp: Let_def quiet_def dest: updCurr_quiet split: option.splits if_splits sum.splits)

lemma quiet_trans: "quiet a b \<Longrightarrow> quiet b c \<Longrightarrow> quiet a c"
  by (auto simp: quiet_def)

lemma quiet_nonempty:
  "quiet a b \<Longrightarrow> pc_accs (snd (snd a)) \<noteq> [] \<Longrightarrow> pc_accs (snd (snd b)) \<noteq> []"
  by (auto simp: quiet_def)

lemma processBlock_quiet:
  "processBlock L res stmts st = Inr st' \<Longrightarrow> \<not> fc_allowPageBreak (fst st) \<Longrightarrow>
     pc_accs (snd (snd st)) \<noteq> [] \<Longrightarrow> quiet st st'"
  "processStatement L res stmt st = Inr st' \<Longrightarrow> \<not> fc_allowPageBreak (fst st) \<Longrightarrow>
     pc_accs (snd (snd st)) \<noteq> [] \<Longrightarrow> quiet st st'"
  "handleFlow L res cmd st = Inr st' \<Longrightarrow> \<not> fc_allowPageBreak (fst st) \<Longrightarrow>
     pc_accs (snd (snd st)) \<noteq> [] \<Longrightarrow> quiet st st'"
  "handleAbsolute L res cmd st = Inr st' \<Longrightarrow> \<not> fc_allowPageBreak (fst st) \<Longrightarrow>
     pc_accs (snd (snd st)) \<noteq> [] \<Longrightarrow> quiet st st'"
proof (induction L res stmts st and L res stmt st and L res cmd st and L res cmd st
       arbitrary: st' and st' and st' and st'
       rule: processBlock_processStatement_handleFlow_handleAbsolute.induct)
  case (1 L res st)
  then show ?case by (simp add: quiet_def)
next
  case (2 L res stmt rest st)
  from "2.prems"(1) obtain st1 where
    a: "processStatement L res stmt st = Inr st1" and b: "processBlock L res rest st1 = Inr st'"
    by (auto split: sum.splits)
  from "2.IH"(1)[OF a "2.prems"(2,3)] have q1: "quiet st st1" .
  then have "\<not> fc_allowPageBreak (fst st1)" "pc_accs (snd (snd st1)) \<noteq> []"
    using "2.prems"(3) by (auto simp: quiet_def)
  from "2.IH"(2)[OF a b this] q1 show ?case by (blast intro: quiet_trans)
next
  case (3 L res a t st)
  then show ?case by (simp add: quiet_def)
next
  case (4 L res a cmd t st)
  obtain ctx ps pc where st: "st = (ctx, ps, pc)" by (cases st)
  show ?case
  proof (cases "cmd_Name cmd = ''flow''")
    case True
    with "4.prems" "4.IH"(1) show ?thesis by simp
  next
    case nf: False
    show ?thesis
    proof (cases "cmd_Name cmd = ''absolute''")
      case True
      with nf "4.prems" "4.IH"(2) show ?thesis by simp
    next
      case na: False
      from nf na "4.prems" st show ?thesis
        by (auto split: if_splits
                 intro: handleText_quiet handleImage_quiet handleTable_quiet handleShape_quiet)
    qed
  qed
next
  case (5 L res name args st)
  then show ?case by simp
next
  case (6 L res name args stmts parent ancestors pc)
  let ?child = "flowChild L res (Command name args (Some (Block stmts))) parent"
  from "6.prems"(1) obtain child' p' a' pc' where
    r: "processBlock L res stmts (?child, parent # ancestors, pc) = Inr (child', p' # a', pc')"
    and s: "st' = (flowFinish child' p', a', pc')"
    by (auto split: sum.splits list.splits)
  have nb: "\<not> fc_allowPageBreak (fst (?child, parent # ancestors, pc))"
    using "6.prems"(2) by (simp add: flowChild_def Let_def)
  have ne: "pc_accs (snd (snd (?child, parent # ancestors, pc))) \<noteq> []"
    using "6.prems"(3) by simp
  from "6.IH"[OF r nb ne] have "p' = parent" "a' = ancestors"
    "length (pc_accs pc') = length (pc_accs pc)" "pc_current pc' = pc_current pc"
    by (simp_all add: quiet_def)
  with s "6.prems"(2) show ?case
    by (simp add: quiet_def flowFinish_def)
next
  case (7 L res name args st)
  then show ?case by simp
next
  case (8 L res name args stmts parent ancestors pc)
  let ?child = "absoluteChild L res (Command name args (Some (Block stmts))) parent"
  from "8.prems"(1) obtain child' p' a' pc' where
    r: "processBlock L res stmts (?child, parent # ancestors, pc) = Inr (child', p' # a', pc')"
    and s: "st' = (p', a', pc')"
    by (auto split: sum.splits list.splits)
  have nb: "\<not> fc_allowPageBreak (fst (?child, parent # ancestors, pc))"
    by (simp add: absoluteChild_def Let_def)
  have ne: "pc_accs (snd (snd (?child, parent # ancestors, pc))) \<noteq> []"
    using "8.prems"(3) by simp
  from "8.IH"[OF r nb ne] have "p' = parent" "a' = ancestors"
    "length (pc_accs pc') = length (pc_accs pc)" "pc_current pc' = pc_current pc"
    by (simp_all add: quiet_def)
  with s "8.prems"(2) show ?case
    by (simp add: quiet_def)
qed

text \<open>
  Claim C4. The page collector holds a page, as every collector of the engine does. When
  \<^verbatim>\<open>handleAbsolute\<close> returns, the parent context is what it was, cursor included, and
  so are its ancestors; the collector has as many page accumulators as before and the
  same current page, whatever the block of the container holds, at any depth.
\<close>

theorem handleAbsolute_frame:
  assumes "handleAbsolute L res cmd (parent, ancestors, pc) = Inr (parent', ancestors', pc')"
    and "pc_accs pc \<noteq> []"
  shows "parent' = parent \<and> fc_cursorY parent' = fc_cursorY parent \<and> ancestors' = ancestors \<and>
         length (pc_accs pc') = length (pc_accs pc) \<and> pc_current pc' = pc_current pc"
proof -
  obtain name args block where cmd: "cmd = Command name args block" by (cases cmd)
  with assms(1) obtain stmts where b: "block = Some (Block stmts)"
    by (cases block) (auto, metis Block.exhaust)
  let ?child = "absoluteChild L res (Command name args (Some (Block stmts))) parent"
  from assms(1) cmd b obtain child' where
    r: "processBlock L res stmts (?child, parent # ancestors, pc)
          = Inr (child', parent' # ancestors', pc')"
    by (auto split: sum.splits list.splits)
  have nb: "\<not> fc_allowPageBreak (fst (?child, parent # ancestors, pc))"
    by (simp add: absoluteChild_def Let_def)
  have ne: "pc_accs (snd (snd (?child, parent # ancestors, pc))) \<noteq> []"
    using assms(2) by simp
  from processBlock_quiet(1)[OF r nb ne] show ?thesis
    by (simp add: quiet_def)
qed

theorem handleAbsolute_frame_witness:
  "\<exists>pc'. handleAbsolute sampleLib sampleRes absoluteText (sampleRoot, [], sampleCollector)
             = Inr (sampleRoot, [], pc') \<and>
          length (pc_accs pc') = 1 \<and> map tb_Y (acc_texts (pc_accs pc' ! 0)) = [420]"
proof -
  have pd: "parseDimension sampleLib ''400mm'' 170 = 400" "parseDimension sampleLib [] 170 = 0"
    by (simp_all add: parseDimension_def parseLength_def string_defs sample_defs Let_def)
  have ch: "absoluteChild sampleLib sampleRes absoluteText sampleRoot =
      sampleRoot\<lparr>fc_baseY := 420, fc_cursorY := 420, fc_allowPageBreak := False,
                 fc_textWrap := []\<rparr>"
    by (rule flowContext.equality)
       (simp_all add: absoluteChild_def absoluteText_def parseArgs_def ident_def number_def
          mergeStyleAttributes_def attr_def pd sampleRoot_simps Let_def)
  let ?child = "sampleRoot\<lparr>fc_baseY := 420, fc_cursorY := 420, fc_allowPageBreak := False,
                 fc_textWrap := []\<rparr>"
  have cell: "composeTextBox sampleLib [] Map.empty ''x'' 20 420 170 sampleRes ANil
          (Some oneLineTypesetter) \<lparr>RawUnitsOpt = False\<rparr> []
        = Inr ((sampleCell ''x'' 20 420 170)\<lparr>tb_Wrap := []\<rparr>, 12 * 0.352777)"
    by (simp add: composeTextBox_def mergeStyleAttributes_def attr_def parseLength_def
        resolveLineHeight_def resolveFontResource_def sampleRes_def layoutLines_def
        oneLineTypesetter_def zeroFirstGap_def sampleLib_def sampleTrimSpace_def
        normalizeAlign_def resolveColor_def sampleCell_def Let_def)
  have ts: "TrimSpace sampleLib [] = []" by (simp add: sampleLib_def sampleTrimSpace_def)
  have tx: "\<exists>c' pc'. handleText sampleLib sampleRes (Command ''text'' [] (literal ''x''))
                (?child, [sampleRoot], sampleCollector) = Inr (c', [sampleRoot], pc') \<and>
              map tb_Y (acc_texts (pc_accs pc' ! 0)) = [420]"
    apply (simp add: handleText_def literal_def sample_parseArgs mergeStyleAttributes_def attr_def
          extractText_def sampleRoot_simps ts Let_def)
    apply (simp add: cell)
    apply (simp add: ensureSpace_def updCurr_def
          sampleCollector_simps appendText_def emptyAccumulator_def Let_def)
    done
  then obtain c' pc' where tx': "handleText sampleLib sampleRes (Command ''text'' [] (literal ''x''))
                (?child, [sampleRoot], sampleCollector) = Inr (c', [sampleRoot], pc')"
     and ty': "map tb_Y (acc_texts (pc_accs pc' ! 0)) = [420]"
    by (elim exE conjE)
  have ha: "handleAbsolute sampleLib sampleRes absoluteText (sampleRoot, [], sampleCollector) =
     (case processBlock sampleLib sampleRes [stmtOf (Command ''text'' [] (literal ''x''))]
             (absoluteChild sampleLib sampleRes absoluteText sampleRoot, [sampleRoot], sampleCollector) of
        Inl e \<Rightarrow> Inl e
      | Inr (child', parents', pc') \<Rightarrow>
          (case parents' of
             [] \<Rightarrow> Inl Panic
           | parent' # ancestors' \<Rightarrow> Inr (parent', ancestors', pc')))"
    by (simp add: absoluteText_def)
  have ev: "\<exists>p' a' pc'. handleAbsolute sampleLib sampleRes absoluteText (sampleRoot, [], sampleCollector)
             = Inr (p', a', pc') \<and> map tb_Y (acc_texts (pc_accs pc' ! 0)) = [420]"
    unfolding ha ch by (simp add: stmtOf_def tx' ty')
  then obtain p' a' pc' where ok: "handleAbsolute sampleLib sampleRes absoluteText
      (sampleRoot, [], sampleCollector) = Inr (p', a', pc')"
    and ty: "map tb_Y (acc_texts (pc_accs pc' ! 0)) = [420]"
    by (elim exE conjE)
  have ne: "pc_accs sampleCollector \<noteq> []" by (simp add: sampleCollector_simps)
  from handleAbsolute_frame[OF ok ne] ok ty show ?thesis
    by (simp add: sampleCollector_simps)
qed

section \<open>Tables\<close>

lemma rowCells_count:
  "rowCells L res hint w x0 y0 dat ts dbg stmts (cells, m, i) = Inr (cells', m', i') \<Longrightarrow>
     i' = i + length (filter isCell stmts) \<and> length cells' = length cells + length (filter isCell stmts)"
proof (induction stmts arbitrary: cells m i)
  case Nil
  then show ?case by simp
next
  case (Cons stmt rest)
  show ?case
  proof (cases "isCell stmt")
    case False
    then have "rowCells L res hint w x0 y0 dat ts dbg (stmt # rest) (cells, m, i)
                 = rowCells L res hint w x0 y0 dat ts dbg rest (cells, m, i)"
      by (auto simp: isCell_def split: option.splits)
    with Cons False show ?thesis by simp
  next
    case True
    then obtain c where c: "st_Command stmt = Some c" "cmd_Name c = ''cell''"
      "extractText (cmd_Block c) \<noteq> []"
      by (auto simp: isCell_def split: option.splits)
    with Cons.prems obtain tb h where
      r: "rowCells L res hint w x0 y0 dat ts dbg rest
            (cells @ [\<lparr>tc_Text = tb\<rparr>], if h > m then h else m, Suc i) = Inr (cells', m', i')"
      by (auto simp: Let_def split: sum.splits)
    from Cons.IH[OF r] True show ?thesis by simp
  qed
qed

lemma buildTableRow_count:
  assumes "buildTableRow L c res hint w x0 y0 isHdr dat ts dbg = Inr (row, rh, n)"
  shows "n = cellCount c \<and> 0 < n \<and> length (tr_Cells row) = n \<and> rh = tr_Height row"
proof -
  from assms obtain b cells m where b: "cmd_Block c = Some b"
    and r: "rowCells L res hint w x0 y0 dat ts dbg (Statements b) ([], 0, 0) = Inr (cells, m, n)"
    and n: "n \<noteq> 0" and row: "row = \<lparr>tr_Y = 0, tr_Height = m + 2 * cellPadding,
                        tr_IsHeader = isHdr, tr_Cells = cells\<rparr>" "rh = m + 2 * cellPadding"
    unfolding buildTableRow_def
    by (auto split: option.splits sum.splits if_splits)
  from rowCells_count[OF r] b n row show ?thesis
    by (simp add: cellCount_def)
qed

lemma tableRows_facts:
  "tableRows L res ctx w g stmts (rows, y, cc) = Inr (rows', y', cc') \<Longrightarrow>
     length rows' = length rows + length (filter isRow stmts) \<and>
     (cc \<noteq> 0 \<longrightarrow> cc' = cc) \<and>
     (cc = 0 \<longrightarrow> (case firstHeader stmts of
                     None \<Rightarrow> cc' = 0
                   | Some hdr \<Rightarrow> cc' = cellCount hdr \<and> 0 < cc'))"
proof (induction stmts arbitrary: rows y cc)
  case Nil
  then show ?case by simp
next
  case (Cons stmt rest)
  show ?case
  proof (cases "st_Command stmt")
    case None
    with Cons show ?thesis by (simp add: isRow_def)
  next
    case (Some c)
    show ?thesis
    proof (cases "cmd_Name c = ''header''")
      case True
      with Some Cons.prems obtain row rh n where
        b: "buildTableRow L c res cc w (fc_baseX ctx) y True (fc_data ctx)
              (fc_typesetter ctx) (fc_debug ctx) = Inr (row, rh, n)"
        and r: "tableRows L res ctx w g rest
                 (rows @ [row\<lparr>tr_Y := y + (rh + g) - rh - g\<rparr>], y + (rh + g),
                  if cc = 0 then n else cc) = Inr (rows', y', cc')"
        by (auto split: sum.splits)
      from buildTableRow_count[OF b] have n: "n = cellCount c" "0 < n" by simp_all
      from Cons.IH[OF r] Some True n show ?thesis
        by (auto simp: isRow_def)
    next
      case nh: False
      show ?thesis
      proof (cases "cmd_Name c = ''row''")
        case True
        with nh Some Cons.prems obtain row rh n where
          r: "tableRows L res ctx w g rest
                 (rows @ [row\<lparr>tr_Y := y + (rh + g) - rh - g\<rparr>], y + (rh + g), cc)
               = Inr (rows', y', cc')"
          by (auto split: sum.splits)
        from Cons.IH[OF r] Some True nh show ?thesis
          by (auto simp: isRow_def)
      next
        case False
        with nh Some Cons show ?thesis by (simp add: isRow_def)
      qed
    qed
  qed
qed

lemma tableBuild_facts:
  assumes "tableBuild L res ctx stmts w g cols y0 = Inr (t, h)"
  shows "tbl_Y t = y0" "tbl_X t = fc_baseX ctx" "tbl_Width t = w"
    "length (tbl_Rows t) = length (filter isRow stmts)"
    "cols \<noteq> 0 \<Longrightarrow> tbl_ColumnWidths t = replicate cols (w / real cols)"
    "cols = 0 \<Longrightarrow> \<exists>hdr. firstHeader stmts = Some hdr \<and> 0 < cellCount hdr \<and>
        tbl_ColumnWidths t = replicate (cellCount hdr) (w / real (cellCount hdr))"
proof -
  from assms obtain rows y cc where
    r: "tableRows L res ctx w g stmts ([], y0, cols) = Inr (rows, y, cc)"
    and c: "cc \<noteq> 0"
    and t: "t = \<lparr>tbl_X = fc_baseX ctx, tbl_Y = y0, tbl_Width = w, tbl_RowGap = g,
                   tbl_ColumnWidths = replicate cc (w / real cc),
                   tbl_Rows = rows,
                   tbl_BorderColor = \<lparr>col_R = 200, col_G = 200, col_B = 200\<rparr>\<rparr>"
    unfolding tableBuild_def by (auto split: sum.splits if_splits)
  note f = tableRows_facts[OF r]
  from t show "tbl_Y t = y0" "tbl_X t = fc_baseX ctx" "tbl_Width t = w" by simp_all
  from f t show "length (tbl_Rows t) = length (filter isRow stmts)" by simp
  from f t show "cols \<noteq> 0 \<Longrightarrow> tbl_ColumnWidths t = replicate cols (w / real cols)" by simp
  from f t c show "cols = 0 \<Longrightarrow> \<exists>hdr. firstHeader stmts = Some hdr \<and> 0 < cellCount hdr \<and>
        tbl_ColumnWidths t = replicate (cellCount hdr) (w / real (cellCount hdr))"
    by (cases "firstHeader stmts") auto
qed

lemma handleTable_appended:
  assumes ok: "handleTable L res cmd (ctx, parents, pc) = Inr (ctx', parents', pc')"
    and ne: "pc_accs pc \<noteq> []"
  shows "\<exists>b c0 y t h. cmd_Block cmd = Some b \<and>
      tableBuild L res c0 (Statements b) (tableWidthOf L (tableAttrs res cmd) ctx)
        (tableRowGapOf L (tableAttrs res cmd)) (tableColumnsOf L (tableAttrs res cmd)) y = Inr (t, h) \<and>
      pc_current pc' < length (pc_accs pc') \<and>
      acc_tables (pc_accs pc' ! pc_current pc') \<noteq> [] \<and>
      last (acc_tables (pc_accs pc' ! pc_current pc')) = t"
proof -
  from ok obtain b where b: "cmd_Block cmd = Some b"
    unfolding handleTable_def by (auto split: option.splits)
  define w where "w = tableWidthOf L (tableAttrs res cmd) ctx"
  define g where "g = tableRowGapOf L (tableAttrs res cmd)"
  define c where "c = tableColumnsOf L (tableAttrs res cmd)"
  from ok b obtain t0 h0 where
    first: "tableBuild L res ctx (Statements b) w g c (fc_cursorY ctx) = Inr (t0, h0)"
    unfolding handleTable_def tableAttrs_def w_def g_def c_def
    by (auto simp: Let_def split: sum.splits)
  show ?thesis
  proof (cases "fc_allowPageBreak ctx \<and> fc_cursorY ctx + h0 > maxContentY pc")
    case True
    obtain c1 ps1 pc1 where pb: "pageBreak ctx parents pc = (c1, ps1, pc1)"
      by (cases "pageBreak ctx parents pc") auto
    note pf = pageBreak_facts[OF pb]
    from ok b first True pb obtain t h pc2 where
      second: "tableBuild L res c1 (Statements b) w g c (fc_cursorY c1) = Inr (t, h)"
      and u: "updCurr (appendTable t) pc1 = Inr pc2"
      and r: "pc' = pc2"
      unfolding handleTable_def tableAttrs_def w_def g_def c_def
      by (auto simp: Let_def split: sum.splits)
    have ne1: "pc_accs pc1 \<noteq> []" using pf by (simp add: newPage_simps)
    from updCurr_nonempty(1,2,3)[OF u ne1] r
    have "pc_current pc' < length (pc_accs pc')"
      "acc_tables (pc_accs pc' ! pc_current pc') \<noteq> []"
      "last (acc_tables (pc_accs pc' ! pc_current pc')) = t"
      by (simp_all add: appendTable_def)
    with b second show ?thesis
      unfolding w_def g_def c_def by blast
  next
    case False
    from ok b first False obtain pc2 where
      u: "updCurr (appendTable t0) pc = Inr pc2" and r: "pc' = pc2"
      unfolding handleTable_def tableAttrs_def w_def g_def c_def
      by (auto simp: Let_def split: sum.splits if_splits)
    from updCurr_nonempty(1,2,3)[OF u ne] r
    have "pc_current pc' < length (pc_accs pc')"
      "acc_tables (pc_accs pc' ! pc_current pc') \<noteq> []"
      "last (acc_tables (pc_accs pc' ! pc_current pc')) = t0"
      by (simp_all add: appendTable_def)
    with b first show ?thesis
      unfolding w_def g_def c_def by blast
  qed
qed

lemma tableColumnsOf_explicit:
  "attr attrs ''columns'' \<noteq> [] \<Longrightarrow> Atoi L (attr attrs ''columns'') = Some k \<Longrightarrow> 0 < k
     \<Longrightarrow> tableColumnsOf L attrs = nat k"
  by (simp add: tableColumnsOf_def)

lemma tableColumnsOf_zero_iff:
  "tableColumnsOf L attrs = 0 \<longleftrightarrow>
     (attr attrs ''columns'' = [] \<or> Atoi L (attr attrs ''columns'') = None \<or>
      (\<exists>k. Atoi L (attr attrs ''columns'') = Some k \<and> k \<le> 0))"
  by (auto simp: tableColumnsOf_def split: option.splits)

text \<open>
  Claim C1, amended. The table that \<^verbatim>\<open>handleTable\<close> appends is the last table of the
  current page. Its column count is positive and every column has the width of the table
  divided by the count. When the \<^verbatim>\<open>columns\<close> attribute is a positive number, it is the
  count. When the attribute is missing (or empty, no number, or not positive), the count
  is the number of cells with text of the first \<^verbatim>\<open>header\<close> row: a \<^verbatim>\<open>row\<close> never sets
  the count, and a table without a header is then refused.
\<close>

theorem handleTable_column_count:
  "(handleTable L res cmd (ctx, parents, pc) = Inr (ctx', parents', pc') \<and> pc_accs pc \<noteq> [] \<longrightarrow>
      (\<exists>b n. cmd_Block cmd = Some b \<and> 0 < n \<and>
         pc_current pc' < length (pc_accs pc') \<and>
         acc_tables (pc_accs pc' ! pc_current pc') \<noteq> [] \<and>
         tbl_Width (last (acc_tables (pc_accs pc' ! pc_current pc')))
           = tableWidthOf L (tableAttrs res cmd) ctx \<and>
         tbl_ColumnWidths (last (acc_tables (pc_accs pc' ! pc_current pc')))
           = replicate n (tableWidthOf L (tableAttrs res cmd) ctx / real n) \<and>
         (\<forall>k. attr (tableAttrs res cmd) ''columns'' \<noteq> [] \<and>
              Atoi L (attr (tableAttrs res cmd) ''columns'') = Some k \<and> 0 < k \<longrightarrow> n = nat k) \<and>
         (attr (tableAttrs res cmd) ''columns'' = [] \<or>
          Atoi L (attr (tableAttrs res cmd) ''columns'') = None \<or>
          (\<exists>k. Atoi L (attr (tableAttrs res cmd) ''columns'') = Some k \<and> k \<le> 0) \<longrightarrow>
            (\<exists>hdr. firstHeader (Statements b) = Some hdr \<and> n = cellCount hdr)))) \<and>
   (cmd_Block cmd = Some blk \<and> firstHeader (Statements blk) = None \<and>
    (attr (tableAttrs res cmd) ''columns'' = [] \<or>
     Atoi L (attr (tableAttrs res cmd) ''columns'') = None \<or>
     (\<exists>k. Atoi L (attr (tableAttrs res cmd) ''columns'') = Some k \<and> k \<le> 0)) \<longrightarrow>
      (\<exists>e. handleTable L res cmd (ctx, parents, pc) = Inl e))"
proof (intro conjI impI)
  assume a: "handleTable L res cmd (ctx, parents, pc) = Inr (ctx', parents', pc') \<and> pc_accs pc \<noteq> []"
  let ?A = "tableAttrs res cmd"
  let ?w = "tableWidthOf L ?A ctx"
  let ?c = "tableColumnsOf L ?A"
  let ?T = "last (acc_tables (pc_accs pc' ! pc_current pc'))"
  from handleTable_appended[of L res cmd ctx parents pc ctx' parents' pc'] a
  obtain b c0 y t h where b: "cmd_Block cmd = Some b"
    and tb: "tableBuild L res c0 (Statements b) ?w (tableRowGapOf L ?A) ?c y = Inr (t, h)"
    and cur: "pc_current pc' < length (pc_accs pc')"
      "acc_tables (pc_accs pc' ! pc_current pc') \<noteq> []"
    and t: "?T = t"
    by blast
  note f = tableBuild_facts[OF tb]
  show "\<exists>b n. cmd_Block cmd = Some b \<and> 0 < n \<and>
         pc_current pc' < length (pc_accs pc') \<and>
         acc_tables (pc_accs pc' ! pc_current pc') \<noteq> [] \<and>
         tbl_Width ?T = ?w \<and>
         tbl_ColumnWidths ?T = replicate n (?w / real n) \<and>
         (\<forall>k. attr ?A ''columns'' \<noteq> [] \<and> Atoi L (attr ?A ''columns'') = Some k \<and> 0 < k
              \<longrightarrow> n = nat k) \<and>
         (attr ?A ''columns'' = [] \<or> Atoi L (attr ?A ''columns'') = None \<or>
          (\<exists>k. Atoi L (attr ?A ''columns'') = Some k \<and> k \<le> 0) \<longrightarrow>
            (\<exists>hdr. firstHeader (Statements b) = Some hdr \<and> n = cellCount hdr))"
  proof (cases "?c = 0")
    case True
    from f(6)[OF True] obtain hdr where h: "firstHeader (Statements b) = Some hdr"
      "0 < cellCount hdr"
      "tbl_ColumnWidths t = replicate (cellCount hdr) (?w / real (cellCount hdr))"
      by blast
    have nk: "\<forall>k. attr ?A ''columns'' \<noteq> [] \<and> Atoi L (attr ?A ''columns'') = Some k \<and> 0 < k
              \<longrightarrow> cellCount hdr = nat k"
      using True by (auto simp: tableColumnsOf_zero_iff)
    from b cur t f(3) h nk show ?thesis
      by (intro exI[of _ b] exI[of _ "cellCount hdr"]) simp
  next
    case False
    have hd: "\<not> (attr ?A ''columns'' = [] \<or> Atoi L (attr ?A ''columns'') = None \<or>
          (\<exists>k. Atoi L (attr ?A ''columns'') = Some k \<and> k \<le> 0))"
      using False by (simp only: tableColumnsOf_zero_iff not_False_eq_True)
    have nk: "\<forall>k. attr ?A ''columns'' \<noteq> [] \<and> Atoi L (attr ?A ''columns'') = Some k \<and> 0 < k
              \<longrightarrow> ?c = nat k"
      by (auto intro: tableColumnsOf_explicit)
    from False have pos: "0 < ?c" by simp
    from b cur t f(3) f(5)[OF False] nk hd pos show ?thesis
      by (intro exI[of _ b] exI[of _ ?c]) auto
  qed
next
  assume a: "cmd_Block cmd = Some blk \<and> firstHeader (Statements blk) = None \<and>
    (attr (tableAttrs res cmd) ''columns'' = [] \<or>
     Atoi L (attr (tableAttrs res cmd) ''columns'') = None \<or>
     (\<exists>k. Atoi L (attr (tableAttrs res cmd) ''columns'') = Some k \<and> k \<le> 0))"
  then have c0: "tableColumnsOf L (tableAttrs res cmd) = 0"
    by (simp only: tableColumnsOf_zero_iff)
  have "\<exists>e. tableBuild L res ctx (Statements blk) (tableWidthOf L (tableAttrs res cmd) ctx)
           (tableRowGapOf L (tableAttrs res cmd)) 0 (fc_cursorY ctx) = Inl e"
  proof (cases "tableBuild L res ctx (Statements blk) (tableWidthOf L (tableAttrs res cmd) ctx)
           (tableRowGapOf L (tableAttrs res cmd)) 0 (fc_cursorY ctx)")
    case (Inl e)
    then show ?thesis by blast
  next
    case (Inr p)
    obtain t' h' where "p = (t', h')" by (cases p)
    with Inr tableBuild_facts(6)[of L res ctx "Statements blk" _ _ 0 "fc_cursorY ctx" t' h'] a
    show ?thesis by auto
  qed
  then obtain e where "tableBuild L res ctx (Statements blk) (tableWidthOf L (tableAttrs res cmd) ctx)
           (tableRowGapOf L (tableAttrs res cmd)) 0 (fc_cursorY ctx) = Inl e"
    by blast
  with a c0 have "handleTable L res cmd (ctx, parents, pc) = Inl e"
    by (simp add: handleTable_def tableAttrs_def Let_def)
  then show "\<exists>e. handleTable L res cmd (ctx, parents, pc) = Inl e" by blast
qed

theorem handleTable_column_count_witness:
  "(\<exists>ctx' pc'. handleTable sampleLib sampleRes tableWithHeader (sampleRoot, [], sampleCollector)
        = Inr (ctx', [], pc') \<and>
      tbl_ColumnWidths (last (acc_tables (pc_accs pc' ! pc_current pc')))
        = [170 / 3, 170 / 3, 170 / 3]) \<and>
   (\<exists>ctx' pc'. handleTable sampleLib sampleRes tableTwoColumns (sampleRoot, [], sampleCollector)
        = Inr (ctx', [], pc') \<and>
      tbl_ColumnWidths (last (acc_tables (pc_accs pc' ! pc_current pc'))) = [85, 85])"
proof -
  have ne: "pc_accs sampleCollector \<noteq> []" by (simp add: sampleCollector_simps)
  obtain t0 where t0: "tableBuild sampleLib sampleRes sampleRoot [stmtOf headerOfThree] 170 0 0 20
       = Inr (t0, 12 * 0.352777 + 2 * 1.2)"
    using sample_table[of "fc_cursorY sampleRoot" 20] by auto
  obtain t2 where t2: "tableBuild sampleLib sampleRes sampleRoot [stmtOf headerOfThree] 170 0 2 20
       = Inr (t2, 12 * 0.352777 + 2 * 1.2)"
    using sample_table_two[of 20] by blast
  have w: "tableWidthOf sampleLib Map.empty sampleRoot = 170"
    "tableWidthOf sampleLib [''columns'' \<mapsto> ''2''] sampleRoot = 170"
    by (simp_all add: tableWidthOf_def attr_def sampleRoot_simps)
  have at: "attr [''columns'' \<mapsto> ''2''] ''columns'' = ''2''" "attr Map.empty ''columns'' = []"
    "Atoi sampleLib ''2'' = Some 2"
    by (simp_all add: attr_def sample_defs)
  have fh: "firstHeader [stmtOf headerOfThree] = Some headerOfThree"
    by (simp add: stmtOf_def headerOfThree_def)
  have cc: "cellCount headerOfThree = 3"
    by (simp add: cellCount_def headerOfThree_def isCell_def stmtOf_def sample_literal)
  have e0: "\<exists>ctx' pc'. handleTable sampleLib sampleRes tableWithHeader
              (sampleRoot, [], sampleCollector) = Inr (ctx', [], pc')"
    by (simp add: handleTable_def tableWithHeader_def sample_parseArgs mergeStyleAttributes_def
          tableWidthOf_def tableRowGapOf_def tableColumnsOf_def attr_def sampleRoot_simps
          defaultTableRowGap_def t0 sampleCollector_simps updCurr_def Let_def)
  then obtain c0 p0 where ok0: "handleTable sampleLib sampleRes tableWithHeader
              (sampleRoot, [], sampleCollector) = Inr (c0, [], p0)"
    by (elim exE)
  have e2: "\<exists>ctx' pc'. handleTable sampleLib sampleRes tableTwoColumns
              (sampleRoot, [], sampleCollector) = Inr (ctx', [], pc')"
    by (simp add: handleTable_def tableTwoColumns_def parseArgs_def ident_def number_def
          mergeStyleAttributes_def
          tableWidthOf_def tableRowGapOf_def tableColumnsOf_def attr_def sampleRoot_simps
          defaultTableRowGap_def t2 sampleCollector_simps updCurr_def at(3) Let_def)
  then obtain c2 p2 where ok2: "handleTable sampleLib sampleRes tableTwoColumns
              (sampleRoot, [], sampleCollector) = Inr (c2, [], p2)"
    by (elim exE)
  from handleTable_column_count[of sampleLib sampleRes tableWithHeader sampleRoot "[]"
         sampleCollector c0 "[]" p0, THEN conjunct1] ok0 ne
  obtain b n where b: "cmd_Block tableWithHeader = Some b"
    and cw: "tbl_ColumnWidths (last (acc_tables (pc_accs p0 ! pc_current p0)))
           = replicate n (tableWidthOf sampleLib (tableAttrs sampleRes tableWithHeader) sampleRoot / real n)"
    and hd: "attr (tableAttrs sampleRes tableWithHeader) ''columns'' = [] \<longrightarrow>
            (\<exists>hdr. firstHeader (Statements b) = Some hdr \<and> n = cellCount hdr)"
    by blast
  from b have "b = Block [stmtOf headerOfThree]" by (simp add: tableWithHeader_def)
  with hd fh cc have "n = 3" by (simp add: sample_tableAttrs at)
  with cw have r0: "tbl_ColumnWidths (last (acc_tables (pc_accs p0 ! pc_current p0)))
        = [170 / 3, 170 / 3, 170 / 3]"
    by (simp add: sample_tableAttrs w numeral_3_eq_3)
  from handleTable_column_count[of sampleLib sampleRes tableTwoColumns sampleRoot "[]"
         sampleCollector c2 "[]" p2, THEN conjunct1] ok2 ne
  obtain b' m where
    cw': "tbl_ColumnWidths (last (acc_tables (pc_accs p2 ! pc_current p2)))
           = replicate m (tableWidthOf sampleLib (tableAttrs sampleRes tableTwoColumns) sampleRoot / real m)"
    and ex: "\<forall>k. attr (tableAttrs sampleRes tableTwoColumns) ''columns'' \<noteq> [] \<and>
              Atoi sampleLib (attr (tableAttrs sampleRes tableTwoColumns) ''columns'') = Some k \<and> 0 < k
              \<longrightarrow> m = nat k"
    by blast
  from ex have "m = 2" by (simp add: sample_tableAttrs at)
  with cw' have r2: "tbl_ColumnWidths (last (acc_tables (pc_accs p2 ! pc_current p2))) = [85, 85]"
    by (simp add: sample_tableAttrs w numeral_2_eq_2)
  from ok0 r0 ok2 r2 show ?thesis by blast
qed

text \<open>
  Claim C1 as it is written fails at a table with one \<^verbatim>\<open>row\<close> of one cell and no
  \<^verbatim>\<open>header\<close>: the column count is not taken from the first data row, it stays 0 and the
  table is refused.
\<close>

theorem handleTable_column_count_counterexample:
  "handleTable sampleLib sampleRes tableNoHeader (sampleRoot, [], sampleCollector)
     = Inl ErrTableNoCells"
  by (simp add: handleTable_def tableNoHeader_def sample_parseArgs mergeStyleAttributes_def
        tableWidthOf_def tableRowGapOf_def tableColumnsOf_def attr_def tableBuild_def
        stmtOf_def[of "Command ''row'' [] (Some (Block [stmtOf (Command ''cell'' [] (literal ''x''))]))"]
        sampleRoot_simps sample_row defaultTableRowGap_def Let_def)

text \<open>
  Claim C3. The collector holds a page. A table that is laid out is first built at the
  cursor. If the context allows page breaks and the cursor plus the table's height is
  beyond the bottom of the content area, the page is broken, the table is built again with
  its top at the top of the content area and is the one table of the new page, which
  becomes the current page; the pages before it are left as they were. Otherwise the table
  is appended to the current page. In both cases the table appended has one row for every
  \<^verbatim>\<open>header\<close> and \<^verbatim>\<open>row\<close> statement of the block, and the cursor moves below it.
\<close>

theorem handleTable_whole_on_one_page:
  assumes ok: "handleTable L res cmd (ctx, parents, pc) = Inr (ctx', parents', pc')"
    and ne: "pc_accs pc \<noteq> []"
  shows "\<exists>b w g c t0 h0 t h.
      cmd_Block cmd = Some b \<and>
      tableBuild L res ctx (Statements b) w g c (fc_cursorY ctx) = Inr (t0, h0) \<and>
      length (tbl_Rows t) = length (filter isRow (Statements b)) \<and>
      (if fc_allowPageBreak ctx \<and> fc_cursorY ctx + h0 > maxContentY pc
       then tableBuild L res (fst (pageBreak ctx parents pc)) (Statements b) w g c (contentTop pc)
              = Inr (t, h) \<and>
            tbl_Y t = contentTop pc \<and>
            pc_accs pc' = pc_accs pc @ [emptyAccumulator\<lparr>acc_tables := [t]\<rparr>] \<and>
            pc_current pc' = length (pc_accs pc) \<and>
            fc_cursorY ctx' = contentTop pc + (h + blockSpacing)
       else t = t0 \<and> h = h0 \<and> tbl_Y t = fc_cursorY ctx \<and>
            pc_current pc < length (pc_accs pc) \<and>
            pc_accs pc' = (pc_accs pc)[pc_current pc :=
                             appendTable t (pc_accs pc ! pc_current pc)] \<and>
            pc_current pc' = pc_current pc \<and>
            fc_cursorY ctx' = fc_cursorY ctx + (h + blockSpacing))"
proof -
  from ok obtain b where b: "cmd_Block cmd = Some b"
    unfolding handleTable_def by (auto split: option.splits)
  define attrs where "attrs = mergeStyleAttributes (fst (parseArgs (cmd_Args cmd) False))
                            (snd (parseArgs (cmd_Args cmd) False)) (Styles res)"
  define w where "w = tableWidthOf L attrs ctx"
  define g where "g = tableRowGapOf L attrs"
  define c where "c = tableColumnsOf L attrs"
  from ok b obtain t0 h0 where
    first: "tableBuild L res ctx (Statements b) w g c (fc_cursorY ctx) = Inr (t0, h0)"
    unfolding handleTable_def attrs_def w_def g_def c_def
    by (auto simp: Let_def split: sum.splits)
  show ?thesis
  proof (cases "fc_allowPageBreak ctx \<and> fc_cursorY ctx + h0 > maxContentY pc")
    case True
    obtain c1 ps1 pc1 where pb: "pageBreak ctx parents pc = (c1, ps1, pc1)"
      by (cases "pageBreak ctx parents pc") auto
    note pf = pageBreak_facts[OF pb]
    from ok b first True pb obtain t h pc2 where
      second: "tableBuild L res c1 (Statements b) w g c (fc_cursorY c1) = Inr (t, h)"
      and u: "updCurr (appendTable t) pc1 = Inr pc2"
      and r: "ctx' = c1\<lparr>fc_cursorY := fc_cursorY c1 + (h + blockSpacing)\<rparr>" "pc' = pc2"
      unfolding handleTable_def attrs_def w_def g_def c_def
      by (auto simp: Let_def split: sum.splits)
    have ne1: "pc_accs pc1 \<noteq> []" using pf by (simp add: newPage_simps)
    from updCurr_nonempty(1,2)[OF u ne1] pf
    have accs: "pc_accs pc2 = pc_accs pc @ [emptyAccumulator\<lparr>acc_tables := [t]\<rparr>]"
      and cur: "pc_current pc2 = length (pc_accs pc)"
      by (simp_all add: newPage_simps appendTable_def emptyAccumulator_def)
    from second pf have second': "tableBuild L res (fst (pageBreak ctx parents pc)) (Statements b)
        w g c (contentTop pc) = Inr (t, h)"
      by (simp add: pb)
    from tableBuild_facts(1,4)[OF second'] b first second' accs cur r pf True
    show ?thesis
      by (intro exI[of _ b] exI[of _ w] exI[of _ g] exI[of _ c] exI[of _ t0] exI[of _ h0]
                exI[of _ t] exI[of _ h]) simp
  next
    case False
    from ok b first False obtain pc2 where
      u: "updCurr (appendTable t0) pc = Inr pc2"
      and r: "ctx' = ctx\<lparr>fc_cursorY := fc_cursorY ctx + (h0 + blockSpacing)\<rparr>" "pc' = pc2"
      unfolding handleTable_def attrs_def w_def g_def c_def
      by (auto simp: Let_def split: sum.splits if_splits)
    from updCurr_nonempty(1,2,3)[OF u ne] tableBuild_facts(1,4)[OF first] b first r False
    show ?thesis
      by (intro exI[of _ b] exI[of _ w] exI[of _ g] exI[of _ c] exI[of _ t0] exI[of _ h0]
                exI[of _ t0] exI[of _ h0]) simp
  qed
qed

theorem handleTable_whole_on_one_page_witness:
  "\<exists>ctx' pc'. handleTable sampleLib sampleRes tableWithHeader
                  (sampleRoot\<lparr>fc_cursorY := 275\<rparr>, [], sampleCollector) = Inr (ctx', [], pc') \<and>
      length (pc_accs pc') = 2 \<and> pc_current pc' = 1 \<and>
      pc_accs pc' ! 0 = emptyAccumulator \<and>
      map tbl_Y (acc_tables (pc_accs pc' ! 1)) = [20] \<and>
      map (\<lambda>t. length (tbl_Rows t)) (acc_tables (pc_accs pc' ! 1)) = [1]"
proof -
  let ?ctx = "sampleRoot\<lparr>fc_cursorY := 275\<rparr>"
  obtain t0 where t0: "tableBuild sampleLib sampleRes ?ctx [stmtOf headerOfThree] 170 0 0 275
       = Inr (t0, 12 * 0.352777 + 2 * 1.2)"
    using sample_table[of 275 275] by blast
  obtain t1 where t1: "tableBuild sampleLib sampleRes (sampleRoot\<lparr>fc_cursorY := 20\<rparr>)
       [stmtOf headerOfThree] 170 0 0 20 = Inr (t1, 12 * 0.352777 + 2 * 1.2)"
    using sample_table[of 20 20] by blast
  have pb: "pageBreak ?ctx [] sampleCollector = (sampleRoot\<lparr>fc_cursorY := 20\<rparr>, [], newPage sampleCollector)"
    by (simp add: Let_def contentTop_newPage sampleCollector_simps sampleRoot_def rootContext_def
          sampleMargin_def)
  have ev: "\<exists>ctx' pc'. handleTable sampleLib sampleRes tableWithHeader (?ctx, [], sampleCollector)
              = Inr (ctx', [], pc') \<and> length (pc_accs pc') = 2"
    by (simp add: handleTable_def tableWithHeader_def sample_parseArgs mergeStyleAttributes_def
          tableWidthOf_def tableRowGapOf_def tableColumnsOf_def attr_def sampleRoot_simps
          defaultTableRowGap_def t0 t1 pb sampleCollector_simps updCurr_def newPage_simps Let_def
          del: pageBreak.simps)
  then obtain ctx' pc' where ok: "handleTable sampleLib sampleRes tableWithHeader
        (?ctx, [], sampleCollector) = Inr (ctx', [], pc')" and len: "length (pc_accs pc') = 2"
    by blast
  have ne: "pc_accs sampleCollector \<noteq> []" by (simp add: sampleCollector_simps)
  from handleTable_whole_on_one_page[OF ok ne] obtain b w g c u0 h0 t h where
    f1: "cmd_Block tableWithHeader = Some b"
    and f2: "length (tbl_Rows t) = length (filter isRow (Statements b))"
    and f3: "if fc_allowPageBreak ?ctx \<and> fc_cursorY ?ctx + h0 > maxContentY sampleCollector
       then tableBuild sampleLib sampleRes (fst (pageBreak ?ctx [] sampleCollector)) (Statements b)
              w g c (contentTop sampleCollector) = Inr (t, h) \<and>
            tbl_Y t = contentTop sampleCollector \<and>
            pc_accs pc' = pc_accs sampleCollector @ [emptyAccumulator\<lparr>acc_tables := [t]\<rparr>] \<and>
            pc_current pc' = length (pc_accs sampleCollector) \<and>
            fc_cursorY ctx' = contentTop sampleCollector + (h + blockSpacing)
       else t = u0 \<and> h = h0 \<and> tbl_Y t = fc_cursorY ?ctx \<and>
            pc_current sampleCollector < length (pc_accs sampleCollector) \<and>
            pc_accs pc' = (pc_accs sampleCollector)[pc_current sampleCollector :=
                             appendTable t (pc_accs sampleCollector ! pc_current sampleCollector)] \<and>
            pc_current pc' = pc_current sampleCollector \<and>
            fc_cursorY ctx' = fc_cursorY ?ctx + (h + blockSpacing)"
    by blast
  have g: "tbl_Y t = 20" "pc_accs pc' = [emptyAccumulator, emptyAccumulator\<lparr>acc_tables := [t]\<rparr>]"
    "pc_current pc' = 1"
  proof (atomize (full), cases "fc_allowPageBreak ?ctx \<and> fc_cursorY ?ctx + h0 > maxContentY sampleCollector")
    case True
    with f3 have "tbl_Y t = contentTop sampleCollector \<and>
            pc_accs pc' = pc_accs sampleCollector @ [emptyAccumulator\<lparr>acc_tables := [t]\<rparr>] \<and>
            pc_current pc' = length (pc_accs sampleCollector)"
      by (simp del: pageBreak.simps)
    then show "tbl_Y t = 20 \<and> pc_accs pc' = [emptyAccumulator, emptyAccumulator\<lparr>acc_tables := [t]\<rparr>] \<and>
       pc_current pc' = 1"
      by (simp add: sampleCollector_simps)
  next
    case False
    with f3 have "pc_accs pc' = (pc_accs sampleCollector)[pc_current sampleCollector :=
                             appendTable t (pc_accs sampleCollector ! pc_current sampleCollector)]"
      by (simp del: pageBreak.simps)
    then have "length (pc_accs pc') = 1" by (simp add: sampleCollector_simps)
    with len show "tbl_Y t = 20 \<and> pc_accs pc' = [emptyAccumulator, emptyAccumulator\<lparr>acc_tables := [t]\<rparr>] \<and>
       pc_current pc' = 1" by simp
  qed
  from f1 have "b = Block [stmtOf headerOfThree]" by (simp add: tableWithHeader_def)
  with f2 have "length (tbl_Rows t) = 1"
    by (simp add: isRow_def stmtOf_def headerOfThree_def)
  with g ok len show ?thesis by simp
qed

section \<open>Round trips between pt and mm\<close>

lemma expo_bounds:
  assumes "x \<noteq> 0"
  shows "2 powi (expo x) \<le> \<bar>x\<bar>" and "\<bar>x\<bar> < 2 powi (expo x + 1)"
proof -
  obtain p q where pq: "quotient_of \<bar>x\<bar> = (p, q)" by (cases "quotient_of \<bar>x\<bar>")
  then have q: "0 < q" and x: "\<bar>x\<bar> = of_int p / of_int q"
    by (simp_all add: quotient_of_denom_pos quotient_of_div)
  from assms have "0 < \<bar>x\<bar>" by simp
  with x q have p: "0 < p"
    by (simp add: zero_less_divide_iff)
  define k where "k = bitlen p - bitlen q"
  from bitlen_bounds[OF p] have p1: "(2::rat) ^ nat (bitlen p - 1) \<le> of_int p"
    and p2: "of_int p < (2::rat) ^ nat (bitlen p)"
    by (metis of_int_le_iff of_int_numeral of_int_power, metis of_int_less_iff of_int_numeral of_int_power)
  from bitlen_bounds[OF q] have q1: "(2::rat) ^ nat (bitlen q - 1) \<le> of_int q"
    and q2: "of_int q < (2::rat) ^ nat (bitlen q)"
    by (metis of_int_le_iff of_int_numeral of_int_power, metis of_int_less_iff of_int_numeral of_int_power)
  have bp: "1 \<le> bitlen p" and bq: "1 \<le> bitlen q"
    using p q bitlen_eq_zero_iff[of p] bitlen_eq_zero_iff[of q] bitlen_nonneg[of p] bitlen_nonneg[of q]
    by linarith+
  have P1: "(2::rat) powi (bitlen p - 1) \<le> of_int p" and P2: "of_int p < (2::rat) powi (bitlen p)"
    using p1 p2 bp by (simp_all add: power_int_def)
  have Q1: "(2::rat) powi (bitlen q - 1) \<le> of_int q" and Q2: "of_int q < (2::rat) powi (bitlen q)"
    using q1 q2 bq by (simp_all add: power_int_def)
  have qpos: "(0::rat) < of_int q" using q by simp
  have ppos: "(0::rat) < of_int p" using p by simp
  have lo: "(2::rat) powi (k - 1) < \<bar>x\<bar>"
  proof -
    have "k - 1 = (bitlen p - 1) - bitlen q" by (simp add: k_def)
    then have "(2::rat) powi (k - 1) = 2 powi (bitlen p - 1) / 2 powi (bitlen q)"
      by (simp only: power_int_diff[of "2::rat" "bitlen p - 1" "bitlen q", simplified])
    also have "\<dots> \<le> of_int p / 2 powi (bitlen q)"
      by (intro divide_right_mono P1) simp
    also have "\<dots> < of_int p / of_int q"
      by (intro divide_strict_left_mono Q2 ppos mult_pos_pos qpos) simp
    finally show ?thesis by (simp add: x)
  qed
  have hi: "\<bar>x\<bar> < (2::rat) powi (k + 1)"
  proof -
    have "\<bar>x\<bar> = of_int p / of_int q" by (rule x)
    also have "\<dots> < 2 powi (bitlen p) / of_int q"
      by (intro divide_strict_right_mono P2 qpos)
    also have "\<dots> \<le> 2 powi (bitlen p) / 2 powi (bitlen q - 1)"
      by (intro divide_left_mono Q1 mult_pos_pos qpos) simp_all
    also have "\<dots> = 2 powi (k + 1)"
    proof -
      have "k + 1 = bitlen p - (bitlen q - 1)" by (simp add: k_def)
      then show ?thesis
        by (simp only: power_int_diff[of "2::rat" "bitlen p" "bitlen q - 1", simplified])
    qed
    finally show ?thesis .
  qed
  have e: "expo x = (if 2 powi k \<le> \<bar>x\<bar> then k else k - 1)"
    by (simp add: expo_def pq k_def Let_def)
  show "2 powi (expo x) \<le> \<bar>x\<bar>"
    using lo by (simp add: e)
  show "\<bar>x\<bar> < 2 powi (expo x + 1)"
    using hi by (auto simp: e)
qed

lemma expo_eq:
  assumes "2 powi k \<le> \<bar>x\<bar>" "\<bar>x\<bar> < 2 powi (k + 1)"
  shows "expo x = k"
proof -
  have nz: "x \<noteq> 0"
  proof
    assume "x = 0"
    with assms(1) have "(2::rat) powi k \<le> 0" by simp
    moreover have "(0::rat) < 2 powi k" by simp
    ultimately show False by linarith
  qed
  note b = expo_bounds[OF nz]
  have "\<not> k + 1 \<le> expo x"
  proof
    assume "k + 1 \<le> expo x"
    then have "(2::rat) powi (k + 1) \<le> 2 powi (expo x)"
      by (intro power_int_increasing) simp_all
    with b(1) assms(2) show False by linarith
  qed
  moreover have "\<not> expo x + 1 \<le> k"
  proof
    assume "expo x + 1 \<le> k"
    then have "(2::rat) powi (expo x + 1) \<le> 2 powi k"
      by (intro power_int_increasing) simp_all
    with b(2) assms(1) show False by linarith
  qed
  ultimately show ?thesis by linarith
qed

lemma roundEven_error: "\<bar>of_int (roundEven y) - y\<bar> \<le> 1 / 2"
proof -
  have "of_int \<lfloor>y\<rfloor> \<le> y" "y < of_int \<lfloor>y\<rfloor> + 1"
    by linarith+
  then show ?thesis
    by (auto simp: roundEven_def Let_def)
qed

lemma round64_error:
  "\<bar>round64 x - x\<bar> \<le> \<bar>x\<bar> / 2 ^ 53 + 1 / 2 ^ 1075"
proof (cases "x = 0")
  case True
  then show ?thesis by (simp add: round64_def)
next
  case False
  define e where "e = max (expo x - 52) (- 1074)"
  define n where "n = roundEven (x / 2 powi e)"
  have r: "round64 x = of_int n * 2 powi e"
    using False by (simp add: round64_def e_def n_def Let_def)
  have pe: "(0::rat) < 2 powi e" by simp
  have "\<bar>of_int n * 2 powi e - x\<bar> = \<bar>of_int n - x / 2 powi e\<bar> * 2 powi e"
  proof -
    have "of_int n * 2 powi e - x = (of_int n - x / 2 powi e) * 2 powi e"
      using pe by (simp add: field_simps)
    then show ?thesis
      using pe by (simp add: abs_mult)
  qed
  also have "\<dots> \<le> (1 / 2) * 2 powi e"
    unfolding n_def by (intro mult_right_mono roundEven_error) simp
  finally have h: "\<bar>round64 x - x\<bar> \<le> 2 powi e / 2"
    by (simp add: r)
  have "(2::rat) powi e / 2 \<le> \<bar>x\<bar> / 2 ^ 53 + 1 / 2 ^ 1075"
  proof (cases "expo x - 52 \<le> - 1074")
    case True
    then have "e = - 1074" by (simp add: e_def)
    then have "(2::rat) powi e / 2 = 1 / 2 ^ 1075"
      by (simp add: power_int_minus field_simps)
    then show ?thesis by simp
  next
    case f: False
    then have "e = expo x - 52" by (simp add: e_def)
    then have "(2::rat) powi e = 2 powi (expo x) / 2 ^ 52"
      by (simp add: power_int_diff)
    also have "\<dots> \<le> \<bar>x\<bar> / 2 ^ 52"
      by (intro divide_right_mono expo_bounds(1)[OF False]) simp
    finally have "(2::rat) powi e / 2 \<le> \<bar>x\<bar> / 2 ^ 53"
      by simp
    then show ?thesis
      by (simp add: add_increasing2)
  qed
  with h show ?thesis by linarith
qed

lemma round64_eval:
  assumes "2 powi k \<le> \<bar>x\<bar>" "\<bar>x\<bar> < 2 powi (k + 1)"
    and "e = max (k - 52) (- 1074)"
    and "of_int f \<le> x / 2 powi e" "x / 2 powi e < of_int f + 1"
    and "n = (if x / 2 powi e - of_int f < 1 / 2 then f
              else if 1 / 2 < x / 2 powi e - of_int f then f + 1
              else if even f then f else f + 1)"
  shows "round64 x = of_int n * 2 powi e"
proof -
  have nz: "x \<noteq> 0"
  proof
    assume "x = 0"
    with assms(1) have "(2::rat) powi k \<le> 0" by simp
    moreover have "(0::rat) < 2 powi k" by simp
    ultimately show False by linarith
  qed
  have fl: "\<lfloor>x / 2 powi e\<rfloor> = f"
    using assms(4,5) by linarith
  show ?thesis
    using nz by (simp add: round64_def expo_eq[OF assms(1,2)] assms(3)[symmetric] roundEven_def
          fl assms(6) Let_def)
qed

lemma toFloat64_finite:
  "\<bar>round64 x\<bar> < 2 ^ 1024 \<Longrightarrow> toFloat64 x = Finite (round64 x)"
  by (auto simp: toFloat64_def Let_def)

lemma round64_PtToMm: "round64 PtToMm = 3177532731489763 / 9007199254740992"
  unfolding PtToMm_def
  by (rule round64_eval[where k = "-2" and e = "-54" and f = 6355065462979525
        and n = 6355065462979526, THEN trans]) simp_all

lemma round64_MmToPt: "round64 MmToPt = 1595767165720305 / 562949953421312"
  unfolding MmToPt_def PtToMm_def
  by (rule round64_eval[where k = 1 and e = "-51" and f = 6383068662881219
        and n = 6383068662881220, THEN trans]) simp_all

lemma toFloat64_PtToMm: "toFloat64 PtToMm = Finite (3177532731489763 / 9007199254740992)"
  by (simp add: toFloat64_def round64_PtToMm)

lemma toFloat64_MmToPt: "toFloat64 MmToPt = Finite (1595767165720305 / 562949953421312)"
  by (simp add: toFloat64_def round64_MmToPt)

lemma round64_product: "round64 (5070602400912918043187628737715 / 5070602400912917605986812821504) = 1"
  by (rule round64_eval[where k = 0 and e = "-52" and f = 4503599627370496
        and n = 4503599627370496, THEN trans]) simp_all

lemma To_pt_mm:
  "To \<lparr>l64_Value = Finite v, l64_Unit = UnitPT\<rparr> UnitMM
     = toFloat64 (v * (3177532731489763 / 9007199254740992))"
  by (simp add: To_def toFloat64_PtToMm)

lemma To_mm_pt:
  "To \<lparr>l64_Value = Finite v, l64_Unit = UnitMM\<rparr> UnitPT
     = toFloat64 (v * (1595767165720305 / 562949953421312))"
  by (simp add: To_def toFloat64_MmToPt)

lemma round_trip_bound:
  assumes a: "0 \<le> a" and b: "0 \<le> b" and v: "\<bar>v\<bar> \<le> V"
  shows "\<bar>round64 (v * a)\<bar> \<le> V * a + (V * a / 2 ^ 53 + 1 / 2 ^ 1075)"
    and "\<bar>round64 (round64 (v * a) * b)\<bar> \<le>
           (V * a + (V * a / 2 ^ 53 + 1 / 2 ^ 1075)) * b
           + ((V * a + (V * a / 2 ^ 53 + 1 / 2 ^ 1075)) * b / 2 ^ 53 + 1 / 2 ^ 1075)"
    and "\<bar>round64 (round64 (v * a) * b) - v\<bar> \<le>
           (V * a + (V * a / 2 ^ 53 + 1 / 2 ^ 1075)) * b / 2 ^ 53 + 1 / 2 ^ 1075
           + (V * a / 2 ^ 53 + 1 / 2 ^ 1075) * b + V * \<bar>a * b - 1\<bar>"
proof -
  define d1 where "d1 = V * a / 2 ^ 53 + 1 / 2 ^ 1075"
  define m where "m = round64 (v * a)"
  define r where "r = round64 (m * b)"
  have V0: "0 \<le> V" using v by linarith
  have x1: "\<bar>v * a\<bar> \<le> V * a"
    using a v by (simp add: abs_mult mult_right_mono)
  have e1: "\<bar>m - v * a\<bar> \<le> d1"
  proof -
    have "\<bar>m - v * a\<bar> \<le> \<bar>v * a\<bar> / 2 ^ 53 + 1 / 2 ^ 1075"
      unfolding m_def by (rule round64_error)
    also have "\<dots> \<le> V * a / 2 ^ 53 + 1 / 2 ^ 1075"
      using x1 by (simp add: divide_right_mono)
    finally show ?thesis by (simp add: d1_def)
  qed
  have mb: "\<bar>m\<bar> \<le> V * a + d1"
    using e1 x1 by linarith
  have x2: "\<bar>m * b\<bar> \<le> (V * a + d1) * b"
    using mb b by (simp add: abs_mult mult_right_mono)
  have e2: "\<bar>r - m * b\<bar> \<le> (V * a + d1) * b / 2 ^ 53 + 1 / 2 ^ 1075"
  proof -
    have "\<bar>r - m * b\<bar> \<le> \<bar>m * b\<bar> / 2 ^ 53 + 1 / 2 ^ 1075"
      unfolding r_def by (rule round64_error)
    also have "\<dots> \<le> (V * a + d1) * b / 2 ^ 53 + 1 / 2 ^ 1075"
      using x2 by (simp add: divide_right_mono)
    finally show ?thesis .
  qed
  have rb: "\<bar>r\<bar> \<le> (V * a + d1) * b + ((V * a + d1) * b / 2 ^ 53 + 1 / 2 ^ 1075)"
    using e2 x2 by linarith
  have s1: "\<bar>(m - v * a) * b\<bar> \<le> d1 * b"
    using e1 b by (simp add: abs_mult mult_right_mono)
  have s2: "\<bar>v * (a * b - 1)\<bar> \<le> V * \<bar>a * b - 1\<bar>"
    using v by (simp add: abs_mult mult_right_mono)
  have "m * b - v = (m - v * a) * b + v * (a * b - 1)"
    by (simp add: algebra_simps)
  then have "\<bar>m * b - v\<bar> \<le> d1 * b + V * \<bar>a * b - 1\<bar>"
    using s1 s2 by linarith
  with e2 have "\<bar>r - v\<bar> \<le> (V * a + d1) * b / 2 ^ 53 + 1 / 2 ^ 1075 + d1 * b + V * \<bar>a * b - 1\<bar>"
    by linarith
  then show "\<bar>round64 (round64 (v * a) * b) - v\<bar> \<le>
           (V * a + (V * a / 2 ^ 53 + 1 / 2 ^ 1075)) * b / 2 ^ 53 + 1 / 2 ^ 1075
           + (V * a / 2 ^ 53 + 1 / 2 ^ 1075) * b + V * \<bar>a * b - 1\<bar>"
    by (simp add: r_def m_def d1_def)
  from mb show "\<bar>round64 (v * a)\<bar> \<le> V * a + (V * a / 2 ^ 53 + 1 / 2 ^ 1075)"
    by (simp add: m_def d1_def)
  from rb show "\<bar>round64 (round64 (v * a) * b)\<bar> \<le>
           (V * a + (V * a / 2 ^ 53 + 1 / 2 ^ 1075)) * b
           + ((V * a + (V * a / 2 ^ 53 + 1 / 2 ^ 1075)) * b / 2 ^ 53 + 1 / 2 ^ 1075)"
    by (simp add: r_def m_def d1_def)
qed

lemma round_trip_pt:
  assumes "\<bar>v\<bar> \<le> 10 ^ 6"
  shows "\<exists>mm back.
      To \<lparr>l64_Value = Finite v, l64_Unit = UnitPT\<rparr> UnitMM = Finite mm \<and>
      To \<lparr>l64_Value = Finite mm, l64_Unit = UnitMM\<rparr> UnitPT = Finite back \<and>
      \<bar>back - v\<bar> \<le> 1 / 10 ^ 9"
proof -
  let ?a = "3177532731489763 / 9007199254740992 :: rat"
  let ?b = "1595767165720305 / 562949953421312 :: rat"
  note B = round_trip_bound[of ?a ?b v "10 ^ 6", OF _ _ assms]
  have m: "\<bar>round64 (v * ?a)\<bar> < 2 ^ 1024"
    using B(1) by simp
  have r: "\<bar>round64 (round64 (v * ?a) * ?b)\<bar> < 2 ^ 1024"
    using B(2) by simp
  have e: "\<bar>round64 (round64 (v * ?a) * ?b) - v\<bar> \<le> 1 / 10 ^ 9"
    using B(3) by simp
  from m r e show ?thesis
    by (simp add: To_pt_mm To_mm_pt toFloat64_finite)
qed

lemma round_trip_mm:
  assumes "\<bar>v\<bar> \<le> 10 ^ 6"
  shows "\<exists>pt back.
      To \<lparr>l64_Value = Finite v, l64_Unit = UnitMM\<rparr> UnitPT = Finite pt \<and>
      To \<lparr>l64_Value = Finite pt, l64_Unit = UnitPT\<rparr> UnitMM = Finite back \<and>
      \<bar>back - v\<bar> \<le> 1 / 10 ^ 9"
proof -
  let ?b = "3177532731489763 / 9007199254740992 :: rat"
  let ?a = "1595767165720305 / 562949953421312 :: rat"
  note B = round_trip_bound[of ?a ?b v "10 ^ 6", OF _ _ assms]
  have m: "\<bar>round64 (v * ?a)\<bar> < 2 ^ 1024"
    using B(1) by simp
  have r: "\<bar>round64 (round64 (v * ?a) * ?b)\<bar> < 2 ^ 1024"
    using B(2) by simp
  have e: "\<bar>round64 (round64 (v * ?a) * ?b) - v\<bar> \<le> 1 / 10 ^ 9"
    using B(3) by simp
  from m r e show ?thesis
    by (simp add: To_pt_mm To_mm_pt toFloat64_finite)
qed

text \<open>
  Claim C9, amended. The constants of \<^verbatim>\<open>units.go\<close> are exact: \<^verbatim>\<open>PtToMm * MmToPt\<close> is 1,
  and the product of the two float64 values they are rounded to is the float64 1. For
  every value \<open>v\<close> of magnitude at most \<open>10\<^sup>6\<close> (0 included), converting \<open>v\<close> pt to mm and
  back to pt with \<^verbatim>\<open>Length.To\<close>, and converting \<open>v\<close> mm to pt and back to mm, gives a
  finite float64 within \<open>10\<^sup>-\<^sup>9\<close> of \<open>v\<close>, every multiplication rounded to float64.
\<close>

theorem To_round_trip:
  "PtToMm * MmToPt = 1 \<and>
   mul64 (toFloat64 PtToMm) (toFloat64 MmToPt) = Finite 1 \<and>
   (\<bar>v\<bar> \<le> 10 ^ 6 \<longrightarrow>
      (\<exists>mm back.
         To \<lparr>l64_Value = Finite v, l64_Unit = UnitPT\<rparr> UnitMM = Finite mm \<and>
         To \<lparr>l64_Value = Finite mm, l64_Unit = UnitMM\<rparr> UnitPT = Finite back \<and>
         \<bar>back - v\<bar> \<le> 1 / 10 ^ 9) \<and>
      (\<exists>pt back.
         To \<lparr>l64_Value = Finite v, l64_Unit = UnitMM\<rparr> UnitPT = Finite pt \<and>
         To \<lparr>l64_Value = Finite pt, l64_Unit = UnitPT\<rparr> UnitMM = Finite back \<and>
         \<bar>back - v\<bar> \<le> 1 / 10 ^ 9))"
proof (intro conjI impI)
  show "PtToMm * MmToPt = 1"
    by (simp add: MmToPt_def PtToMm_def)
  show "mul64 (toFloat64 PtToMm) (toFloat64 MmToPt) = Finite 1"
    unfolding toFloat64_PtToMm toFloat64_MmToPt
    by (simp add: toFloat64_def round64_product Let_def)
next
  assume "\<bar>v\<bar> \<le> 10 ^ 6"
  then show "\<exists>mm back.
         To \<lparr>l64_Value = Finite v, l64_Unit = UnitPT\<rparr> UnitMM = Finite mm \<and>
         To \<lparr>l64_Value = Finite mm, l64_Unit = UnitMM\<rparr> UnitPT = Finite back \<and>
         \<bar>back - v\<bar> \<le> 1 / 10 ^ 9"
    by (rule round_trip_pt)
next
  assume "\<bar>v\<bar> \<le> 10 ^ 6"
  then show "\<exists>pt back.
         To \<lparr>l64_Value = Finite v, l64_Unit = UnitMM\<rparr> UnitPT = Finite pt \<and>
         To \<lparr>l64_Value = Finite pt, l64_Unit = UnitPT\<rparr> UnitMM = Finite back \<and>
         \<bar>back - v\<bar> \<le> 1 / 10 ^ 9"
    by (rule round_trip_mm)
qed

theorem To_round_trip_witness:
  "\<exists>mm back.
     To \<lparr>l64_Value = Finite 12, l64_Unit = UnitPT\<rparr> UnitMM = Finite mm \<and>
     To \<lparr>l64_Value = Finite mm, l64_Unit = UnitMM\<rparr> UnitPT = Finite back \<and>
     \<bar>back - 12\<bar> \<le> 1 / 10 ^ 9"
  using To_round_trip[of 12] by simp

lemma round64_sample_pt_mm: "round64 (6206118616190943359375 / 17592186044416) = 352777000"
  by (rule round64_eval[where k = 28 and e = "-24" and f = 5918615928832000
        and n = 5918615928832000, THEN trans]) simp_all

lemma round64_sample_pt_mm_pt: "round64 (70368744177664004623125 / 70368744177664) = 8388608000000001 / 8388608"
  by (rule round64_eval[where k = 29 and e = "-23" and f = 8388608000000000
        and n = 8388608000000001, THEN trans]) simp_all

lemma round64_sample_mm_pt: "round64 (3116732745547470703125 / 1099511627776) = 2972347970530959 / 1048576"
  by (rule round64_eval[where k = 31 and e = "-21" and f = 5944695941061917
        and n = 5944695941061918, THEN trans]) simp_all

lemma round64_sample_mm_pt_mm: "round64 (9444732965739291730410183072717 / 9444732965739290427392) = 8388608000000001 / 8388608"
  by (rule round64_eval[where k = 29 and e = "-23" and f = 8388608000000001
        and n = 8388608000000001, THEN trans]) simp_all

lemma round64_sample_value: "round64 1000000000 = 1000000000"
  by (rule round64_eval[where k = 29 and e = "-23" and f = 8388608000000000
        and n = 8388608000000000, THEN trans]) simp_all

text \<open>
  Claim C9 as it is written fails at the float64 \<open>10\<^sup>9\<close>: both round trips return
  \<open>10\<^sup>9 + 2\<^sup>-\<^sup>2\<^sup>3\<close>, which is more than \<open>10\<^sup>-\<^sup>9\<close> away.
\<close>

theorem To_round_trip_counterexample:
  "round64 1000000000 = 1000000000 \<and>
   To \<lparr>l64_Value = To \<lparr>l64_Value = Finite 1000000000, l64_Unit = UnitPT\<rparr> UnitMM,
       l64_Unit = UnitMM\<rparr> UnitPT = Finite (1000000000 + 1 / 8388608) \<and>
   To \<lparr>l64_Value = To \<lparr>l64_Value = Finite 1000000000, l64_Unit = UnitMM\<rparr> UnitPT,
       l64_Unit = UnitPT\<rparr> UnitMM = Finite (1000000000 + 1 / 8388608) \<and>
   \<not> \<bar>(1000000000 + 1 / 8388608) - 1000000000\<bar> \<le> (1 / 10 ^ 9 :: rat)"
  by (simp add: To_pt_mm To_mm_pt toFloat64_def round64_sample_pt_mm round64_sample_pt_mm_pt
        round64_sample_mm_pt round64_sample_mm_pt_mm round64_sample_value Let_def)

end
